(* ===== verification/Prelude.thy ===== *)
theory Prelude
  imports Complex_Main "HOL-Library.Sublist"
begin

text \<open>
  Shared vocabulary of the development: the JavaScript string primitives the
  sources call (\<open>String.prototype.substring\<close>, \<open>trim\<close>, \<open>includes\<close>,
  \<open>endsWith\<close>, \<open>replace\<close> with a string pattern, number-to-string), modelled from
  the ECMAScript definitions, and the generic list lemmas the component theories
  share.  A JavaScript string is a sequence of UTF-16 code units; here it is a HOL
  \<open>string\<close> whose characters stand for code units, so \<open>length\<close> is JavaScript's
  \<open>length\<close> on every string whose characters are single code units (all of ASCII).
  White space (\<open>\s\<close>, \<open>trim\<close>) is the ASCII white space set: tab, line feed,
  vertical tab, form feed, carriage return and space.
\<close>

named_theorems js_simps "evaluation equations of the JavaScript string primitives"

type_synonym js_string = string

subsection \<open>White space\<close>

definition is_js_space :: "char \<Rightarrow> bool" where
  "is_js_space c \<longleftrightarrow> of_char c = (32::nat) \<or> (9 \<le> (of_char c::nat) \<and> (of_char c::nat) \<le> 13)"

definition js_trim :: "js_string \<Rightarrow> js_string" where
  "js_trim s = rev (dropWhile is_js_space (rev (dropWhile is_js_space s)))"

subsection \<open>Substrings\<close>

text \<open>\<open>s.substring(a, b)\<close>: both indices clamped to \<open>[0, length]\<close>, swapped when
  \<open>a > b\<close>.\<close>

definition js_substring :: "js_string \<Rightarrow> nat \<Rightarrow> nat \<Rightarrow> js_string" where
  "js_substring s a b =
     (let n = length s; a' = min a n; b' = min b n
      in take (max a' b' - min a' b') (drop (min a' b') s))"

text \<open>\<open>s.includes(p)\<close> and \<open>s.endsWith(p)\<close>.\<close>

fun js_includes :: "js_string \<Rightarrow> js_string \<Rightarrow> bool" where
  "js_includes [] p = (p = [])"
| "js_includes (c # s) p = (take (length p) (c # s) = p \<or> js_includes s p)"

definition js_ends_with :: "js_string \<Rightarrow> js_string \<Rightarrow> bool" where
  "js_ends_with s p \<longleftrightarrow> length p \<le> length s \<and> drop (length s - length p) s = p"

text \<open>\<open>s.replace(pat, rep)\<close> with a string pattern: only the first occurrence is
  replaced; an empty pattern matches at position 0.\<close>

fun replace_first_str :: "js_string \<Rightarrow> js_string \<Rightarrow> js_string \<Rightarrow> js_string" where
  "replace_first_str [] pat rep = (if pat = [] then rep else [])"
| "replace_first_str (c # s) pat rep =
     (if take (length pat) (c # s) = pat then rep @ drop (length pat) (c # s)
      else c # replace_first_str s pat rep)"

text \<open>\<open>String(n)\<close> for a non-negative integer number.\<close>

fun nat_to_string :: "nat \<Rightarrow> js_string" where
  "nat_to_string n =
     (if n < 10 then [char_of (48 + n)]
      else nat_to_string (n div 10) @ [char_of (48 + n mod 10)])"

declare nat_to_string.simps [simp del]

text \<open>Truthiness of a \<open>string | null\<close> value in a condition such as
  \<open>settings.includeCover && pageData.coverImage\<close>: \<open>null\<close> and the empty string
  are false.\<close>

definition js_present :: "js_string option \<Rightarrow> bool" where
  "js_present x \<longleftrightarrow> (case x of None \<Rightarrow> False | Some v \<Rightarrow> v \<noteq> [])"

text \<open>\<open>a || b\<close> on strings: \<open>b\<close> when \<open>a\<close> is empty.\<close>

definition js_or_str :: "js_string \<Rightarrow> js_string \<Rightarrow> js_string" where
  "js_or_str a b = (if a = [] then b else a)"

text \<open>The outcome of a call to an external capability (\<open>request.json()\<close>,
  \<open>fetch\<close>, a browser or canvas library): it returns a value or throws an
  error carrying its \<open>message\<close>.\<close>

datatype 'a js_result = Returned 'a | Thrown js_string

subsection \<open>Lemmas on the primitives\<close>

lemma js_includes_iff [js_simps]: "js_includes s p \<longleftrightarrow> (\<exists>u v. s = u @ p @ v)"
proof (induction s)
  case Nil
  then show ?case by auto
next
  case (Cons c s)
  show ?case
  proof
    assume "js_includes (c # s) p"
    then consider "take (length p) (c # s) = p" | "js_includes s p" by auto
    then show "\<exists>u v. c # s = u @ p @ v"
    proof cases
      case 1
      then show ?thesis by (metis append_take_drop_id self_append_conv2)
    next
      case 2
      with Cons.IH obtain u v where "s = u @ p @ v" by blast
      then show ?thesis by (metis Cons_eq_appendI)
    qed
  next
    assume "\<exists>u v. c # s = u @ p @ v"
    then obtain u v where uv: "c # s = u @ p @ v" by blast
    show "js_includes (c # s) p"
    proof (cases u)
      case Nil
      with uv have "take (length p) (c # s) = p" by simp
      then show ?thesis by simp
    next
      case (Cons d u')
      with uv Cons.IH show ?thesis by auto
    qed
  qed
qed

lemma replace_first_str_absent:
  "\<not> js_includes s pat \<Longrightarrow> replace_first_str s pat rep = s"
  by (induction s) simp_all

text \<open>The first occurrence is the one replaced: no occurrence may start in \<open>u\<close>,
  also not one that overlaps the occurrence after it.\<close>

lemma replace_first_str_hit:
  "\<not> js_includes (u @ butlast pat) pat \<Longrightarrow> pat \<noteq> [] \<Longrightarrow>
   replace_first_str (u @ pat @ v) pat rep = u @ rep @ v"
proof (induction u)
  case Nil
  then show ?case by (cases pat) auto
next
  case (Cons c u)
  have split: "c # u @ pat @ v = (c # u @ butlast pat) @ (last pat # v)"
    using Cons.prems(2) by (metis append.assoc append_Cons append_butlast_last_id append_Cons append_Nil)
  have len: "length pat \<le> length (c # u @ butlast pat)"
    using Cons.prems(2) by (cases pat) auto
  have "take (length pat) (c # u @ butlast pat) \<noteq> pat"
    using Cons.prems(1) by simp
  then have "take (length pat) (c # u @ pat @ v) \<noteq> pat"
    by (simp only: split take_append len) simp
  moreover have "\<not> js_includes (u @ butlast pat) pat"
    using Cons.prems(1) by simp
  ultimately show ?case using Cons.IH Cons.prems(2) by simp
qed

lemma js_substring_take_drop:
  "a \<le> b \<Longrightarrow> js_substring s a b = take (b - a) (drop a s)"
  by (simp add: js_substring_def Let_def min_def max_def take_drop)

lemma is_js_space_simps [js_simps]:
  "is_js_space (CHR '' '')" "is_js_space (CHR ''\<newline>'')" "\<not> is_js_space (CHR ''a'')"
  by (simp_all add: is_js_space_def)

end
