(* ===== verification/NotionTypes.thy ===== *)
theory NotionTypes
  imports Prelude
begin

text \<open>
  The shared data model of \<open>src/types/notion.ts\<close>: the page record
  \<open>NotionPageData\<close> produced by the two extractors and consumed by the preview
  and the PDF generator, and the settings record \<open>ExportSettings\<close> edited in
  \<open>src/components/export-settings.tsx\<close>.  A TypeScript \<open>T | null\<close> is
  \<open>T option\<close>; an optional property (\<open>author?\<close>) is an option too.  JavaScript
  numbers that carry measurements (margins in millimetres, the font scale) are
  \<open>real\<close>.
\<close>

datatype icon_type = Emoji | Image

record notion_icon =
  icon_type :: icon_type
  icon_content :: js_string

record notion_page_data =
  title :: js_string
  icon :: "notion_icon option"
  coverImage :: "js_string option"
  content :: js_string
  backgroundColor :: "js_string option"
  originalHtml :: js_string
  author :: "js_string option"

record export_settings =
  pageSize :: js_string
  margins :: real
  preserveImages :: bool
  preserveFormatting :: bool
  smartPageBreaks :: bool
  includeIcon :: bool
  includeCover :: bool
  includeBackground :: bool
  fontScale :: real

text \<open>The settings the exporter starts with (\<open>notion-exporter.tsx\<close>, the initial
  value of the \<open>exportSettings\<close> state).\<close>

definition default_settings :: export_settings where
  "default_settings =
     \<lparr>pageSize = ''a4'', margins = 20, preserveImages = True, preserveFormatting = True,
      smartPageBreaks = True, includeIcon = True, includeCover = True,
      includeBackground = True, fontScale = 1\<rparr>"

end
