(* ===== verification/Preview.thy ===== *)
theory Preview
  imports NotionTypes
begin

text \<open>
  The live preview of \<open>src/components/pdf-preview.tsx\<close> (component
  \<open>PDFPreview\<close>): the length-estimate pagination run by its \<open>useEffect\<close>, the
  component state (\<open>currentPage\<close>, \<open>totalPages\<close>, \<open>zoomLevel\<close>, \<open>pages\<close>)
  with the four button handlers as a step function and a reachability predicate,
  and the page that \<open>pageContent()\<close> renders for the current state.
\<close>

subsection \<open>Length-estimate pagination (the \<open>useEffect\<close> body)\<close>

definition estimatedCharsPerPage :: nat where
  "estimatedCharsPerPage = 4000"

text \<open>\<open>Math.max(1, Math.ceil(contentLength / estimatedCharsPerPage))\<close>.\<close>

definition estimated_pages :: "nat \<Rightarrow> nat \<Rightarrow> nat" where
  "estimated_pages contentLength w = max 1 (nat \<lceil>real contentLength / real w\<rceil>)"

text \<open>The \<open>for\<close> loop that pushes \<open>content.substring(start, end)\<close> for
  \<open>i = 0 .. estimatedPages - 1\<close>; \<open>acc\<close> is \<open>pagesArray\<close>.\<close>

function build_pages :: "js_string \<Rightarrow> nat \<Rightarrow> nat \<Rightarrow> nat \<Rightarrow> js_string list \<Rightarrow> js_string list" where
  "build_pages str w n i acc =
     (if i < n then
        (let start = i * w; end' = min (start + w) (length str)
         in build_pages str w n (Suc i) (acc @ [js_substring str start end']))
      else acc)"
  by pat_completeness auto
termination
  by (relation "measure (\<lambda>(str, w, n, i, acc). n - i)") auto

declare build_pages.simps [simp del]

definition split_pages :: "nat \<Rightarrow> js_string \<Rightarrow> js_string list" where
  "split_pages w str = build_pages str w (estimated_pages (length str) w) 0 []"

subsection \<open>Component state and handlers\<close>

record preview_state =
  currentPage :: nat
  totalPages :: nat
  zoomLevel :: real
  pages :: "js_string list"

definition preview_init :: preview_state where
  "preview_init = \<lparr>currentPage = 1, totalPages = 1, zoomLevel = 7 / 10, pages = []\<rparr>"

text \<open>The effect on \<open>[pageData, settings]\<close>: nothing without page data, else the
  pages are recomputed wholesale and the view returns to page 1.\<close>

definition recompute_pages :: "notion_page_data option \<Rightarrow> preview_state \<Rightarrow> preview_state" where
  "recompute_pages pd s =
     (case pd of
        None \<Rightarrow> s
      | Some p \<Rightarrow>
          (let ps = split_pages estimatedCharsPerPage (content p)
           in s\<lparr>pages := ps, totalPages := length ps, currentPage := 1\<rparr>))"

definition nextPage :: "preview_state \<Rightarrow> preview_state" where
  "nextPage s = (if currentPage s < totalPages s then s\<lparr>currentPage := currentPage s + 1\<rparr> else s)"

definition prevPage :: "preview_state \<Rightarrow> preview_state" where
  "prevPage s = (if 1 < currentPage s then s\<lparr>currentPage := currentPage s - 1\<rparr> else s)"

text \<open>\<open>Math.round(x)\<close> is \<open>\<lfloor>x + 1/2\<rfloor>\<close>, which is HOL's \<open>round\<close>.\<close>

definition zoomIn :: "preview_state \<Rightarrow> preview_state" where
  "zoomIn s =
     (if zoomLevel s < 12 / 10
      then s\<lparr>zoomLevel := real_of_int (round ((zoomLevel s + 1 / 10) * 10)) / 10\<rparr> else s)"

definition zoomOut :: "preview_state \<Rightarrow> preview_state" where
  "zoomOut s =
     (if 3 / 10 < zoomLevel s
      then s\<lparr>zoomLevel := real_of_int (round ((zoomLevel s - 1 / 10) * 10)) / 10\<rparr> else s)"

datatype preview_event =
    PageDataChanged "notion_page_data option"
  | NextClicked
  | PrevClicked
  | ZoomInClicked
  | ZoomOutClicked

fun preview_step :: "preview_state \<Rightarrow> preview_event \<Rightarrow> preview_state" where
  "preview_step s (PageDataChanged pd) = recompute_pages pd s"
| "preview_step s NextClicked = nextPage s"
| "preview_step s PrevClicked = prevPage s"
| "preview_step s ZoomInClicked = zoomIn s"
| "preview_step s ZoomOutClicked = zoomOut s"

inductive preview_reachable :: "preview_state \<Rightarrow> bool" where
  init: "preview_reachable preview_init"
| step: "preview_reachable s \<Longrightarrow> preview_reachable (preview_step s e)"

text \<open>What the code keeps true between the fields: the current page is one of
  the pages, the page list (once computed) has \<open>totalPages\<close> entries, and the
  zoom level is a multiple of a tenth between 0.3 and 1.2.\<close>

definition zoom_ok :: "real \<Rightarrow> bool" where
  "zoom_ok z \<longleftrightarrow> z * 10 = real_of_int \<lfloor>z * 10\<rfloor> \<and> 3 \<le> \<lfloor>z * 10\<rfloor> \<and> \<lfloor>z * 10\<rfloor> \<le> 12"

definition preview_inv :: "preview_state \<Rightarrow> bool" where
  "preview_inv s \<longleftrightarrow>
     1 \<le> currentPage s \<and> currentPage s \<le> totalPages s \<and>
     (pages s \<noteq> [] \<longrightarrow> totalPages s = length (pages s)) \<and> zoom_ok (zoomLevel s)"

subsection \<open>The rendered page (\<open>pageContent()\<close>)\<close>

text \<open>What the preview draws for the current state: the page frame size, the cover
  strip, the title block with the icon, the background and text colours, the
  slice of content (\<open>pages[currentPage - 1] || ""\<close>) and the page-number label.
  \<open>None\<close> is the \<open>null\<close> returned without page data or before the pages are
  computed.\<close>

record page_view =
  view_width :: js_string
  view_height :: js_string
  view_cover :: "js_string option"
  view_title :: "js_string option"
  view_icon :: "notion_icon option"
  view_background :: js_string
  view_text_color :: js_string
  view_html :: js_string
  view_label :: js_string

definition page_slice :: "js_string list \<Rightarrow> nat \<Rightarrow> js_string" where
  "page_slice ps cur =
     (if 1 \<le> cur \<and> cur - 1 < length ps then js_or_str (ps ! (cur - 1)) [] else [])"

definition page_label :: "nat \<Rightarrow> nat \<Rightarrow> js_string" where
  "page_label cur tot = ''Page '' @ nat_to_string cur @ '' of '' @ nat_to_string tot"

definition pageContent :: "notion_page_data option \<Rightarrow> export_settings \<Rightarrow> preview_state \<Rightarrow> page_view option" where
  "pageContent pd st s =
     (case pd of
        None \<Rightarrow> None
      | Some p \<Rightarrow>
          (if pages s = [] then None
           else Some
            \<lparr>view_width = (if pageSize st = ''a4'' then ''210mm'' else ''8.5in''),
             view_height = (if pageSize st = ''a4'' then ''297mm'' else ''11in''),
             view_cover =
               (if includeCover st \<and> js_present (coverImage p) \<and> currentPage s = 1
                then coverImage p else None),
             view_title = (if currentPage s = 1 then Some (title p) else None),
             view_icon =
               (if currentPage s = 1 \<and> includeIcon st then icon p else None),
             view_background =
               (if includeBackground st \<and> js_present (backgroundColor p)
                then the (backgroundColor p) else ''white''),
             view_text_color =
               (if includeBackground st \<and> backgroundColor p = Some ''#191919''
                then ''white'' else ''black''),
             view_html = page_slice (pages s) (currentPage s),
             view_label = page_label (currentPage s) (totalPages s)\<rparr>))"

subsection \<open>Pagination: the loop computes fixed windows\<close>

lemma js_substring_window:
  "js_substring s a (min (a + w) (length s)) = take w (drop a s)"
  by (auto simp: js_substring_def Let_def min_def max_def)

lemma build_pages_eq:
  "build_pages c w n i acc = acc @ map (\<lambda>j. take w (drop (j * w) c)) [i..<n]"
proof (induction c w n i acc rule: build_pages.induct)
  case (1 c w n i acc)
  show ?case
  proof (cases "i < n")
    case True
    with "1.IH" show ?thesis
      by (simp add: build_pages.simps [of c w n i acc] js_substring_window upt_conv_Cons)
  next
    case False
    then show ?thesis by (simp add: build_pages.simps [of c w n i acc])
  qed
qed

lemma concat_windows:
  "concat (map (\<lambda>j. take w (drop (j * w) c)) [0..<n]) = take (n * w) c"
proof (induction n)
  case 0
  then show ?case by simp
next
  case (Suc n)
  have "take (n * w + w) c = take (n * w) c @ take w (drop (n * w) c)"
    by (rule take_add)
  with Suc show ?case by (simp add: add.commute)
qed

lemma estimated_pages_cover:
  assumes "0 < w" shows "length c \<le> estimated_pages (length c) w * w"
proof -
  define k where "k = \<lceil>real (length c) / real w\<rceil>"
  have w: "0 < real w" using assms by simp
  have "real (length c) / real w \<le> real_of_int k"
    unfolding k_def by (rule le_of_int_ceiling)
  then have le: "real (length c) \<le> real_of_int k * real w"
    using pos_divide_le_eq [OF w] by blast
  have "0 \<le> real (length c) / real w" by simp
  then have "0 \<le> k" unfolding k_def zero_le_ceiling by linarith
  then have eq: "real_of_int k = real (nat k)" by simp
  from le have "real (length c) \<le> real (nat k) * real w" by (simp only: eq)
  then have "length c \<le> nat k * w" by (metis of_nat_le_iff of_nat_mult)
  moreover have "nat k * w \<le> max 1 (nat k) * w" by simp
  ultimately show ?thesis
    unfolding estimated_pages_def k_def [symmetric] by (rule le_trans)
qed

lemma split_pages_eq:
  "split_pages w c = map (\<lambda>j. take w (drop (j * w) c)) [0..<estimated_pages (length c) w]"
  by (simp add: split_pages_def build_pages_eq)

text \<open>Claim C1: for a window of \<open>w > 0\<close> characters the preview produces
  \<open>max 1 (ceil (length content / w))\<close> pages.\<close>

theorem split_pages_count:
  "0 < w \<Longrightarrow> length (split_pages w c) = max 1 (nat \<lceil>real (length c) / real w\<rceil>)"
  by (simp add: split_pages_eq estimated_pages_def)

theorem split_pages_count_witness:
  "(0::nat) < 4000 \<and> length (split_pages 4000 (replicate 9000 CHR ''a'')) = 3"
  using split_pages_count [of 4000 "replicate 9000 CHR ''a''"] by simp

text \<open>Claim C2: concatenating the preview pages gives back the content exactly,
  without loss or duplication.\<close>

theorem split_pages_concat:
  "0 < w \<Longrightarrow> concat (split_pages w c) = c"
  by (simp add: split_pages_eq concat_windows estimated_pages_cover)

theorem split_pages_concat_witness:
  "(0::nat) < 4000 \<and> length (concat (split_pages 4000 (replicate 9000 CHR ''a''))) = 9000"
  using split_pages_concat [of 4000 "replicate 9000 CHR ''a''"] by simp

lemma nat_ceiling_gt:
  assumes "0 \<le> x" "i < nat \<lceil>x\<rceil>" shows "real i < x"
proof -
  have "int i < \<lceil>x\<rceil>" using assms by linarith
  then show ?thesis by (simp add: less_ceiling_iff)
qed

text \<open>Claim C3: every preview page holds at most \<open>w\<close> characters, and every
  page but the last exactly \<open>w\<close>: the pagination never produces a short
  page before the end.\<close>

theorem split_pages_slice_bounds:
  assumes "0 < w" "i < length (split_pages w c)"
  shows "length (split_pages w c ! i) \<le> w \<and>
         (Suc i < length (split_pages w c) \<longrightarrow> length (split_pages w c ! i) = w)"
proof -
  have sl: "split_pages w c ! i = take w (drop (i * w) c)"
    using assms(2) by (simp add: split_pages_eq)
  have full: "length (split_pages w c ! i) = w" if "Suc i < length (split_pages w c)"
  proof -
    have "Suc i < nat \<lceil>real (length c) / real w\<rceil>"
      using that by (simp add: split_pages_eq estimated_pages_def)
    then have "real (Suc i) < real (length c) / real w" by (rule nat_ceiling_gt [rotated]) simp
    then have "real (Suc i) * real w < real (length c)" using assms(1) by (simp add: pos_less_divide_eq)
    then have "Suc i * w < length c" by (metis of_nat_less_iff of_nat_mult)
    then show ?thesis unfolding sl by (simp add: algebra_simps)
  qed
  show ?thesis using full sl by simp
qed

theorem split_pages_slice_bounds_witness:
  "length (split_pages 4000 (replicate 9000 CHR ''a'') ! 1) = 4000"
proof -
  have n: "length (split_pages 4000 (replicate 9000 CHR ''a'')) = 3"
    by (simp add: split_pages_eq estimated_pages_def ceiling_eq_iff)
  from split_pages_slice_bounds [of 4000 1 "replicate 9000 CHR ''a''"] n show ?thesis by simp
qed

subsection \<open>The preview state machine keeps its invariant\<close>

lemma zoom_okI: "x * 10 = real_of_int k \<Longrightarrow> 3 \<le> k \<Longrightarrow> k \<le> 12 \<Longrightarrow> zoom_ok x"
  by (simp add: zoom_ok_def)

lemma zoomIn_ok: "zoom_ok (zoomLevel s) \<Longrightarrow> zoom_ok (zoomLevel (zoomIn s))"
proof -
  assume ok: "zoom_ok (zoomLevel s)"
  define k where "k = \<lfloor>zoomLevel s * 10\<rfloor>"
  have zk: "zoomLevel s * 10 = real_of_int k" using ok by (simp add: zoom_ok_def k_def)
  have "(zoomLevel s + 1 / 10) * 10 = real_of_int (k + 1)" using zk by (simp add: distrib_right)
  then have r: "round ((zoomLevel s + 1 / 10) * 10) = k + 1" by (metis round_of_int)
  show ?thesis
  proof (cases "zoomLevel s < 12 / 10")
    case True
    then have "k < 12" using zk by linarith
    moreover have "3 \<le> k" using ok by (simp add: zoom_ok_def k_def)
    ultimately have "3 \<le> k + 1" "k + 1 \<le> 12" by linarith+
    moreover have "zoomLevel (zoomIn s) * 10 = real_of_int (k + 1)"
      using True r by (simp add: zoomIn_def)
    ultimately show ?thesis by (intro zoom_okI)
  next
    case False
    then show ?thesis using ok by (simp add: zoomIn_def)
  qed
qed

lemma zoomOut_ok: "zoom_ok (zoomLevel s) \<Longrightarrow> zoom_ok (zoomLevel (zoomOut s))"
proof -
  assume ok: "zoom_ok (zoomLevel s)"
  define k where "k = \<lfloor>zoomLevel s * 10\<rfloor>"
  have zk: "zoomLevel s * 10 = real_of_int k" using ok by (simp add: zoom_ok_def k_def)
  have "(zoomLevel s - 1 / 10) * 10 = real_of_int (k - 1)" using zk by (simp add: left_diff_distrib)
  then have r: "round ((zoomLevel s - 1 / 10) * 10) = k - 1" by (metis round_of_int)
  show ?thesis
  proof (cases "3 / 10 < zoomLevel s")
    case True
    then have "3 < k" using zk by linarith
    moreover have "k \<le> 12" using ok by (simp add: zoom_ok_def k_def)
    ultimately have "3 \<le> k - 1" "k - 1 \<le> 12" by linarith+
    moreover have "zoomLevel (zoomOut s) * 10 = real_of_int (k - 1)"
      using True r by (simp add: zoomOut_def)
    ultimately show ?thesis by (intro zoom_okI)
  next
    case False
    then show ?thesis using ok by (simp add: zoomOut_def)
  qed
qed

lemma length_split_pages: "length (split_pages w c) = estimated_pages (length c) w"
  by (simp add: split_pages_eq)

lemma estimated_pages_pos: "Suc 0 \<le> estimated_pages n w"
  by (simp add: estimated_pages_def)

lemma preview_inv_init: "preview_inv preview_init"
  by (simp add: preview_inv_def preview_init_def zoom_ok_def)

lemma preview_step_inv: "preview_inv s \<Longrightarrow> preview_inv (preview_step s e)"
proof (cases e)
  case (PageDataChanged pd)
  assume "preview_inv s"
  then show ?thesis using PageDataChanged
    by (auto simp: preview_inv_def recompute_pages_def Let_def length_split_pages
        estimated_pages_pos split: option.splits)
next
  case NextClicked
  assume "preview_inv s"
  then show ?thesis using NextClicked by (auto simp: preview_inv_def nextPage_def)
next
  case PrevClicked
  assume "preview_inv s"
  then show ?thesis using PrevClicked by (auto simp: preview_inv_def prevPage_def)
next
  case ZoomInClicked
  assume "preview_inv s"
  then show ?thesis using ZoomInClicked zoomIn_ok
    by (simp add: preview_inv_def) (simp add: zoomIn_def)
next
  case ZoomOutClicked
  assume "preview_inv s"
  then show ?thesis using ZoomOutClicked zoomOut_ok
    by (simp add: preview_inv_def) (simp add: zoomOut_def)
qed

lemma preview_reachable_inv: "preview_reachable s \<Longrightarrow> preview_inv s"
  by (induction rule: preview_reachable.induct) (auto intro: preview_inv_init preview_step_inv)

text \<open>Claim C4: in every reachable preview state the page number stays between 1
  and the page count, and the zoom level stays between 0.3 and 1.2.\<close>

theorem preview_state_bounds:
  "preview_reachable s \<Longrightarrow>
   1 \<le> currentPage s \<and> currentPage s \<le> totalPages s \<and> 3 / 10 \<le> zoomLevel s \<and> zoomLevel s \<le> 12 / 10"
proof -
  assume "preview_reachable s"
  then have inv: "preview_inv s" by (rule preview_reachable_inv)
  then have "zoom_ok (zoomLevel s)" by (simp add: preview_inv_def)
  then have "3 \<le> zoomLevel s * 10" "zoomLevel s * 10 \<le> 12"
    unfolding zoom_ok_def by linarith+
  with inv show ?thesis by (simp add: preview_inv_def)
qed

theorem preview_state_bounds_witness:
  "preview_reachable (preview_step preview_init ZoomInClicked) \<and>
   zoomLevel (preview_step preview_init ZoomInClicked) \<le> 12 / 10"
proof -
  have r: "preview_reachable (preview_step preview_init ZoomInClicked)"
    by (intro preview_reachable.step preview_reachable.init)
  from preview_state_bounds [OF r] r show ?thesis by simp
qed

subsection \<open>What the rendered page shows\<close>

text \<open>Claim C5: the preview draws the cover strip exactly when the cover is
  enabled in the settings, the page has a (non-empty) cover image, and the current
  page is the first; with \<open>includeCover\<close> off no page shows a cover.\<close>

theorem pageContent_cover_only_first:
  "pageContent (Some p) st s = Some v \<Longrightarrow>
   (view_cover v \<noteq> None \<longleftrightarrow> includeCover st \<and> js_present (coverImage p) \<and> currentPage s = 1)"
  by (auto simp: pageContent_def js_present_def split: if_splits option.splits)

theorem pageContent_cover_only_first_witness:
  "pageContent (Some \<lparr>title = ''T'', icon = None, coverImage = Some ''c.png'', content = ''x'',
      backgroundColor = None, originalHtml = '''', author = None\<rparr>)
     (default_settings\<lparr>includeCover := False\<rparr>) (preview_init\<lparr>pages := [''x'']\<rparr>) \<noteq> None \<and>
   view_cover (the (pageContent (Some \<lparr>title = ''T'', icon = None, coverImage = Some ''c.png'', content = ''x'',
      backgroundColor = None, originalHtml = '''', author = None\<rparr>)
     (default_settings\<lparr>includeCover := False\<rparr>) (preview_init\<lparr>pages := [''x'']\<rparr>))) = None"
proof -
  let ?p = "\<lparr>title = ''T'', icon = None, coverImage = Some ''c.png'', content = ''x'',
      backgroundColor = None, originalHtml = '''', author = None\<rparr>"
  let ?st = "default_settings\<lparr>includeCover := False\<rparr>"
  let ?s = "preview_init\<lparr>pages := [''x'']\<rparr>"
  have some: "pageContent (Some ?p) ?st ?s \<noteq> None"
    by (simp add: pageContent_def preview_init_def)
  then obtain v where v: "pageContent (Some ?p) ?st ?s = Some v" by blast
  have "view_cover v = None"
    using pageContent_cover_only_first [OF v] by (simp add: default_settings_def)
  with v some show ?thesis by simp
qed

text \<open>Claim C6: in every reachable preview state with computed pages, the
  current page number indexes an existing slice and that slice is what is drawn.\<close>

theorem preview_shows_current_slice:
  "preview_reachable s \<Longrightarrow> pages s \<noteq> [] \<Longrightarrow>
   currentPage s - 1 < length (pages s) \<and> page_slice (pages s) (currentPage s) = pages s ! (currentPage s - 1)"
proof -
  assume r: "preview_reachable s" and ne: "pages s \<noteq> []"
  from r have "preview_inv s" by (rule preview_reachable_inv)
  with ne have "1 \<le> currentPage s" "currentPage s - 1 < length (pages s)"
    by (auto simp: preview_inv_def)
  then show ?thesis by (simp add: page_slice_def js_or_str_def)
qed

theorem preview_shows_current_slice_witness:
  "preview_reachable (preview_step (preview_step preview_init
      (PageDataChanged (Some \<lparr>title = ''T'', icon = None, coverImage = None,
        content = replicate 9000 CHR ''a'', backgroundColor = None, originalHtml = '''', author = None\<rparr>)))
      NextClicked) \<and>
   page_slice [replicate 4000 CHR ''a'', replicate 4000 CHR ''a'', replicate 1000 CHR ''a''] 2 = replicate 4000 CHR ''a''"
proof -
  let ?s = "preview_step (preview_step preview_init
      (PageDataChanged (Some \<lparr>title = ''T'', icon = None, coverImage = None,
        content = replicate 9000 CHR ''a'', backgroundColor = None, originalHtml = '''', author = None\<rparr>)))
      NextClicked"
  have r: "preview_reachable ?s"
    by (intro preview_reachable.step preview_reachable.init)
  have ps: "pages ?s = [replicate 4000 CHR ''a'', replicate 4000 CHR ''a'', replicate 1000 CHR ''a'']"
    by (simp add: recompute_pages_def nextPage_def split_pages_eq estimated_pages_def
        estimatedCharsPerPage_def preview_init_def upt_rec)
  have cp: "currentPage ?s = 2"
    by (simp add: recompute_pages_def nextPage_def length_split_pages estimated_pages_def
        estimatedCharsPerPage_def preview_init_def)
  from preview_shows_current_slice [OF r] ps cp r show ?thesis by simp
qed

end
