(* ===== verification/PreviewToolbar.thy ===== *)
theory PreviewToolbar
  imports Preview
begin

text \<open>
  The toolbar of \<open>PDFPreview\<close> (\<open>src/components/pdf-preview.tsx\<close> lines
  147-181): the zoom buttons with the zoom percentage between them and the page
  buttons with the page label.  Each button's \<open>disabled\<close> flag is computed
  from the state independently of its handler's guard; the lemmas show the two
  agree in every reachable state.
\<close>

record toolbar_view =
  zoom_out_disabled :: bool
  zoom_label :: int
  zoom_in_disabled :: bool
  prev_disabled :: bool
  page_text :: js_string
  next_disabled :: bool

definition toolbar :: "preview_state \<Rightarrow> toolbar_view" where
  "toolbar s =
     \<lparr>zoom_out_disabled = (zoomLevel s \<le> 3 / 10),
      zoom_label = round (zoomLevel s * 100),
      zoom_in_disabled = (12 / 10 \<le> zoomLevel s),
      prev_disabled = (currentPage s \<le> 1),
      page_text = ''Page '' @ nat_to_string (currentPage s) @ '' of '' @ nat_to_string (totalPages s),
      next_disabled = (totalPages s \<le> currentPage s)\<rparr>"

text \<open>The card the component returns (lines 147-181): the toolbar, the page drawn
  by \<open>pageContent()\<close> in the scroll area, and the caption below it.\<close>

record preview_card_view =
  pc_toolbar :: toolbar_view
  pc_page :: "page_view option"
  pc_caption :: js_string

definition preview_card :: "notion_page_data option \<Rightarrow> export_settings \<Rightarrow> preview_state \<Rightarrow> preview_card_view" where
  "preview_card pd st s =
     \<lparr>pc_toolbar = toolbar s, pc_page = pageContent pd st s,
      pc_caption = ''This preview shows how your Notion page will appear in the exported PDF''\<rparr>"

subsection \<open>The toolbar and the drawn page agree on the page number\<close>

lemma preview_card_page_label:
  assumes "pc_page (preview_card pd st s) = Some v"
  shows "view_label v = page_text (pc_toolbar (preview_card pd st s))"
  using assms by (auto simp: preview_card_def pageContent_def toolbar_def page_label_def split: option.splits if_splits)

subsection \<open>Zoom steps are exact tenths\<close>

lemma zoom_ok_tenths:
  assumes "zoom_ok z"
  obtains k :: int where "z * 10 = real_of_int k" "3 \<le> k" "k \<le> 12"
  using assms by (auto simp: zoom_ok_def)

lemma zoomIn_step:
  assumes "zoom_ok (zoomLevel s)" "zoomLevel s < 12 / 10"
  shows "zoomLevel (zoomIn s) = zoomLevel s + 1 / 10"
proof -
  obtain k :: int where k: "zoomLevel s * 10 = real_of_int k" using assms(1) by (rule zoom_ok_tenths)
  have "(zoomLevel s + 1 / 10) * 10 = real_of_int (k + 1)" using k by (simp add: distrib_right)
  then have "round ((zoomLevel s + 1 / 10) * 10) = k + 1" by (metis round_of_int)
  with assms(2) k show ?thesis by (simp add: zoomIn_def)
qed

lemma zoomOut_step:
  assumes "zoom_ok (zoomLevel s)" "3 / 10 < zoomLevel s"
  shows "zoomLevel (zoomOut s) = zoomLevel s - 1 / 10"
proof -
  obtain k :: int where k: "zoomLevel s * 10 = real_of_int k" using assms(1) by (rule zoom_ok_tenths)
  have "(zoomLevel s - 1 / 10) * 10 = real_of_int (k - 1)" using k by (simp add: left_diff_distrib)
  then have "round ((zoomLevel s - 1 / 10) * 10) = k - 1" by (metis round_of_int)
  with assms(2) k show ?thesis by (simp add: zoomOut_def)
qed

lemma zoom_label_tenths:
  assumes "zoom_ok z"
  shows "round (z * 100) mod 10 = 0 \<and> 30 \<le> round (z * 100) \<and> round (z * 100) \<le> 120"
proof -
  obtain k :: int where k: "z * 10 = real_of_int k" "3 \<le> k" "k \<le> 12" using assms by (rule zoom_ok_tenths)
  have "z * 100 = real_of_int (10 * k)" using k(1) by simp
  then have "round (z * 100) = 10 * k" by (metis round_of_int)
  with k show ?thesis by simp
qed

lemma state_changed_iff:
  "s\<lparr>currentPage := c\<rparr> = s \<longleftrightarrow> c = currentPage s"
  "s\<lparr>zoomLevel := z\<rparr> = s \<longleftrightarrow> z = zoomLevel s"
  by (cases s; auto)+

text \<open>Claim C34: in every state the preview can reach, each toolbar button is
  disabled exactly when its handler would leave the state unchanged, and the
  zoom label is a multiple of 10 between 30 and 120 per cent.\<close>

theorem toolbar_matches_handlers:
  assumes "preview_reachable s"
  shows "(next_disabled (toolbar s) \<longleftrightarrow> nextPage s = s) \<and>
         (prev_disabled (toolbar s) \<longleftrightarrow> prevPage s = s) \<and>
         (zoom_in_disabled (toolbar s) \<longleftrightarrow> zoomIn s = s) \<and>
         (zoom_out_disabled (toolbar s) \<longleftrightarrow> zoomOut s = s) \<and>
         zoom_label (toolbar s) mod 10 = 0 \<and> 30 \<le> zoom_label (toolbar s) \<and> zoom_label (toolbar s) \<le> 120"
proof -
  have inv: "preview_inv s" using assms by (rule preview_reachable_inv)
  then have z: "zoom_ok (zoomLevel s)" by (simp add: preview_inv_def)
  have zi: "zoomIn s = s \<longleftrightarrow> \<not> zoomLevel s < 12 / 10"
  proof
    assume "zoomIn s = s"
    then show "\<not> zoomLevel s < 12 / 10" using zoomIn_step [OF z] by fastforce
  qed (simp add: zoomIn_def)
  have zo: "zoomOut s = s \<longleftrightarrow> \<not> 3 / 10 < zoomLevel s"
  proof
    assume "zoomOut s = s"
    then show "\<not> 3 / 10 < zoomLevel s" using zoomOut_step [OF z] by fastforce
  qed (simp add: zoomOut_def)
  show ?thesis
    using zi zo zoom_label_tenths [OF z]
    by (auto simp: toolbar_def nextPage_def prevPage_def state_changed_iff)
qed

theorem toolbar_matches_handlers_witness:
  "(next_disabled (toolbar preview_init) \<longleftrightarrow> nextPage preview_init = preview_init) \<and>
   (prev_disabled (toolbar preview_init) \<longleftrightarrow> prevPage preview_init = preview_init) \<and>
   (zoom_in_disabled (toolbar preview_init) \<longleftrightarrow> zoomIn preview_init = preview_init) \<and>
   (zoom_out_disabled (toolbar preview_init) \<longleftrightarrow> zoomOut preview_init = preview_init) \<and>
   zoom_label (toolbar preview_init) mod 10 = 0 \<and> 30 \<le> zoom_label (toolbar preview_init) \<and>
   zoom_label (toolbar preview_init) \<le> 120"
  by (rule toolbar_matches_handlers) (rule preview_reachable.init)

end
