(* ===== verification/JsRegex.thy ===== *)
theory JsRegex
  imports Prelude
begin

text \<open>
  The part of ECMAScript's \<open>RegExp\<close> semantics the sources use: literals,
  character classes (\<open>[^...]\<close>, \<open>\s\<close>, \<open>[\s\S]\<close>, \<open>.\<close>), concatenation,
  alternation, greedy and lazy \<open>*\<close>, capture groups, the \<open>i\<close> flag, and the
  operations \<open>String.prototype.match\<close> (without \<open>g\<close>) and
  \<open>String.prototype.replace\<close> (with \<open>g\<close>, replacement patterns with
  \<open>$n\<close>).  It is a runtime model, written from the ECMAScript specification
  (22.2.2, 22.1.3.18), not repository code.

  The matcher returns the list of all ways the pattern can match at the front of
  the input, in the order the backtracking engine tries them; the engine's
  result is the first.  Each result is the remaining input and the captures
  made (newest first).  As in ECMAScript (RepeatMatcher, step 2.b), an iteration
  of a star that matches the empty string is not taken, which makes every
  match finite.  The \<open>i\<close> flag folds ASCII letters.
\<close>

subsection \<open>Syntax\<close>

datatype cclass =
    CLit char          \<comment> \<open>a literal character\<close>
  | CNot "char list"   \<comment> \<open>\<open>[^...]\<close>\<close>
  | CSpace             \<comment> \<open>\<open>\s\<close>\<close>
  | CAny               \<comment> \<open>\<open>[\s\S]\<close>\<close>
  | CDot               \<comment> \<open>\<open>.\<close>: any character but a line terminator\<close>

datatype rx =
    REmpty
  | RChar cclass
  | RSeq rx rx
  | RAlt rx rx
  | RStar bool rx      \<comment> \<open>\<open>RStar True r\<close> is \<open>r*\<close>, \<open>RStar False r\<close> is \<open>r*?\<close>\<close>
  | RGroup nat rx      \<comment> \<open>capture group number \<open>n\<close>\<close>

type_synonym caps = "(nat \<times> js_string) list"

text \<open>Derived forms: \<open>r+\<close>, \<open>r?\<close>, a literal string, a sequence.\<close>

definition rplus :: "rx \<Rightarrow> rx" where
  "rplus r = RSeq r (RStar True r)"

definition ropt :: "rx \<Rightarrow> rx" where
  "ropt r = RAlt r REmpty"

fun rlit :: "js_string \<Rightarrow> rx" where
  "rlit [] = REmpty"
| "rlit (c # cs) = RSeq (RChar (CLit c)) (rlit cs)"

fun rseq :: "rx list \<Rightarrow> rx" where
  "rseq [] = REmpty"
| "rseq [r] = r"
| "rseq (r # rs) = RSeq r (rseq rs)"

subsection \<open>Characters\<close>

definition ascii_lower :: "char \<Rightarrow> char" where
  "ascii_lower c =
     (if 65 \<le> (of_char c::nat) \<and> (of_char c::nat) \<le> 90 then char_of ((of_char c::nat) + 32) else c)"

definition is_line_terminator :: "char \<Rightarrow> bool" where
  "is_line_terminator c \<longleftrightarrow> of_char c = (10::nat) \<or> of_char c = (13::nat)"

fun cmatch :: "bool \<Rightarrow> cclass \<Rightarrow> char \<Rightarrow> bool" where
  "cmatch ic (CLit d) x = (if ic then ascii_lower d = ascii_lower x else d = x)"
| "cmatch ic (CNot ds) x =
     (if ic then ascii_lower x \<notin> set (map ascii_lower ds) else x \<notin> set ds)"
| "cmatch ic CSpace x = is_js_space x"
| "cmatch ic CAny x = True"
| "cmatch ic CDot x = (\<not> is_line_terminator x)"

text \<open>\<open>w\<close> is a prefix of \<open>s\<close> up to the case folding of the flag.\<close>

definition ci_prefix :: "bool \<Rightarrow> js_string \<Rightarrow> js_string \<Rightarrow> bool" where
  "ci_prefix ic w s \<longleftrightarrow>
     length w \<le> length s \<and> list_all2 (\<lambda>d x. cmatch ic (CLit d) x) w (take (length w) s)"

text \<open>\<open>s.toLowerCase().includes(w.toLowerCase())\<close> for \<open>ic\<close>, plain
  \<open>includes\<close> otherwise: whether a literal pattern can start anywhere in \<open>s\<close>.\<close>

fun ci_includes :: "bool \<Rightarrow> js_string \<Rightarrow> js_string \<Rightarrow> bool" where
  "ci_includes ic [] w = (w = [])"
| "ci_includes ic (c # s) w = (ci_prefix ic w (c # s) \<or> ci_includes ic s w)"

subsection \<open>The backtracking matcher\<close>

function mt :: "bool \<Rightarrow> rx \<Rightarrow> js_string \<Rightarrow> (js_string \<times> caps) list" where
  "mt ic REmpty s = [(s, [])]"
| "mt ic (RChar c) s = (case s of [] \<Rightarrow> [] | x # xs \<Rightarrow> if cmatch ic c x then [(xs, [])] else [])"
| "mt ic (RSeq a b) s =
     concat (map (\<lambda>p. map (\<lambda>q. (fst q, snd q @ snd p)) (mt ic b (fst p))) (mt ic a s))"
| "mt ic (RAlt a b) s = mt ic a s @ mt ic b s"
| "mt ic (RStar g r) s =
     (let more = concat (map (\<lambda>p. if length (fst p) < length s
                                   then map (\<lambda>q. (fst q, snd q @ snd p)) (mt ic (RStar g r) (fst p))
                                   else [])
                           (mt ic r s))
      in if g then more @ [(s, [])] else (s, []) # more)"
| "mt ic (RGroup n r) s = map (\<lambda>p. (fst p, (n, take (length s - length (fst p)) s) # snd p)) (mt ic r s)"
  by pat_completeness auto
termination
  by (relation "measures [\<lambda>(ic, r, s). size r, \<lambda>(ic, r, s). length s]") auto

text \<open>The engine's choice: the first result.\<close>

definition rx_first :: "bool \<Rightarrow> rx \<Rightarrow> js_string \<Rightarrow> (js_string \<times> caps) option" where
  "rx_first ic r s = (case mt ic r s of [] \<Rightarrow> None | p # _ \<Rightarrow> Some p)"

text \<open>Searching from the left (\<open>RegExpBuiltinExec\<close> without \<open>g\<close>): the
  leftmost position where the pattern matches; the text before the match, the
  matched text, the rest and the captures.\<close>

record rx_match =
  m_before :: js_string
  m_text :: js_string
  m_rest :: js_string
  m_caps :: caps

fun rx_search :: "bool \<Rightarrow> rx \<Rightarrow> js_string \<Rightarrow> rx_match option" where
  "rx_search ic r s =
     (case rx_first ic r s of
        Some p \<Rightarrow> Some \<lparr>m_before = [], m_text = take (length s - length (fst p)) s,
                        m_rest = fst p, m_caps = snd p\<rparr>
      | None \<Rightarrow>
          (case s of
             [] \<Rightarrow> None
           | x # xs \<Rightarrow> map_option (\<lambda>m. m\<lparr>m_before := x # m_before m\<rparr>) (rx_search ic r xs)))"

declare rx_search.simps [simp del]

text \<open>\<open>m[n]\<close> of a match: the capture of group \<open>n\<close>, \<open>None\<close> for \<open>undefined\<close>.\<close>

definition rx_group :: "rx_match \<Rightarrow> nat \<Rightarrow> js_string option" where
  "rx_group m n = map_of (m_caps m) n"

subsection \<open>Global replacement\<close>

text \<open>A replacement string: literal text and \<open>$n\<close> references; an undefined
  group inserts the empty string.\<close>

datatype rpiece = RText js_string | RRef nat

definition expand :: "rpiece list \<Rightarrow> caps \<Rightarrow> js_string" where
  "expand rp cs = concat (map (\<lambda>x. case x of RText t \<Rightarrow> t | RRef n \<Rightarrow>
                      (case map_of cs n of None \<Rightarrow> [] | Some v \<Rightarrow> v)) rp)"

text \<open>\<open>s.replace(/r/g, rep)\<close>: every match, left to right, without overlap; after
  an empty match the search moves on by one character, which is copied.\<close>

function replace_all :: "bool \<Rightarrow> rx \<Rightarrow> rpiece list \<Rightarrow> js_string \<Rightarrow> js_string" where
  "replace_all ic r rp s =
     (case rx_first ic r s of
        Some p \<Rightarrow>
          (if length (fst p) < length s then expand rp (snd p) @ replace_all ic r rp (fst p)
           else expand rp (snd p) @ (case s of [] \<Rightarrow> [] | x # xs \<Rightarrow> x # replace_all ic r rp xs))
      | None \<Rightarrow> (case s of [] \<Rightarrow> [] | x # xs \<Rightarrow> x # replace_all ic r rp xs))"
  by pat_completeness auto
termination
  by (relation "measure (\<lambda>(ic, r, rp, s). length s)") auto

declare replace_all.simps [simp del]

subsection \<open>Lemmas on the matcher\<close>

text \<open>The star equation unfolds into itself under a \<open>\<lambda>\<close>; it is used by hand
  (\<open>mt.simps(5)\<close>) and through \<open>set_mt_star\<close>.\<close>

declare mt.simps(5) [simp del]

lemma set_mt_star:
  "set (mt ic (RStar g r) s) = insert (s, [])
     (\<Union>p1 \<in> {p1 \<in> set (mt ic r s). length (fst p1) < length s}.
        (\<lambda>q. (fst q, snd q @ snd p1)) ` set (mt ic (RStar g r) (fst p1)))"
  by (subst mt.simps(5)) (auto simp: Let_def split: if_splits)

lemma ci_prefix_simps [simp]:
  "ci_prefix ic [] s"
  "ci_prefix ic (d # w) [] = False"
  "ci_prefix ic (d # w) (x # s) = (cmatch ic (CLit d) x \<and> ci_prefix ic w s)"
  by (auto simp: ci_prefix_def)

lemma cmatch_CSpace_fun [simp]: "cmatch ic CSpace = is_js_space"
  by (rule ext) simp

lemma ci_prefix_False: "ci_prefix False w s \<longleftrightarrow> take (length w) s = w"
proof (induction w arbitrary: s)
  case Nil
  then show ?case by simp
next
  case (Cons a w)
  then show ?case by (cases s) auto
qed

lemma mt_rlit: "mt ic (rlit w) s = (if ci_prefix ic w s then [(drop (length w) s, [])] else [])"
  by (induction w arbitrary: s) (auto split: list.splits)

text \<open>Every result is a suffix of the input: a match consumes a prefix.\<close>

lemma mt_suffix: "p \<in> set (mt ic r s) \<Longrightarrow> suffix (fst p) s"
proof (induction ic r s arbitrary: p rule: mt.induct)
  case (1 ic s)
  then show ?case by simp
next
  case (2 ic c s)
  then show ?case by (auto split: list.splits if_splits intro: suffix_ConsI)
next
  case (3 ic a b s)
  from "3.prems" obtain p1 q where p1: "p1 \<in> set (mt ic a s)"
    and q: "q \<in> set (mt ic b (fst p1))" and p: "fst p = fst q" by auto
  have "suffix (fst q) (fst p1)" using "3.IH"(2) [OF p1 q] .
  moreover have "suffix (fst p1) s" using "3.IH"(1) [OF p1] .
  ultimately show ?case using p by (metis suffix_order.trans)
next
  case (4 ic a b s)
  then show ?case by (simp only: mt.simps set_append Un_iff) blast
next
  case (5 ic g r s)
  show ?case
  proof (cases "p = (s, [])")
    case True
    then show ?thesis by simp
  next
    case False
    with "5.prems" have "p \<in> (\<Union>p1 \<in> {p1 \<in> set (mt ic r s). length (fst p1) < length s}.
        (\<lambda>q. (fst q, snd q @ snd p1)) ` set (mt ic (RStar g r) (fst p1)))"
      unfolding set_mt_star [of ic g r s] by simp
    then obtain p1 q where p1: "p1 \<in> set (mt ic r s)" and lt: "length (fst p1) < length s"
      and q: "q \<in> set (mt ic (RStar g r) (fst p1))" and p: "fst p = fst q"
      by auto
    have "suffix (fst q) (fst p1)" using "5.IH"(2) [OF p1 lt q] .
    moreover have "suffix (fst p1) s" using "5.IH"(1) [OF p1] .
    ultimately show ?thesis using p by (metis suffix_order.trans)
  qed
next
  case (6 ic n r s)
  then show ?case by (simp only: mt.simps set_map) force
qed

lemma rx_first_suffix: "rx_first ic r s = Some p \<Longrightarrow> suffix (fst p) s"
proof -
  assume "rx_first ic r s = Some p"
  then have "p \<in> set (mt ic r s)" by (auto simp: rx_first_def split: list.splits)
  then show ?thesis by (rule mt_suffix)
qed

text \<open>A star over one character class: its results are the prefixes of the
  longest run of matching characters, shortest first when lazy, longest first
  when greedy.\<close>

lemma mt_star_char_lazy:
  "mt ic (RStar False (RChar c)) s =
     map (\<lambda>k. (drop k s, [])) [0..<Suc (length (takeWhile (cmatch ic c) s))]"
proof (induction s)
  case Nil
  then show ?case by (simp add: mt.simps(5))
next
  case (Cons x s)
  show ?case
  proof (cases "cmatch ic c x")
    case True
    then have "mt ic (RStar False (RChar c)) (x # s) = (x # s, []) # mt ic (RStar False (RChar c)) s"
      by (subst mt.simps(5)) simp
    also have "\<dots> = (x # s, []) # map (\<lambda>k. (drop k s, [])) [0..<Suc (length (takeWhile (cmatch ic c) s))]"
      using Cons.IH by simp
    also have "\<dots> = map (\<lambda>k. (drop k (x # s), [])) [0..<Suc (length (takeWhile (cmatch ic c) (x # s)))]"
      using True by (simp add: map_upt_Suc del: upt_Suc)
    finally show ?thesis .
  next
    case False
    then show ?thesis by (subst mt.simps(5)) simp
  qed
qed

lemma mt_star_char_greedy:
  "mt ic (RStar True (RChar c)) s =
     rev (map (\<lambda>k. (drop k s, [])) [0..<Suc (length (takeWhile (cmatch ic c) s))])"
proof (induction s)
  case Nil
  then show ?case by (simp add: mt.simps(5))
next
  case (Cons x s)
  show ?case
  proof (cases "cmatch ic c x")
    case True
    then have "mt ic (RStar True (RChar c)) (x # s) = mt ic (RStar True (RChar c)) s @ [(x # s, [])]"
      by (subst mt.simps(5)) simp
    also have "\<dots> = rev (map (\<lambda>k. (drop k s, [])) [0..<Suc (length (takeWhile (cmatch ic c) s))]) @ [(x # s, [])]"
      using Cons.IH by simp
    also have "\<dots> = rev (map (\<lambda>k. (drop k (x # s), [])) [0..<Suc (length (takeWhile (cmatch ic c) (x # s)))])"
      using True by (simp add: map_upt_Suc del: upt_Suc)
    finally show ?thesis .
  next
    case False
    then show ?thesis by (subst mt.simps(5)) simp
  qed
qed

text \<open>\<open>c+\<close> takes the longest run.\<close>

lemma rx_first_plus_char:
  "rx_first ic (rplus (RChar c)) s =
     (case s of [] \<Rightarrow> None
      | x # xs \<Rightarrow> if cmatch ic c x then Some (dropWhile (cmatch ic c) xs, []) else None)"
  by (cases s) (simp_all add: rx_first_def rplus_def mt_star_char_greedy dropWhile_eq_drop)

text \<open>A pattern that starts with a literal matches only where the literal is.\<close>

lemma mt_seq_rlit:
  "mt ic (RSeq (rlit w) r) s \<noteq> [] \<Longrightarrow> ci_prefix ic w s"
  by (auto simp: mt_rlit split: if_splits)

lemma replace_all_no_match:
  "(\<And>t. suffix t s \<Longrightarrow> rx_first ic r t = None) \<Longrightarrow> replace_all ic r rp s = s"
proof (induction s)
  case Nil
  then show ?case by (simp add: replace_all.simps)
next
  case (Cons x s)
  then have "rx_first ic r (x # s) = None" by simp
  moreover have "replace_all ic r rp s = s"
    using Cons by (simp add: suffix_ConsI)
  ultimately show ?case by (simp add: replace_all.simps)
qed

lemma replace_all_absent_lit:
  "\<not> js_includes s w \<Longrightarrow> replace_all False (RSeq (rlit w) r) rp s = s"
proof (rule replace_all_no_match)
  fix t assume "\<not> js_includes s w" "suffix t s"
  then have "\<not> ci_prefix False w t"
    by (auto simp: ci_prefix_False js_includes_iff suffix_def)
       (metis append_take_drop_id)
  then show "rx_first False (RSeq (rlit w) r) t = None"
    by (simp add: rx_first_def mt_rlit)
qed

subsection \<open>Leftmost search\<close>

lemma ci_includes_drop: "ci_includes ic s w \<longleftrightarrow> (\<exists>k \<le> length s. ci_prefix ic w (drop k s))"
proof (induction s)
  case Nil
  then show ?case by (cases w) auto
next
  case (Cons c s)
  show ?case
  proof
    assume "ci_includes ic (c # s) w"
    with Cons.IH show "\<exists>k \<le> length (c # s). ci_prefix ic w (drop k (c # s))"
      by (auto intro: exI [of _ 0] exI [of _ "Suc _"])
  next
    assume "\<exists>k \<le> length (c # s). ci_prefix ic w (drop k (c # s))"
    then obtain k where k: "k \<le> length (c # s)" "ci_prefix ic w (drop k (c # s))" by blast
    with Cons.IH show "ci_includes ic (c # s) w" by (cases k) auto
  qed
qed

lemma ci_prefix_take: "ci_prefix ic w s \<longleftrightarrow> length w \<le> length s \<and> ci_prefix ic w (take (length w) s)"
  by (auto simp: ci_prefix_def)

lemma ci_prefix_drop_append:
  "k + length w \<le> length A \<Longrightarrow> ci_prefix ic w (drop k (A @ B)) = ci_prefix ic w (drop k A)"
proof -
  assume le: "k + length w \<le> length A"
  then have "take (length w) (drop k (A @ B)) = take (length w) (drop k A)"
    by (simp add: take_drop take_append)
  with le show ?thesis by (subst (1 2) ci_prefix_take) auto
qed

lemma mt_seq_rlit_eq:
  "mt ic (RSeq (rlit w) r) s = (if ci_prefix ic w s then mt ic r (drop (length w) s) else [])"
  by (simp add: mt_rlit)

lemma rx_first_seq_rlit:
  "rx_first ic (RSeq (rlit w) r) s = (if ci_prefix ic w s then rx_first ic r (drop (length w) s) else None)"
  by (simp only: rx_first_def mt_seq_rlit_eq) (simp split: if_split)

lemma rx_search_here:
  "rx_first ic r s = Some p \<Longrightarrow>
   rx_search ic r s = Some \<lparr>m_before = [], m_text = take (length s - length (fst p)) s, m_rest = fst p, m_caps = snd p\<rparr>"
  by (simp add: rx_search.simps)

lemma rx_search_skip:
  "(\<And>i. i < length pre \<Longrightarrow> rx_first ic r (drop i (pre @ s)) = None) \<Longrightarrow>
   rx_search ic r (pre @ s) = map_option (\<lambda>m. m\<lparr>m_before := pre @ m_before m\<rparr>) (rx_search ic r s)"
proof (induction pre)
  case Nil
  then show ?case by (cases "rx_search ic r s") simp_all
next
  case (Cons x pre)
  have "rx_first ic r (x # pre @ s) = None" using Cons.prems [of 0] by simp
  moreover have "rx_search ic r (pre @ s) = map_option (\<lambda>m. m\<lparr>m_before := pre @ m_before m\<rparr>) (rx_search ic r s)"
    using Cons.prems [of "Suc _"] by (intro Cons.IH) simp
  ultimately show ?case
    by (subst rx_search.simps) (simp add: option.map_comp o_def)
qed

lemma rx_search_absent_lit:
  "\<not> ci_includes ic s w \<Longrightarrow> rx_search ic (RSeq (rlit w) r) s = None"
proof (induction s)
  case Nil
  then show ?case by (cases w) (simp_all add: rx_search.simps rx_first_seq_rlit del: rlit.simps)
next
  case (Cons c s)
  then show ?case by (subst rx_search.simps) (simp add: rx_first_seq_rlit del: rlit.simps)
qed

lemma mt_group_lazy_char:
  "mt ic (RGroup n (RStar False (RChar c))) s =
     map (\<lambda>k. (drop k s, [(n, take k s)])) [0..<Suc (length (takeWhile (cmatch ic c) s))]"
proof -
  have "\<And>k. k < Suc (length (takeWhile (cmatch ic c) s)) \<Longrightarrow> k \<le> length s"
    by (metis le_trans length_takeWhile_le less_Suc_eq_le)
  then show ?thesis by (simp add: mt_star_char_lazy min_def)
qed

lemma rx_first_lazy_lit:
  assumes y: "\<forall>ch \<in> set y. cmatch ic c ch"
    and none: "\<And>k. k < length y \<Longrightarrow> \<not> ci_prefix ic v (drop k (y @ z))"
    and z: "ci_prefix ic v z"
  shows "rx_first ic (RSeq (RGroup n (RStar False (RChar c))) (rlit v)) (y @ z) = Some (drop (length v) z, [(n, y)])"
proof -
  let ?s = "y @ z"
  let ?m = "length (takeWhile (cmatch ic c) ?s)"
  define f where "f k = (if ci_prefix ic v (drop k ?s) then [(drop (length v) (drop k ?s), [(n, take k ?s)])] else [])" for k
  have ym: "length y \<le> ?m"
    using y by (simp add: takeWhile_append2)
  have fk: "map (\<lambda>q. (fst q, snd q @ [(n, take k ?s)])) (mt ic (rlit v) (drop k ?s)) = f k" for k
    by (simp add: mt_rlit f_def)
  have "mt ic (RSeq (RGroup n (RStar False (RChar c))) (rlit v)) ?s =
        concat (map (\<lambda>k. map (\<lambda>q. (fst q, snd q @ [(n, take k ?s)])) (mt ic (rlit v) (drop k ?s)))
          [0..<Suc ?m])"
    by (simp only: mt.simps(3) mt_group_lazy_char map_map o_def fst_conv snd_conv)
  also have "\<dots> = concat (map f [0..<Suc ?m])"
    by (simp only: fk)
  finally have mt: "mt ic (RSeq (RGroup n (RStar False (RChar c))) (rlit v)) ?s = concat (map f [0..<Suc ?m])" .
  have eq: "length y + (Suc ?m - length y) = Suc ?m" using ym by simp
  have s1: "[0..<Suc ?m] = [0..<length y] @ [length y..<Suc ?m]"
    using upt_add_eq_append [of 0 "length y" "Suc ?m - length y", OF le0] by (simp only: eq)
  have s2: "[length y..<Suc ?m] = length y # [Suc (length y)..<Suc ?m]"
    using ym by (intro upt_conv_Cons) simp
  have split: "[0..<Suc ?m] = [0..<length y] @ length y # [Suc (length y)..<Suc ?m]"
    by (simp only: s1 s2)
  have e1: "concat (map f [0..<length y]) = []"
    using none by (simp add: f_def)
  have e2: "f (length y) = [(drop (length v) z, [(n, y)])]"
    using z by (simp add: f_def)
  have "concat (map f [0..<Suc ?m]) =
        concat (map f [0..<length y]) @ f (length y) @ concat (map f [Suc (length y)..<Suc ?m])"
    unfolding split by simp
  also have "\<dots> = (drop (length v) z, [(n, y)]) # concat (map f [Suc (length y)..<Suc ?m])"
    by (simp only: e1 e2 append_Nil append_Cons)
  finally show ?thesis
    by (simp only: rx_first_def mt list.case)
qed

lemma ci_prefix_self: "ci_prefix ic w (w @ s)"
  by (induction w) (auto simp: ascii_lower_def)

lemma not_ci_includes_drop:
  "\<not> ci_includes ic A w \<Longrightarrow> k + length w \<le> length A \<Longrightarrow> \<not> ci_prefix ic w (drop k (A @ B))"
proof -
  assume a: "\<not> ci_includes ic A w" and b: "k + length w \<le> length A"
  have "ci_prefix ic w (drop k (A @ B)) = ci_prefix ic w (drop k A)"
    by (rule ci_prefix_drop_append [OF b])
  moreover have "\<not> ci_prefix ic w (drop k A)"
    using a b by (auto simp: ci_includes_drop)
  ultimately show ?thesis by simp
qed

end
