(* ===== verification/Normalizer.thy ===== *)
theory Normalizer
  imports JsRegex
begin

text \<open>
  The content normaliser \<open>cleanNotionContent\<close> of
  \<open>src/app/api/fetch-notion/route.ts\<close>: seventeen global regular-expression
  replacements applied in the source's order, then \<open>trim()\<close>.  Each rule is the
  source's regular expression written as a term of \<open>JsRegex\<close> (flag \<open>g\<close>,
  case-sensitive) with its replacement string.  The whitespace rule \<open>/\s+/g\<close> is
  related to a direct reference function \<open>collapse_ws\<close>.
\<close>

subsection \<open>The rules\<close>

text \<open>\<open>[^>]*\<close>, \<open>[^"]*\<close> and \<open>[^"]+\<close>.\<close>

definition not_gt :: rx where
  \<open>not_gt = RStar True (RChar (CNot ''>''))\<close>

definition not_quote :: rx where
  \<open>not_quote = RStar True (RChar (CNot ''"''))\<close>

definition not_quote1 :: rx where
  \<open>not_quote1 = rplus (RChar (CNot ''"''))\<close>

text \<open>\<open>/class="NAME[^"]*"/g\<close>.\<close>

definition class_marker :: "js_string \<Rightarrow> rx" where
  \<open>class_marker name = rseq [rlit (''class="'' @ name), not_quote, rlit ''"'']\<close>

definition class_rules :: "(rx \<times> rpiece list) list" where
  \<open>class_rules =
    [(class_marker ''notion-h1'', [RText ''class="text-3xl font-bold mb-4"'']),
     (class_marker ''notion-h2'', [RText ''class="text-2xl font-semibold mb-3"'']),
     (class_marker ''notion-h3'', [RText ''class="text-xl font-medium mb-2"'']),
     (class_marker ''notion-text'', [RText ''class="mb-4"'']),
     (class_marker ''notion-list'', [RText ''class="list-disc pl-6 mb-4"'']),
     (class_marker ''notion-numbered-list'', [RText ''class="list-decimal pl-6 mb-4"'']),
     (class_marker ''notion-quote'', [RText ''class="border-l-4 border-gray-300 pl-4 italic mb-4"'']),
     (class_marker ''notion-code'', [RText ''class="bg-gray-100 px-2 py-1 rounded font-mono text-sm"'']),
     (class_marker ''notion-callout'', [RText ''class="bg-blue-50 border border-blue-200 rounded p-4 mb-4"''])]\<close>

text \<open>\<open>/<img[^>]*class="notion-image[^"]*"[^>]*src="([^"]+)"[^>]*>/g\<close>.\<close>

definition image_rule :: "rx \<times> rpiece list" where
  \<open>image_rule =
    (rseq [rlit ''<img'', not_gt, rlit ''class="notion-image'', not_quote, rlit ''"'', not_gt,
           rlit ''src="'', RGroup 1 not_quote1, rlit ''"'', not_gt, rlit ''>''],
     [RText ''<img src="'', RRef 1, RText ''" class="max-w-full h-auto mb-4 rounded" alt="Notion image" />''])\<close>

text \<open>\<open>/<a[^>]*href="([^"]+)"[^>]*>/g\<close>.\<close>

definition link_rule :: "rx \<times> rpiece list" where
  \<open>link_rule =
    (rseq [rlit ''<a'', not_gt, rlit ''href="'', RGroup 1 not_quote1, rlit ''"'', not_gt, rlit ''>''],
     [RText ''<a href="'', RRef 1,
      RText ''" class="text-blue-600 hover:underline" target="_blank" rel="noopener noreferrer">''])\<close>

text \<open>\<open>/<pre[^>]*class="notion-code-block[^"]*"[^>]*>([\s\S]*?)<\/pre>/g\<close>.\<close>

definition code_block_rule :: "rx \<times> rpiece list" where
  \<open>code_block_rule =
    (rseq [rlit ''<pre'', not_gt, rlit ''class="notion-code-block'', not_quote, rlit ''"'', not_gt,
           rlit ''>'', RGroup 1 (RStar False (RChar CAny)), rlit ''</pre>''],
     [RText ''<pre class="bg-gray-100 p-4 rounded mb-4 overflow-x-auto"><code>'', RRef 1,
      RText ''</code></pre>''])\<close>

text \<open>\<open>/<table[^>]*class="notion-table[^"]*"[^>]*>/g\<close>, \<open>/<th[^>]*>/g\<close>,
  \<open>/<td[^>]*>/g\<close>.\<close>

definition table_rules :: "(rx \<times> rpiece list) list" where
  \<open>table_rules =
    [(rseq [rlit ''<table'', not_gt, rlit ''class="notion-table'', not_quote, rlit ''"'', not_gt, rlit ''>''],
      [RText ''<table class="w-full border-collapse mb-4">'']),
     (rseq [rlit ''<th'', not_gt, rlit ''>''],
      [RText ''<th class="border border-gray-300 px-4 py-2 bg-gray-100">'']),
     (rseq [rlit ''<td'', not_gt, rlit ''>''],
      [RText ''<td class="border border-gray-300 px-4 py-2">''])]\<close>

text \<open>\<open>/<div[^>]*>\s*<\/div>/g\<close> and \<open>/<span[^>]*>\s*<\/span>/g\<close>, both
  replaced by the empty string.\<close>

definition empty_element_rules :: "(rx \<times> rpiece list) list" where
  \<open>empty_element_rules =
    [(rseq [rlit ''<div'', not_gt, rlit ''>'', RStar True (RChar CSpace), rlit ''</div>''], []),
     (rseq [rlit ''<span'', not_gt, rlit ''>'', RStar True (RChar CSpace), rlit ''</span>''], [])]\<close>

text \<open>\<open>/\s+/g\<close> replaced by one space.\<close>

definition whitespace_rule :: "rx \<times> rpiece list" where
  \<open>whitespace_rule = (rplus (RChar CSpace), [RText '' ''])\<close>

definition markup_rules :: "(rx \<times> rpiece list) list" where
  \<open>markup_rules =
     class_rules @ [image_rule, link_rule, code_block_rule] @ table_rules @ empty_element_rules\<close>

definition apply_rule :: "rx \<times> rpiece list \<Rightarrow> js_string \<Rightarrow> js_string" where
  "apply_rule rule s = replace_all False (fst rule) (snd rule) s"

definition cleanNotionContent :: "js_string \<Rightarrow> js_string" where
  "cleanNotionContent c = js_trim (fold apply_rule (markup_rules @ [whitespace_rule]) c)"

subsection \<open>Reference for the whitespace rule\<close>

text \<open>Each maximal run of white space becomes one space.\<close>

function collapse_ws :: "js_string \<Rightarrow> js_string" where
  "collapse_ws [] = []"
| "collapse_ws (x # xs) =
     (if is_js_space x then CHR '' '' # collapse_ws (dropWhile is_js_space xs)
      else x # collapse_ws xs)"
  by pat_completeness auto
termination
  by (relation "measure length") (auto simp: le_imp_less_Suc length_dropWhile_le)

text \<open>No two white-space characters are adjacent.\<close>

fun ws_collapsed :: "js_string \<Rightarrow> bool" where
  "ws_collapsed (x # y # zs) = (\<not> (is_js_space x \<and> is_js_space y) \<and> ws_collapsed (y # zs))"
| "ws_collapsed _ = True"

subsection \<open>The whitespace rule computes the reference\<close>

text \<open>The global replacement \<open>/\s+/g\<close> by one space computes
  \<open>collapse_ws\<close>: each maximal run of white space becomes a single space.\<close>

lemma replace_ws_collapse:
  "replace_all False (rplus (RChar CSpace)) [RText '' ''] s = collapse_ws s"
proof (induction s rule: collapse_ws.induct)
  case 1
  then show ?case by (simp add: replace_all.simps rx_first_plus_char)
next
  case (2 x xs)
  show ?case
  proof (cases "is_js_space x")
    case True
    have "length (dropWhile is_js_space xs) < length (x # xs)"
      by (simp add: le_imp_less_Suc length_dropWhile_le)
    with True "2.IH"(1) show ?thesis
      by (simp add: replace_all.simps [of _ _ _ "x # xs"] rx_first_plus_char expand_def)
  next
    case False
    with "2.IH"(2) show ?thesis
      by (simp add: replace_all.simps [of _ _ _ "x # xs"] rx_first_plus_char)
  qed
qed

lemma ws_collapsed_Cons:
  "ws_collapsed (x # ys) \<longleftrightarrow> ws_collapsed ys \<and> (ys = [] \<or> \<not> (is_js_space x \<and> is_js_space (hd ys)))"
  by (cases ys) auto

lemma collapse_ws_hd:
  "xs \<noteq> [] \<Longrightarrow> \<not> is_js_space (hd xs) \<Longrightarrow> collapse_ws xs \<noteq> [] \<and> hd (collapse_ws xs) = hd xs"
  by (cases xs) auto

lemma ws_collapsed_collapse_ws: "ws_collapsed (collapse_ws s)"
proof (induction s rule: collapse_ws.induct)
  case 1
  then show ?case by simp
next
  case (2 x xs)
  show ?case
  proof (cases "is_js_space x")
    case True
    define d where "d = dropWhile is_js_space xs"
    have "d = [] \<or> \<not> is_js_space (hd d)"
      unfolding d_def by (metis hd_dropWhile)
    then have "collapse_ws d = [] \<or> \<not> is_js_space (hd (collapse_ws d))"
    proof
      assume "d = []"
      then show ?thesis by simp
    next
      assume "\<not> is_js_space (hd d)"
      then show ?thesis using collapse_ws_hd [of d] by (cases "d = []") simp_all
    qed
    with True "2.IH"(1) show ?thesis by (simp add: ws_collapsed_Cons d_def)
  next
    case False
    with "2.IH"(2) show ?thesis by (auto simp: ws_collapsed_Cons)
  qed
qed

lemma ws_collapsed_tl: "ws_collapsed (x # ys) \<Longrightarrow> ws_collapsed ys"
  by (simp add: ws_collapsed_Cons)

lemma ws_collapsed_drop: "ws_collapsed s \<Longrightarrow> ws_collapsed (drop n s)"
proof (induction n arbitrary: s)
  case 0
  then show ?case by simp
next
  case (Suc n)
  then show ?case by (cases s) (auto dest: ws_collapsed_tl)
qed

lemma ws_collapsed_snoc:
  "ws_collapsed (xs @ [y]) \<longleftrightarrow> ws_collapsed xs \<and> (xs = [] \<or> \<not> (is_js_space (last xs) \<and> is_js_space y))"
proof (induction xs)
  case Nil
  then show ?case by simp
next
  case (Cons x xs)
  then show ?case by (cases xs) (auto simp: ws_collapsed_Cons)
qed

lemma ws_collapsed_rev: "ws_collapsed (rev s) \<longleftrightarrow> ws_collapsed s"
proof (induction s)
  case Nil
  then show ?case by simp
next
  case (Cons x s)
  then show ?case by (auto simp: ws_collapsed_snoc ws_collapsed_Cons last_rev)
qed

subsection \<open>The normal form of the output\<close>

lemma dropWhile_idem: "dropWhile P (dropWhile P xs) = dropWhile P xs"
  by (induction xs) auto

lemma ws_collapsed_dropWhile: "ws_collapsed s \<Longrightarrow> ws_collapsed (dropWhile P s)"
  by (simp add: dropWhile_eq_drop ws_collapsed_drop)

lemma ws_collapsed_trim: "ws_collapsed s \<Longrightarrow> ws_collapsed (js_trim s)"
  unfolding js_trim_def
  by (simp add: ws_collapsed_rev ws_collapsed_dropWhile)

lemma trim_end_prefix: "\<exists>w. u = rev (dropWhile P (rev u)) @ w"
proof -
  have "rev u = takeWhile P (rev u) @ dropWhile P (rev u)" by simp
  then have "u = rev (dropWhile P (rev u)) @ rev (takeWhile P (rev u))"
    by (metis rev_append rev_rev_ident)
  then show ?thesis by blast
qed

lemma js_trim_idem: "js_trim (js_trim s) = js_trim s"
proof -
  define u where "u = dropWhile is_js_space s"
  define v where "v = rev (dropWhile is_js_space (rev u))"
  have tr: "js_trim s = v" by (simp add: js_trim_def u_def v_def)
  have hd: "dropWhile is_js_space v = v"
  proof (cases v)
    case Nil
    then show ?thesis by simp
  next
    case (Cons y ys)
    obtain w where "u = v @ w" using trim_end_prefix unfolding v_def by blast
    with Cons have "u \<noteq> []" "hd u = y" by auto
    then have "\<not> is_js_space y" unfolding u_def by (metis hd_dropWhile)
    with Cons show ?thesis by simp
  qed
  have "js_trim v = rev (dropWhile is_js_space (rev v))" by (simp add: js_trim_def hd)
  also have "\<dots> = v" by (simp add: v_def dropWhile_idem)
  finally show ?thesis by (simp add: tr)
qed

lemma apply_whitespace_rule: "apply_rule whitespace_rule s = collapse_ws s"
  by (simp add: whitespace_rule_def apply_rule_def replace_ws_collapse)

text \<open>Claim C9: the normaliser is its markup rules in order, then the reference
  white-space collapse (each maximal run of white space becomes one space, as the
  global replacement \<open>/\s+/g\<close> by \<open>" "\<close> computes), then \<open>trim\<close>.\<close>

theorem cleanNotionContent_collapse:
  "cleanNotionContent c = js_trim (collapse_ws (fold apply_rule markup_rules c))"
  by (simp add: cleanNotionContent_def apply_whitespace_rule)

text \<open>Claim C10: whatever the input, the normaliser's output is trimmed (no
  leading or trailing white space) and has no two adjacent white-space
  characters.\<close>

theorem cleanNotionContent_normal_form:
  "js_trim (cleanNotionContent c) = cleanNotionContent c \<and> ws_collapsed (cleanNotionContent c)"
  by (simp add: cleanNotionContent_def apply_whitespace_rule js_trim_idem ws_collapsed_trim
      ws_collapsed_collapse_ws)

lemma apply_rule_absent:
  "\<not> js_includes c w \<Longrightarrow> apply_rule (RSeq (rlit w) r, rp) c = c"
  by (simp add: apply_rule_def replace_all_absent_lit)

lemma js_includes_Cons_prefix: "\<not> js_includes c [x] \<Longrightarrow> \<not> js_includes c (x # v)"
  by (auto simp: js_includes_iff)

lemma js_includes_class_prefix:
  \<open>\<not> js_includes c ''class="'' \<Longrightarrow> \<not> js_includes c (CHR ''c'' # CHR ''l'' # CHR ''a'' # CHR ''s'' # CHR ''s'' # CHR ''='' # CHR 0x22 # v)\<close>
  by (auto simp: js_includes_iff)

text \<open>Input without markup (no \<open><\<close> and no \<open>class="\<close>) passes
  every markup rule unchanged; only its white space is normalised.\<close>

theorem cleanNotionContent_plain_text:
  \<open>\<not> js_includes c ''<'' \<Longrightarrow> \<not> js_includes c ''class="'' \<Longrightarrow>
   cleanNotionContent c = js_trim (collapse_ws c)\<close>
  by (simp add: cleanNotionContent_def apply_whitespace_rule markup_rules_def class_rules_def
      class_marker_def image_rule_def link_rule_def code_block_rule_def table_rules_def
      empty_element_rules_def apply_rule_absent js_includes_Cons_prefix js_includes_class_prefix
      del: rlit.simps)


theorem cleanNotionContent_plain_text_witness:
  \<open>\<not> js_includes ''  plain   text '' ''<'' \<and> \<not> js_includes ''  plain   text '' ''class="'' \<and>
   cleanNotionContent ''  plain   text '' = ''plain text''\<close>
proof -
  have h1: \<open>\<not> js_includes ''  plain   text '' ''<''\<close> by simp
  have h2: \<open>\<not> js_includes ''  plain   text '' ''class="''\<close> by simp
  have "cleanNotionContent ''  plain   text '' = js_trim (collapse_ws ''  plain   text '')"
    by (rule cleanNotionContent_plain_text [OF h1 h2])
  also have "\<dots> = ''plain text''" by (simp add: js_trim_def is_js_space_def)
  finally show ?thesis using h1 h2 by simp
qed

subsection \<open>What one pass does not do\<close>

text \<open>The empty-element rules run once, left to right: an element that becomes
  empty only when an inner empty element is removed survives the pass.\<close>

lemma clean_nested_div_once: \<open>cleanNotionContent ''<div><div></div></div>'' = ''<div></div>''\<close>
  by code_simp

lemma clean_empty_div: \<open>cleanNotionContent ''<div></div>'' = []\<close>
  by code_simp

text \<open>\<open>cleanNotionContent\<close> is not idempotent: on
  \<open><div><div></div></div>\<close> a second pass changes the result of the first.\<close>

theorem cleanNotionContent_not_idempotent:
  \<open>cleanNotionContent (cleanNotionContent ''<div><div></div></div>'') \<noteq>
   cleanNotionContent ''<div><div></div></div>''\<close>
  by (simp add: clean_nested_div_once clean_empty_div)

text \<open>Two rules of the chain collide with earlier or wider matches.
  The class rule for \<open>notion-code\<close> runs before the code-block rule and
  rewrites \<open>class="notion-code-block"\<close> first, so the code-block rule never
  produces its \<open><pre><code>\<close> pair; and \<open>/<th[^>]*>/g\<close> also matches
  \<open><thead>\<close>, which becomes a header cell.\<close>

theorem clean_rule_collisions:
  \<open>cleanNotionContent ''<pre class="notion-code-block">x</pre>'' =
     ''<pre class="bg-gray-100 px-2 py-1 rounded font-mono text-sm">x</pre>'' \<and>
   cleanNotionContent ''<thead>'' = ''<th class="border border-gray-300 px-4 py-2 bg-gray-100">''\<close>
  by code_simp

end
