(* ===== verification/Extractor.thy ===== *)
theory Extractor
  imports Normalizer NotionTypes
begin

text \<open>
  The textual extractor \<open>parseNotionPage\<close> of
  \<open>src/app/api/fetch-notion/route.ts\<close>: each field is found by
  \<open>html.match(/.../i)\<close> (leftmost match, no \<open>g\<close> flag, case-insensitive), the
  content by a container regex with a fallback on the body whose script, style,
  nav, header and footer elements are removed by global replacements, and then
  normalised by \<open>cleanNotionContent\<close>.
\<close>

subsection \<open>The patterns\<close>

text \<open>\<open>[\s\S]*?\<close>.\<close>

definition any_lazy :: rx where
  "any_lazy = RStar False (RChar CAny)"

text \<open>\<open>/<title>(.*?)<\/title>/i\<close>.\<close>

definition title_rx :: rx where
  "title_rx = rseq [rlit ''<title>'', RGroup 1 (RStar False (RChar CDot)), rlit ''</title>'']"

text \<open>\<open>/class="notion-emoji"[^>]*>([^<]+)</i\<close>.\<close>

definition emoji_rx :: rx where
  \<open>emoji_rx =
    rseq [rlit ''class="notion-emoji"'', not_gt, rlit ''>'', RGroup 1 (rplus (RChar (CNot ''<''))), rlit ''<'']\<close>

text \<open>\<open>/class="notion-page-icon-image"[^>]*src="([^"]+)"/i\<close> and the same for
  \<open>notion-page-cover-image\<close>.\<close>

definition src_after_class_rx :: "js_string \<Rightarrow> rx" where
  \<open>src_after_class_rx cls = rseq [rlit (''class="'' @ cls @ ''"''), not_gt, rlit ''src="'', RGroup 1 not_quote1, rlit ''"'']\<close>

definition icon_img_rx :: rx where
  "icon_img_rx = src_after_class_rx ''notion-page-icon-image''"

definition cover_img_rx :: rx where
  "cover_img_rx = src_after_class_rx ''notion-page-cover-image''"

text \<open>\<open>/class="notion-header-block"[^>]*>[\s\S]*?<img[^>]*src="([^"]+)"/i\<close>.\<close>

definition header_img_rx :: rx where
  \<open>header_img_rx =
    rseq [rlit ''class="notion-header-block"'', not_gt, rlit ''>'', any_lazy, rlit ''<img'', not_gt,
          rlit ''src="'', RGroup 1 not_quote1, rlit ''"'']\<close>

text \<open>\<open>/<div class="notion-page-content"[^>]*>([\s\S]*?)<\/div>/i\<close> and
  \<open>/<body[^>]*>([\s\S]*?)<\/body>/i\<close>.\<close>

definition content_rx :: rx where
  \<open>content_rx = rseq [rlit ''<div class="notion-page-content"'', not_gt, rlit ''>'', RGroup 1 any_lazy, rlit ''</div>'']\<close>

definition body_rx :: rx where
  "body_rx = rseq [rlit ''<body'', not_gt, rlit ''>'', RGroup 1 any_lazy, rlit ''</body>'']"

text \<open>\<open>/<TAG[\s\S]*?<\/TAG>/gi\<close> for script, style, nav, header, footer, in
  this order, each replaced by the empty string.\<close>

definition strip_element_rx :: "js_string \<Rightarrow> rx" where
  "strip_element_rx tag = rseq [rlit (''<'' @ tag), any_lazy, rlit (''</'' @ tag @ ''>'')]"

definition strip_tags :: "js_string list" where
  "strip_tags = [''script'', ''style'', ''nav'', ''header'', ''footer'']"

definition strip_non_content :: "js_string \<Rightarrow> js_string" where
  "strip_non_content b = fold (\<lambda>tag s. replace_all True (strip_element_rx tag) [] s) strip_tags b"

text \<open>\<open>/background-color:\s*([^;]+)/i\<close>.\<close>

definition bg_rx :: rx where
  "bg_rx = rseq [rlit ''background-color:'', RStar True (RChar CSpace), RGroup 1 (rplus (RChar (CNot '';'')))]"

subsection \<open>The extractor\<close>

text \<open>\<open>m[n]\<close> read as a string.  Every group of these patterns takes part in
  every match, so \<open>None\<close> (JavaScript's \<open>undefined\<close>) does not arise.\<close>

definition group_str :: "rx_match \<Rightarrow> nat \<Rightarrow> js_string" where
  "group_str m n = (case rx_group m n of Some v \<Rightarrow> v | None \<Rightarrow> [])"

definition extract_title :: "js_string \<Rightarrow> js_string" where
  "extract_title html =
     (case rx_search True title_rx html of
        Some m \<Rightarrow> js_trim (replace_first_str (group_str m 1) '' | Notion'' [])
      | None \<Rightarrow> ''Untitled'')"

definition extract_icon :: "js_string \<Rightarrow> notion_icon option" where
  "extract_icon html =
     (case rx_search True emoji_rx html of
        Some m \<Rightarrow> Some \<lparr>icon_type = Emoji, icon_content = js_trim (group_str m 1)\<rparr>
      | None \<Rightarrow>
          (case rx_search True icon_img_rx html of
             Some m \<Rightarrow> Some \<lparr>icon_type = Image, icon_content = group_str m 1\<rparr>
           | None \<Rightarrow> None))"

definition extract_cover :: "js_string \<Rightarrow> js_string option" where
  "extract_cover html =
     (case rx_search True cover_img_rx html of
        Some m \<Rightarrow> Some (group_str m 1)
      | None \<Rightarrow> map_option (\<lambda>m. group_str m 1) (rx_search True header_img_rx html))"

definition extract_raw_content :: "js_string \<Rightarrow> js_string" where
  "extract_raw_content html =
     (case rx_search True content_rx html of
        Some m \<Rightarrow> group_str m 1
      | None \<Rightarrow>
          (case rx_search True body_rx html of
             Some m \<Rightarrow> strip_non_content (group_str m 1)
           | None \<Rightarrow> []))"

definition extract_background :: "js_string \<Rightarrow> js_string option" where
  "extract_background html = map_option (\<lambda>m. js_trim (group_str m 1)) (rx_search True bg_rx html)"

definition parseNotionPage :: "js_string \<Rightarrow> notion_page_data" where
  "parseNotionPage html =
     \<lparr>title = extract_title html, icon = extract_icon html, coverImage = extract_cover html,
      content = cleanNotionContent (extract_raw_content html),
      backgroundColor = extract_background html, originalHtml = html, author = None\<rparr>"

subsection \<open>Title extraction\<close>

lemma title_rx_eq:
  "title_rx = RSeq (rlit ''<title>'') (RSeq (RGroup 1 (RStar False (RChar CDot))) (rlit ''</title>''))"
  by (simp add: title_rx_def del: rlit.simps)

text \<open>Claim C7: on a page with no \<open><title>\<close> (in any letter case) the extractor
  falls back to the title \<open>Untitled\<close> (route.ts line 60).\<close>

theorem extract_title_absent:
  "\<not> ci_includes True html ''<title>'' \<Longrightarrow> extract_title html = ''Untitled''"
  by (simp add: extract_title_def title_rx_eq rx_search_absent_lit del: rlit.simps)

lemma extract_title_first:
  assumes pre: "\<not> ci_includes True (pre @ ''<title'') ''<title>''"
    and cl: "\<not> ci_includes True (y @ ''</title'') ''</title>''"
    and nl: "\<forall>ch \<in> set y. \<not> is_line_terminator ch"
  shows "extract_title (pre @ ''<title>'' @ y @ ''</title>'' @ post) = js_trim (replace_first_str y '' | Notion'' [])"
proof -
  define z where "z = ''</title>'' @ post"
  define rest where "rest = ''<title>'' @ y @ z"
  let ?R = "RSeq (RGroup 1 (RStar False (RChar CDot))) (rlit ''</title>'')"
  have html: "pre @ ''<title>'' @ y @ ''</title>'' @ post = pre @ rest"
    by (simp add: rest_def z_def)
  have p1: "\<forall>ch \<in> set y. cmatch True CDot ch"
    using nl by (simp add: is_line_terminator_def)
  have yz: "y @ z = (y @ ''</title'') @ ''>'' @ post"
    by (simp add: z_def)
  have p2: "\<not> ci_prefix True ''</title>'' (drop k (y @ z))" if "k < length y" for k
    unfolding yz using that by (intro not_ci_includes_drop [OF cl]) simp
  have p3: "ci_prefix True ''</title>'' z"
    unfolding z_def by (rule ci_prefix_self)
  have r1: "rx_first True ?R (y @ z) = Some (post, [(1, y)])"
    using rx_first_lazy_lit [OF p1 p2 p3, of 1] by (simp add: z_def)
  have r0: "rx_first True title_rx rest = Some (post, [(1, y)])"
  proof -
    have "ci_prefix True ''<title>'' rest" unfolding rest_def by (rule ci_prefix_self)
    moreover have "drop (length ''<title>'') rest = y @ z" by (simp add: rest_def)
    ultimately show ?thesis using r1 by (simp only: title_rx_eq rx_first_seq_rlit if_True)
  qed
  have skip: "rx_first True title_rx (drop i (pre @ rest)) = None" if "i < length pre" for i
  proof -
    have "pre @ rest = (pre @ ''<title'') @ ''>'' @ y @ z" by (simp add: rest_def)
    then have "\<not> ci_prefix True ''<title>'' (drop i (pre @ rest))"
      using that by (simp only:) (intro not_ci_includes_drop [OF pre], simp)
    then show ?thesis by (simp only: title_rx_eq rx_first_seq_rlit if_False)
  qed
  have "rx_search True title_rx (pre @ rest) =
        Some \<lparr>m_before = pre, m_text = take (length rest - length post) rest, m_rest = post, m_caps = [(1, y)]\<rparr>"
    using rx_search_skip [of pre True title_rx rest, OF skip] rx_search_here [OF r0] by simp
  then show ?thesis
    unfolding html extract_title_def by (simp add: group_str_def rx_group_def)
qed

lemma js_trim_blank:
  assumes "\<forall>c \<in> set y. is_js_space c"
  shows "js_trim y = []"
  using assms by (auto simp: js_trim_def dest: set_dropWhileD)


theorem extract_title_absent_witness:
  "extract_title ''<html><body>hi</body></html>'' = ''Untitled''"
proof -
  have "\<not> ci_includes True ''<html><body>hi</body></html>'' ''<title>''" by code_simp
  then show ?thesis by (rule extract_title_absent)
qed


subsection \<open>Behaviour on concrete pages\<close>

text \<open>Claim C11: the title's post-processing removes the first \<open>" | Notion"\<close>
  wherever it occurs in the first \<open><title>\<close> element, not a trailing one: a
  title \<open>U | NotionV\<close> (with no earlier occurrence) becomes \<open>UV\<close> trimmed,
  so a trailing \<open>" | Notion"\<close> in \<open>V\<close> is kept.\<close>

theorem extract_title_first_occurrence:
  assumes pre: "\<not> ci_includes True (pre @ ''<title'') ''<title>''"
    and cl: "\<not> ci_includes True (u @ '' | Notion'' @ v @ ''</title'') ''</title>''"
    and nl: "\<forall>ch \<in> set (u @ v). \<not> is_line_terminator ch"
    and nt: "\<not> js_includes (u @ '' | Notio'') '' | Notion''"
  shows "extract_title (pre @ ''<title>'' @ u @ '' | Notion'' @ v @ ''</title>'' @ post) = js_trim (u @ v)"
proof -
  have nl': "\<forall>ch \<in> set (u @ '' | Notion'' @ v). \<not> is_line_terminator ch"
    using nl by (simp add: is_line_terminator_def)
  have cl': "\<not> ci_includes True ((u @ '' | Notion'' @ v) @ ''</title'') ''</title>''" using cl by simp
  have "extract_title (pre @ ''<title>'' @ (u @ '' | Notion'' @ v) @ ''</title>'' @ post) =
                   js_trim (replace_first_str (u @ '' | Notion'' @ v) '' | Notion'' [])"
    by (rule extract_title_first [OF pre cl' nl'])
  moreover have "replace_first_str (u @ '' | Notion'' @ v) '' | Notion'' [] = u @ v"
    using replace_first_str_hit [where u = u and pat = "'' | Notion''" and v = v and rep = "[]"] nt by simp
  ultimately show ?thesis by simp
qed

text \<open>Claim C12: a first \<open><title>\<close> element whose text is empty or white space
  gives the empty title: the match succeeds, so the \<open>Untitled\<close> fallback of
  line 60 is not taken.\<close>

theorem extract_title_blank:
  assumes pre: "\<not> ci_includes True (pre @ ''<title'') ''<title>''"
    and cl: "\<not> ci_includes True (y @ ''</title'') ''</title>''"
    and bl: "\<forall>c \<in> set y. is_js_space c \<and> \<not> is_line_terminator c"
  shows "extract_title (pre @ ''<title>'' @ y @ ''</title>'' @ post) = []"
proof -
  have "\<not> js_includes y '' | Notion''"
  proof
    assume "js_includes y '' | Notion''"
    then obtain a b where "y = a @ '' | Notion'' @ b" by (auto simp: js_includes_iff)
    with bl have "is_js_space (CHR ''N'')" by auto
    then show False by (simp add: is_js_space_def)
  qed
  then have "replace_first_str y '' | Notion'' [] = y" by (rule replace_first_str_absent)
  moreover have "\<forall>ch \<in> set y. \<not> is_line_terminator ch" using bl by simp
  ultimately show ?thesis
    using extract_title_first [OF pre cl] js_trim_blank [of y] bl by simp
qed

theorem extract_title_first_occurrence_witness:
  "extract_title (''<title>'' @ ''A'' @ '' | Notion'' @ '' tips | Notion'' @ ''</title>'') = ''A tips | Notion''"
proof -
  have h1: "\<not> ci_includes True ([] @ ''<title'') ''<title>''" by code_simp
  have h2: "\<not> ci_includes True (''A'' @ '' | Notion'' @ '' tips | Notion'' @ ''</title'') ''</title>''" by code_simp
  have h3: "\<forall>ch \<in> set (''A'' @ '' tips | Notion''). \<not> is_line_terminator ch" by code_simp
  have h4: "\<not> js_includes (''A'' @ '' | Notio'') '' | Notion''" by code_simp
  have "js_trim (''A'' @ '' tips | Notion'') = ''A tips | Notion''" by code_simp
  with extract_title_first_occurrence [OF h1 h2 h3 h4, of "[]"] show ?thesis by simp
qed

theorem extract_title_blank_witness:
  "extract_title (''<title>'' @ '' '' @ ''</title>'') = []"
proof -
  have h1: "\<not> ci_includes True ([] @ ''<title'') ''<title>''" by code_simp
  have h2: "\<not> ci_includes True ('' '' @ ''</title'') ''</title>''" by code_simp
  have h3: "\<forall>c \<in> set '' ''. is_js_space c \<and> \<not> is_line_terminator c" by code_simp
  from extract_title_blank [OF h1 h2 h3, of "[]"] show ?thesis by simp
qed

text \<open>The lazy container pattern stops at the first \<open></div>\<close>, so content
  holding a nested block is cut after the first inner element.\<close>

theorem extract_raw_content_truncated:
  "extract_raw_content ''<div class=\"notion-page-content\"><div>a</div>b</div>'' = ''<div>a''"
  by code_simp

text \<open>The fallback path strips each element kind once, from left to right,
  and the result is not stripped again: markup that becomes a \<open><script>\<close> element
  after one removal survives into the page content, through
  \<open>cleanNotionContent\<close>.\<close>

theorem fallback_script_survives:
  "content (parseNotionPage ''<body><scr<script>x</script>ipt>alert(1)</script>ok</body>'') = ''<script>alert(1)</script>ok''"
  by code_simp

end
