(* ===== verification/FetchRoute.thy ===== *)
theory FetchRoute
  imports Extractor
begin

text \<open>
  The handler \<open>POST\<close> of \<open>src/app/api/fetch-notion/route.ts\<close> (lines 3-55).
  Its external calls enter as inputs: the awaited \<open>request.json()\<close> (its
  \<open>url\<close> field, a string or absent), the WHATWG URL parser as a function from
  the URL to its \<open>hostname\<close> (\<open>None\<close> where \<open>new URL\<close> throws), and
  \<open>fetch\<close> with the response it resolves to.  The result is the JSON response
  with its HTTP status.
\<close>

subsection \<open>Responses and the handler\<close>

text \<open>The \<open>Response\<close> object of \<open>fetch\<close>: \<open>status\<close>, \<open>statusText\<close> and the
  outcome of \<open>response.text()\<close>.  \<open>ok\<close> is \<open>status\<close> in 200-299 (Fetch
  standard).\<close>

record fetch_response =
  resp_status :: nat
  resp_statusText :: js_string
  resp_text :: "js_string js_result"

definition resp_ok :: "fetch_response \<Rightarrow> bool" where
  "resp_ok r \<longleftrightarrow> 200 \<le> resp_status r \<and> resp_status r \<le> 299"

text \<open>\<open>NextResponse.json(body, {status})\<close>: an error object with its status, or
  the page data with the default status 200.\<close>

datatype route_response = JsonError js_string nat | JsonPage notion_page_data

definition response_status :: "route_response \<Rightarrow> nat" where
  "response_status r = (case r of JsonError _ st \<Rightarrow> st | JsonPage _ \<Rightarrow> 200)"

text \<open>The host check shared by the route (line 14) and the server action
  (\<open>src/app/actions/notion.ts\<close> line 10).\<close>

definition notion_host_ok :: "js_string \<Rightarrow> bool" where
  "notion_host_ok host \<longleftrightarrow> js_includes host ''notion.site''"

definition server_error :: route_response where
  "server_error = JsonError ''Failed to fetch Notion page. Please check the URL and try again.'' 500"

definition fetch_route ::
  "js_string option js_result \<Rightarrow> (js_string \<Rightarrow> js_string option) \<Rightarrow>
   (js_string \<Rightarrow> fetch_response js_result) \<Rightarrow> route_response" where
  "fetch_route body url_host fetch_url =
     (case body of
        Thrown _ \<Rightarrow> server_error
      | Returned url \<Rightarrow>
          (case url of
             None \<Rightarrow> JsonError ''URL is required'' 400
           | Some u \<Rightarrow>
               if u = [] then JsonError ''URL is required'' 400
               else
                 (case url_host u of
                    None \<Rightarrow> JsonError ''Invalid URL format'' 400
                  | Some host \<Rightarrow>
                      if \<not> notion_host_ok host
                      then JsonError ''Please provide a valid Notion page URL'' 400
                      else
                        (case fetch_url u of
                           Thrown _ \<Rightarrow> server_error
                         | Returned r \<Rightarrow>
                             if \<not> resp_ok r
                             then JsonError (''Failed to fetch page: '' @ nat_to_string (resp_status r) @
                                             '' '' @ resp_statusText r) (resp_status r)
                             else
                               (case resp_text r of
                                  Thrown _ \<Rightarrow> server_error
                                | Returned html \<Rightarrow> JsonPage (parseNotionPage html))))))"

subsection \<open>Properties of the handler\<close>

lemmas fetch_route_splits = js_result.splits option.splits if_splits

text \<open>Claim C13: the route answers with page data only when the request named a
  non-empty URL whose host passed the check, the fetch resolved with an ok
  response whose text was read, and the data is the extractor applied to that
  text: a failed ingestion never yields a partial page.\<close>

theorem fetch_route_page_sound:
  assumes "fetch_route body url_host fetch_url = JsonPage pd"
  shows "\<exists>u host r html. body = Returned (Some u) \<and> u \<noteq> [] \<and> url_host u = Some host \<and>
           notion_host_ok host \<and> fetch_url u = Returned r \<and> resp_ok r \<and>
           resp_text r = Returned html \<and> pd = parseNotionPage html"
  using assms by (auto simp: fetch_route_def server_error_def split: fetch_route_splits)

text \<open>Claim C14: every error response of the route has a status outside the
  success range 200-299: 400 for the request and URL checks, 500 when a call
  throws, the upstream status when the fetch was not ok.\<close>

theorem fetch_route_error_status:
  assumes "fetch_route body url_host fetch_url = JsonError msg st"
  shows "st = 400 \<or> st = 500 \<or> (\<exists>u r. fetch_url u = Returned r \<and> \<not> resp_ok r \<and> st = resp_status r)"
  using assms by (auto simp: fetch_route_def server_error_def split: fetch_route_splits)

text \<open>A URL whose host fails the check is answered with status 400
  before anything is fetched: the answer does not depend on \<open>fetch\<close>.\<close>

theorem fetch_route_rejects_host:
  assumes "u \<noteq> []" and "url_host u = Some host" and "\<not> notion_host_ok host"
  shows "fetch_route (Returned (Some u)) url_host fetch_url =
           JsonError ''Please provide a valid Notion page URL'' 400"
  using assms by (simp add: fetch_route_def)

text \<open>Claim C15: the host check is a substring test.  For a non-empty URL
  whose fetch succeeds with an ok response and a readable text, the route
  returns that text's page exactly when the host contains \<open>notion.site\<close>
  anywhere: \<open>notion.site.attacker.example\<close> and \<open>evilnotion.site\<close> are
  accepted like \<open>team.notion.site\<close>.\<close>

theorem fetch_route_host_acceptance:
  assumes "u \<noteq> []" "url_host u = Some host" "fetch_url u = Returned r" "resp_ok r"
    "resp_text r = Returned html"
  shows "fetch_route (Returned (Some u)) url_host fetch_url = JsonPage (parseNotionPage html) \<longleftrightarrow>
         (\<exists>a b. host = a @ ''notion.site'' @ b)"
  using assms by (simp add: fetch_route_def notion_host_ok_def js_includes_iff)

subsection \<open>Witnesses\<close>

theorem fetch_route_page_sound_witness:
  "\<exists>u host r html. Returned (Some ''https://team.notion.site/p'') = Returned (Some u) \<and> u \<noteq> [] \<and>
     (\<lambda>_. Some ''team.notion.site'') u = Some host \<and> notion_host_ok host \<and>
     (\<lambda>_. Returned \<lparr>resp_status = 200, resp_statusText = ''OK'', resp_text = Returned ''<p>x</p>''\<rparr>) u =
       Returned r \<and> resp_ok r \<and> resp_text r = Returned html \<and> parseNotionPage ''<p>x</p>'' = parseNotionPage html"
proof -
  have "fetch_route (Returned (Some ''https://team.notion.site/p'')) (\<lambda>_. Some ''team.notion.site'')
          (\<lambda>_. Returned \<lparr>resp_status = 200, resp_statusText = ''OK'', resp_text = Returned ''<p>x</p>''\<rparr>) =
        JsonPage (parseNotionPage ''<p>x</p>'')"
    by (simp add: fetch_route_def notion_host_ok_def resp_ok_def)
  then show ?thesis by (rule fetch_route_page_sound)
qed

theorem fetch_route_error_status_witness:
  "(404::nat) = 400 \<or> (404::nat) = 500 \<or>
   (\<exists>u r. (\<lambda>_. Returned \<lparr>resp_status = 404, resp_statusText = ''Not Found'', resp_text = Returned []\<rparr>) u =
      Returned r \<and> \<not> resp_ok r \<and> 404 = resp_status r)"
proof -
  have "fetch_route (Returned (Some ''https://team.notion.site/p'')) (\<lambda>_. Some ''team.notion.site'')
          (\<lambda>_. Returned \<lparr>resp_status = 404, resp_statusText = ''Not Found'', resp_text = Returned []\<rparr>) =
        JsonError ''Failed to fetch page: 404 Not Found'' 404"
    by code_simp
  from fetch_route_error_status [OF this] show ?thesis by simp
qed

theorem fetch_route_host_acceptance_witness:
  "fetch_route (Returned (Some ''https://notion.site.attacker.example/p''))
     (\<lambda>_. Some ''notion.site.attacker.example'')
     (\<lambda>_. Returned \<lparr>resp_status = 200, resp_statusText = ''OK'', resp_text = Returned ''<p>x</p>''\<rparr>) =
   JsonPage (parseNotionPage ''<p>x</p>'')"
proof -
  have "''notion.site.attacker.example'' = [] @ ''notion.site'' @ ''.attacker.example''" by simp
  then show ?thesis
    by (subst fetch_route_host_acceptance [where host = "''notion.site.attacker.example''"
          and r = "\<lparr>resp_status = 200, resp_statusText = ''OK'', resp_text = Returned ''<p>x</p>''\<rparr>"])
       (fastforce simp: resp_ok_def)+
qed

theorem fetch_route_rejects_host_witness:
  "fetch_route (Returned (Some ''https://example.com/'')) (\<lambda>_. Some ''example.com'') (\<lambda>_. Thrown ''not called'') =
   JsonError ''Please provide a valid Notion page URL'' 400"
proof (rule fetch_route_rejects_host)
  show "\<not> notion_host_ok ''example.com''" by (simp add: notion_host_ok_def)
qed simp_all

end
