(* ===== verification/ExportRoute.thy ===== *)
theory ExportRoute
  imports Prelude
begin

text \<open>
  The handler \<open>POST\<close> of \<open>src/app/api/export-pdf/route.ts\<close>.  The puppeteer
  calls are external: each enters as its outcome in a \<open>browser_env\<close>, and the
  handler returns its response together with the log of the browser calls it
  made, in order.  \<open>browser.close()\<close> may be called twice (line 26, then again
  in the \<open>catch\<close> on line 36), so its outcome is indexed by the call number.
\<close>

subsection \<open>Browser calls and their outcomes\<close>

type_synonym pdf_bytes = "nat list"

text \<open>The options of \<open>page.pdf\<close> (lines 20-24).\<close>

record pdf_options =
  pdf_format :: js_string
  print_background :: bool
  margin_top :: js_string
  margin_bottom :: js_string
  margin_left :: js_string
  margin_right :: js_string

definition route_pdf_options :: pdf_options where
  "route_pdf_options =
     \<lparr>pdf_format = ''A4'', print_background = True, margin_top = ''20mm'', margin_bottom = ''20mm'',
      margin_left = ''10mm'', margin_right = ''10mm''\<rparr>"

datatype browser_call = Launch | NewPage | SetContent js_string | PrintPdf pdf_options | Close

record browser_env =
  on_launch :: "unit js_result"
  on_newPage :: "unit js_result"
  on_setContent :: "js_string \<Rightarrow> unit js_result"
  on_pdf :: "pdf_bytes js_result"
  on_close :: "nat \<Rightarrow> unit js_result"

text \<open>The answer: the PDF with status 200 and its attachment headers, a JSON
  error with its status, or a rejected handler promise (\<open>request.json()\<close>
  outside the \<open>try\<close>, or a \<open>close\<close> that throws inside the \<open>catch\<close>), which
  Next.js turns into a bare 500.\<close>

datatype export_response = PdfResponse pdf_bytes | ExportJsonError js_string nat | Unhandled js_string

definition export_failed :: export_response where
  "export_failed = ExportJsonError ''Failed to export PDF. Please try again.'' 500"

subsection \<open>The handler\<close>

text \<open>The \<open>catch\<close> block once the browser exists: close it (the \<open>n\<close>-th close
  call) and answer 500; a throwing close rejects the handler.\<close>

definition catch_close :: "browser_env \<Rightarrow> nat \<Rightarrow> browser_call list \<Rightarrow> export_response \<times> browser_call list" where
  "catch_close env n calls =
     (case on_close env n of
        Returned _ \<Rightarrow> (export_failed, calls @ [Close])
      | Thrown m \<Rightarrow> (Unhandled m, calls @ [Close]))"

definition export_route :: "js_string option js_result \<Rightarrow> browser_env \<Rightarrow> export_response \<times> browser_call list" where
  "export_route body env =
     (case body of
        Thrown m \<Rightarrow> (Unhandled m, [])
      | Returned h \<Rightarrow>
          (case h of
             None \<Rightarrow> (ExportJsonError ''No HTML provided'' 400, [])
           | Some html \<Rightarrow>
               if html = [] then (ExportJsonError ''No HTML provided'' 400, [])
               else
                 (case on_launch env of
                    Thrown _ \<Rightarrow> (export_failed, [Launch])
                  | Returned _ \<Rightarrow>
                      (case on_newPage env of
                         Thrown _ \<Rightarrow> catch_close env 0 [Launch, NewPage]
                       | Returned _ \<Rightarrow>
                           (case on_setContent env html of
                              Thrown _ \<Rightarrow> catch_close env 0 [Launch, NewPage, SetContent html]
                            | Returned _ \<Rightarrow>
                                (case on_pdf env of
                                   Thrown _ \<Rightarrow>
                                     catch_close env 0 [Launch, NewPage, SetContent html, PrintPdf route_pdf_options]
                                 | Returned buf \<Rightarrow>
                                     (case on_close env 0 of
                                        Thrown _ \<Rightarrow>
                                          catch_close env 1
                                            [Launch, NewPage, SetContent html, PrintPdf route_pdf_options, Close]
                                      | Returned _ \<Rightarrow>
                                          (PdfResponse buf,
                                           [Launch, NewPage, SetContent html, PrintPdf route_pdf_options, Close]))))))))"

subsection \<open>Properties\<close>

lemmas export_route_splits = js_result.splits option.splits if_splits

lemma catch_close_last: "snd (catch_close env n calls) = calls @ [Close]"
  by (simp add: catch_close_def split: js_result.splits)

lemma catch_close_not_pdf: "fst (catch_close env n calls) \<noteq> PdfResponse buf"
  by (simp add: catch_close_def export_failed_def split: js_result.splits)

text \<open>Claim C16: once the browser has been launched, the handler's last browser
  call is \<open>close\<close>, on every path, success or failure: the browser is
  released before the handler answers.\<close>

theorem export_route_releases_browser:
  assumes "on_launch env = Returned ()" and "Launch \<in> set (snd (export_route body env))"
  shows "snd (export_route body env) \<noteq> [] \<and> last (snd (export_route body env)) = Close"
  using assms by (auto simp: export_route_def catch_close_last split: export_route_splits)

text \<open>The handler answers with a PDF only when every browser call
  succeeded; the PDF is the one \<open>page.pdf\<close> produced, and the calls were
  exactly launch, new page, set content to the request's HTML, print with the
  route's fixed options, close.\<close>

theorem export_route_success:
  assumes "fst (export_route body env) = PdfResponse buf"
  shows "\<exists>html. body = Returned (Some html) \<and> html \<noteq> [] \<and> on_pdf env = Returned buf \<and>
           on_close env 0 = Returned () \<and>
           snd (export_route body env) = [Launch, NewPage, SetContent html, PrintPdf route_pdf_options, Close]"
  using assms
  by (auto simp: export_route_def catch_close_not_pdf export_failed_def split: export_route_splits)

text \<open>Claim C17: every PDF the route prints is A4 with the route's fixed margins:
  the request carries no settings, so the page size and margins the user chose
  are not honoured on this path.\<close>

theorem export_route_fixed_format:
  assumes "PrintPdf opts \<in> set (snd (export_route body env))"
  shows "pdf_format opts = ''A4'' \<and> margin_top opts = ''20mm'' \<and> margin_left opts = ''10mm''"
  using assms
  by (auto simp: export_route_def catch_close_last route_pdf_options_def split: export_route_splits)

text \<open>Claim C18: over all requests and all outcomes of the browser calls, the
  handler closes the browser at most twice, and twice exactly when the print
  succeeded and the first \<open>close\<close> threw: the \<open>catch\<close> then closes it
  again.  The handler rejects only with the error of \<open>request.json()\<close> or of
  a throwing \<open>close\<close>.\<close>

theorem export_route_double_close:
  "length (filter ((=) Close) (snd (export_route body env))) \<le> 2 \<and>
   (length (filter ((=) Close) (snd (export_route body env))) = 2 \<longleftrightarrow>
      (\<exists>html buf m. body = Returned (Some html) \<and> html \<noteq> [] \<and> on_launch env = Returned () \<and>
         on_newPage env = Returned () \<and> on_setContent env html = Returned () \<and>
         on_pdf env = Returned buf \<and> on_close env 0 = Thrown m)) \<and>
   (\<forall>m. fst (export_route body env) = Unhandled m \<longrightarrow> body = Thrown m \<or> (\<exists>n. on_close env n = Thrown m))"
  by (auto simp: export_route_def catch_close_def export_failed_def split: export_route_splits)

subsection \<open>Witnesses\<close>

theorem export_route_releases_browser_witness:
  "snd (export_route (Returned (Some ''<p>x</p>''))
          \<lparr>on_launch = Returned (), on_newPage = Returned (), on_setContent = \<lambda>_. Thrown ''timeout'',
           on_pdf = Returned [], on_close = \<lambda>_. Returned ()\<rparr>) \<noteq> [] \<and>
   last (snd (export_route (Returned (Some ''<p>x</p>''))
          \<lparr>on_launch = Returned (), on_newPage = Returned (), on_setContent = \<lambda>_. Thrown ''timeout'',
           on_pdf = Returned [], on_close = \<lambda>_. Returned ()\<rparr>)) = Close"
  by (rule export_route_releases_browser) (simp_all add: export_route_def catch_close_def)

theorem export_route_success_witness:
  "\<exists>html. Returned (Some ''<p>x</p>'') = Returned (Some html) \<and> html \<noteq> [] \<and>
     Returned [37, 80, 68, 70] = Returned [37, 80, 68, 70::nat] \<and> Returned () = Returned () \<and>
     snd (export_route (Returned (Some ''<p>x</p>''))
          \<lparr>on_launch = Returned (), on_newPage = Returned (), on_setContent = \<lambda>_. Returned (),
           on_pdf = Returned [37, 80, 68, 70], on_close = \<lambda>_. Returned ()\<rparr>) =
       [Launch, NewPage, SetContent html, PrintPdf route_pdf_options, Close]"
  using export_route_success [of "Returned (Some ''<p>x</p>'')"
      "\<lparr>on_launch = Returned (), on_newPage = Returned (), on_setContent = \<lambda>_. Returned (),
        on_pdf = Returned [37, 80, 68, 70], on_close = \<lambda>_. Returned ()\<rparr>" "[37, 80, 68, 70]"]
  by (simp add: export_route_def)

theorem export_route_fixed_format_witness:
  "pdf_format route_pdf_options = ''A4'' \<and> margin_top route_pdf_options = ''20mm'' \<and>
   margin_left route_pdf_options = ''10mm''"
  by (rule export_route_fixed_format [of _ "Returned (Some ''<p>x</p>'')"
        "\<lparr>on_launch = Returned (), on_newPage = Returned (), on_setContent = \<lambda>_. Returned (),
          on_pdf = Returned [], on_close = \<lambda>_. Returned ()\<rparr>"])
     (simp add: export_route_def)

theorem export_route_double_close_witness:
  "length (filter ((=) Close) (snd (export_route (Returned (Some ''<p>x</p>''))
     \<lparr>on_launch = Returned (), on_newPage = Returned (), on_setContent = \<lambda>_. Returned (),
      on_pdf = Returned [], on_close = \<lambda>_. Thrown ''Target closed''\<rparr>))) = 2 \<and>
   fst (export_route (Returned (Some ''<p>x</p>''))
     \<lparr>on_launch = Returned (), on_newPage = Returned (), on_setContent = \<lambda>_. Returned (),
      on_pdf = Returned [], on_close = \<lambda>_. Thrown ''Target closed''\<rparr>) = Unhandled ''Target closed''"
proof -
  let ?e = "\<lparr>on_launch = Returned (), on_newPage = Returned (), on_setContent = \<lambda>_. Returned (),
      on_pdf = Returned [], on_close = \<lambda>_. Thrown ''Target closed''\<rparr>"
  have c: "\<exists>html buf m. Returned (Some ''<p>x</p>'') = Returned (Some html) \<and> html \<noteq> [] \<and>
      on_launch ?e = Returned () \<and> on_newPage ?e = Returned () \<and> on_setContent ?e html = Returned () \<and>
      on_pdf ?e = Returned buf \<and> on_close ?e 0 = Thrown m"
    by simp
  have u: "fst (export_route (Returned (Some ''<p>x</p>'')) ?e) = Unhandled ''Target closed''"
    by (simp add: export_route_def catch_close_def)
  show ?thesis using export_route_double_close [of "Returned (Some ''<p>x</p>'')" ?e] c u by simp
qed

end
