(* ===== verification/Settings.thy ===== *)
theory Settings
  imports NotionTypes
begin

text \<open>
  The settings form \<open>ExportSettings\<close> of \<open>src/components/export-settings.tsx\<close>
  and the merge \<open>handleExportSettings\<close> of
  \<open>src/components/notion-exporter.tsx\<close> (lines 86-88).  Each control's
  callback sends a \<open>Partial<ExportSettings>\<close> with one key; the merge
  \<open>{...exportSettings, ...newSettings}\<close> overrides the keys present.  A Radix
  slider emits \<open>min + i * step\<close> clamped to \<open>max\<close>; the select emits one
  of its three item values; a switch emits a boolean.
\<close>

subsection \<open>Partial settings and the merge\<close>

record settings_patch =
  p_pageSize :: "js_string option"
  p_margins :: "real option"
  p_preserveImages :: "bool option"
  p_preserveFormatting :: "bool option"
  p_smartPageBreaks :: "bool option"
  p_includeIcon :: "bool option"
  p_includeCover :: "bool option"
  p_includeBackground :: "bool option"
  p_fontScale :: "real option"

definition empty_patch :: settings_patch where
  "empty_patch =
     \<lparr>p_pageSize = None, p_margins = None, p_preserveImages = None, p_preserveFormatting = None,
      p_smartPageBreaks = None, p_includeIcon = None, p_includeCover = None,
      p_includeBackground = None, p_fontScale = None\<rparr>"

definition override :: "'a \<Rightarrow> 'a option \<Rightarrow> 'a" where
  "override x p = (case p of None \<Rightarrow> x | Some y \<Rightarrow> y)"

definition merge_settings :: "export_settings \<Rightarrow> settings_patch \<Rightarrow> export_settings" where
  "merge_settings s p =
     \<lparr>pageSize = override (pageSize s) (p_pageSize p), margins = override (margins s) (p_margins p),
      preserveImages = override (preserveImages s) (p_preserveImages p),
      preserveFormatting = override (preserveFormatting s) (p_preserveFormatting p),
      smartPageBreaks = override (smartPageBreaks s) (p_smartPageBreaks p),
      includeIcon = override (includeIcon s) (p_includeIcon p),
      includeCover = override (includeCover s) (p_includeCover p),
      includeBackground = override (includeBackground s) (p_includeBackground p),
      fontScale = override (fontScale s) (p_fontScale p)\<rparr>"

subsection \<open>The form's controls\<close>

datatype page_size_item = ItemA4 | ItemLetter | ItemLegal

definition item_value :: "page_size_item \<Rightarrow> js_string" where
  "item_value i = (case i of ItemA4 \<Rightarrow> ''a4'' | ItemLetter \<Rightarrow> ''letter'' | ItemLegal \<Rightarrow> ''legal'')"

datatype switch_control =
  SwPreserveImages | SwPreserveFormatting | SwSmartPageBreaks | SwIncludeIcon | SwIncludeCover
  | SwIncludeBackground

datatype settings_input =
  SelectPageSize page_size_item
  | SlideMargins nat
  | SlideFontScale nat
  | Toggle switch_control bool

text \<open>The value a slider emits at step \<open>i\<close>.\<close>

definition slider_value :: "real \<Rightarrow> real \<Rightarrow> real \<Rightarrow> nat \<Rightarrow> real" where
  "slider_value lo hi step i = min hi (lo + real i * step)"

definition form_patch :: "settings_input \<Rightarrow> settings_patch" where
  "form_patch inp =
     (case inp of
        SelectPageSize i \<Rightarrow> empty_patch\<lparr>p_pageSize := Some (item_value i)\<rparr>
      | SlideMargins i \<Rightarrow> empty_patch\<lparr>p_margins := Some (slider_value 10 50 1 i)\<rparr>
      | SlideFontScale i \<Rightarrow> empty_patch\<lparr>p_fontScale := Some (slider_value (8/10) (3/2) (1/10) i)\<rparr>
      | Toggle SwPreserveImages b \<Rightarrow> empty_patch\<lparr>p_preserveImages := Some b\<rparr>
      | Toggle SwPreserveFormatting b \<Rightarrow> empty_patch\<lparr>p_preserveFormatting := Some b\<rparr>
      | Toggle SwSmartPageBreaks b \<Rightarrow> empty_patch\<lparr>p_smartPageBreaks := Some b\<rparr>
      | Toggle SwIncludeIcon b \<Rightarrow> empty_patch\<lparr>p_includeIcon := Some b\<rparr>
      | Toggle SwIncludeCover b \<Rightarrow> empty_patch\<lparr>p_includeCover := Some b\<rparr>
      | Toggle SwIncludeBackground b \<Rightarrow> empty_patch\<lparr>p_includeBackground := Some b\<rparr>)"

text \<open>The settings the form can produce: one of the three page sizes, margins
  in [10, 50] mm, font scale in [0.8, 1.5].\<close>

definition settings_ok :: "export_settings \<Rightarrow> bool" where
  "settings_ok s \<longleftrightarrow>
     pageSize s \<in> {''a4'', ''letter'', ''legal''} \<and> 10 \<le> margins s \<and> margins s \<le> 50 \<and>
     8/10 \<le> fontScale s \<and> fontScale s \<le> 3/2"

inductive settings_reachable :: "export_settings \<Rightarrow> bool" where
  settings_init: "settings_reachable default_settings"
| settings_input: "settings_reachable s \<Longrightarrow> settings_reachable (merge_settings s (form_patch inp))"

text \<open>The sliders' values are steps: margins are whole millimetres in [10, 50] and
  the font scale is a whole number of tenths in [0.8, 1.5].\<close>

definition on_slider_steps :: "export_settings \<Rightarrow> bool" where
  "on_slider_steps s \<longleftrightarrow> margins s \<in> real ` {10..50} \<and> fontScale s * 10 \<in> real ` {8..15}"

subsection \<open>Properties\<close>

lemma override_simps [simp]: "override x None = x" "override x (Some y) = y"
  by (simp_all add: override_def)

lemma merge_empty_patch: "merge_settings s empty_patch = s"
  by (simp add: merge_settings_def empty_patch_def)

lemma slider_value_bounds:
  assumes "0 \<le> step" "lo \<le> hi"
  shows "lo \<le> slider_value lo hi step i \<and> slider_value lo hi step i \<le> hi"
  using assms by (simp add: slider_value_def)

lemma form_input_preserves_ok:
  assumes "settings_ok s"
  shows "settings_ok (merge_settings s (form_patch inp))"
proof -
  have m: "10 \<le> slider_value 10 50 1 i \<and> slider_value 10 50 1 i \<le> 50" for i
    by (rule slider_value_bounds) simp_all
  have f: "8/10 \<le> slider_value (8/10) (3/2) (1/10) i \<and> slider_value (8/10) (3/2) (1/10) i \<le> 3/2" for i
    by (rule slider_value_bounds) simp_all
  show ?thesis
    using assms m f
    by (cases inp rule: settings_input.exhaust)
       (auto simp: form_patch_def merge_settings_def empty_patch_def settings_ok_def item_value_def
             split: page_size_item.splits switch_control.splits)
qed

lemma slider_margins_step: "slider_value 10 50 1 i \<in> real ` {10..50}"
  by (rule image_eqI [where x = "min 40 i + 10"]) (auto simp: slider_value_def min_def)

lemma slider_font_step: "slider_value (4 / 5) (3 / 2) (1 / 10) i * 10 \<in> real ` {8..15}"
  by (rule image_eqI [where x = "min 7 i + 8"]) (auto simp: slider_value_def min_def field_simps)

lemma form_input_preserves_steps:
  assumes "on_slider_steps s"
  shows "on_slider_steps (merge_settings s (form_patch inp))"
  using assms slider_margins_step slider_font_step
  by (cases inp rule: settings_input.exhaust)
     (auto simp: on_slider_steps_def form_patch_def merge_settings_def empty_patch_def
           split: switch_control.splits)

lemma settings_reachable_steps:
  assumes "settings_reachable s"
  shows "on_slider_steps s"
  using assms
proof (induction rule: settings_reachable.induct)
  case settings_init
  have "(20::real) \<in> real ` {10..50}" "(10::real) \<in> real ` {8..15}"
    by (force intro: image_eqI [where x = 20]) (force intro: image_eqI [where x = 10])
  then show ?case by (simp add: on_slider_steps_def default_settings_def)
next
  case (settings_input s inp)
  from settings_input.IH show ?case by (rule form_input_preserves_steps)
qed

lemma default_settings_ok: "settings_ok default_settings"
  by (simp add: settings_ok_def default_settings_def)

lemma settings_reachable_valid:
  assumes "settings_reachable s"
  shows "settings_ok s"
  using assms
proof (induction rule: settings_reachable.induct)
  case settings_init
  then show ?case by (rule default_settings_ok)
next
  case (settings_input s inp)
  from settings_input.IH show ?case by (rule form_input_preserves_ok)
qed

text \<open>Claim C19: every settings value the form can produce from the defaults is
  valid and sits on the sliders' steps: the page size is one of a4, letter,
  legal, the margins are whole millimetres in [10, 50] and the font scale is a
  whole number of tenths in [0.8, 1.5].\<close>

theorem settings_reachable_ok:
  assumes "settings_reachable s"
  shows "settings_ok s \<and> on_slider_steps s"
  using settings_reachable_valid [OF assms] settings_reachable_steps [OF assms] by simp

theorem settings_reachable_ok_witness:
  "settings_ok (merge_settings default_settings (form_patch (SlideMargins 45))) \<and>
   on_slider_steps (merge_settings default_settings (form_patch (SlideMargins 45)))"
  by (rule settings_reachable_ok) (rule settings_reachable.settings_input [OF settings_init])

end
