(* ===== verification/Session.thy ===== *)
theory Session
  imports Settings
begin

text \<open>
  The session component \<open>NotionExporter\<close> of
  \<open>src/components/notion-exporter.tsx\<close>.  Its \<open>useState\<close> hooks form the
  record \<open>exporter_state\<close>.  Each handler runs synchronously up to its first
  \<open>await\<close> and leaves a pending continuation; the continuation runs later, when
  the awaited promise settles, as its own event.  So file reads and the export
  interleave with other events as they do in the browser.  The title parser
  (\<open>DOMParser\<close> then \<open>querySelector("title")?.textContent\<close>) is external:
  \<open>doc_title\<close> gives the text of the first title element, if any.
\<close>

subsection \<open>State and events\<close>

datatype pending_op = ReadingFile nat | ExportingPdf

record exporter_state =
  htmlContent :: "js_string option"
  pageData :: "notion_page_data option"
  error :: "js_string option"
  exportSettings :: export_settings
  exporting :: bool
  aboutOpen :: bool
  isLoading :: bool
  pending :: "pending_op list"
  next_read :: nat
  downloads :: nat

definition exporter_init :: exporter_state where
  "exporter_init =
     \<lparr>htmlContent = None, pageData = None, error = None, exportSettings = default_settings,
      exporting = False, aboutOpen = False, isLoading = False, pending = [], next_read = 0,
      downloads = 0\<rparr>"

text \<open>\<open>Drop names\<close>: the names of \<open>e.dataTransfer.files\<close>; \<open>FileInput\<close>: the
  name of \<open>e.target.files?.[0]\<close>; \<open>FileRead k r\<close>: the \<open>k\<close>-th
  \<open>file.text()\<close> settles; \<open>ExportSettled ok\<close>: the export's chain of awaits
  (\<open>fetch\<close>, \<open>response.json()\<close> or \<open>response.blob()\<close>) ends, with the
  download made or with a throw.\<close>

datatype exporter_event =
  Drop "js_string list"
  | FileInput "js_string option"
  | FileRead nat "js_string js_result"
  | SettingsChanged settings_patch
  | ExportClicked
  | ExportSettled bool
  | AboutChanged bool

definition upload_error :: js_string where
  "upload_error = ''Please upload a .html file exported from Notion.''"

subsection \<open>Handlers\<close>

text \<open>The page data set after a file is read (lines 49-57).\<close>

definition session_page :: "(js_string \<Rightarrow> js_string option) \<Rightarrow> js_string \<Rightarrow> notion_page_data" where
  "session_page doc_title text =
     \<lparr>title = js_or_str (case doc_title text of None \<Rightarrow> [] | Some t \<Rightarrow> replace_first_str t '' | Notion'' [])
                ''Untitled'',
      icon = None, coverImage = None, content = [], backgroundColor = None, originalHtml = text,
      author = None\<rparr>"

text \<open>\<open>handleFile\<close> up to \<open>await file.text()\<close> (lines 39-44).\<close>

definition handleFile :: "exporter_state \<Rightarrow> exporter_state" where
  "handleFile s =
     s\<lparr>error := None, isLoading := True, pageData := None, htmlContent := None,
       pending := pending s @ [ReadingFile (next_read s)], next_read := Suc (next_read s)\<rparr>"

text \<open>The rest of \<open>handleFile\<close> once the \<open>k\<close>-th read settles (lines 45-62).\<close>

definition file_read ::
  "(js_string \<Rightarrow> js_string option) \<Rightarrow> nat \<Rightarrow> js_string js_result \<Rightarrow> exporter_state \<Rightarrow> exporter_state" where
  "file_read doc_title k r s =
     (if ReadingFile k \<notin> set (pending s) then s
      else
        (let s' = s\<lparr>pending := remove1 (ReadingFile k) (pending s)\<rparr> in
         case r of
           Returned text \<Rightarrow>
             s'\<lparr>htmlContent := Some text, pageData := Some (session_page doc_title text), isLoading := False\<rparr>
         | Thrown _ \<Rightarrow>
             s'\<lparr>error := Some ''Failed to parse Notion HTML file. Please make sure you exported from Notion as HTML.'',
                isLoading := False\<rparr>))"

definition handleDrop :: "js_string list \<Rightarrow> exporter_state \<Rightarrow> exporter_state" where
  "handleDrop names s =
     (case names of
        [] \<Rightarrow> s
      | n # _ \<Rightarrow> if js_ends_with n ''.html'' then handleFile s else s\<lparr>error := Some upload_error\<rparr>)"

definition handleFileInput :: "js_string option \<Rightarrow> exporter_state \<Rightarrow> exporter_state" where
  "handleFileInput f s =
     (case f of
        Some n \<Rightarrow> if js_ends_with n ''.html'' then handleFile s else s\<lparr>error := Some upload_error\<rparr>
      | None \<Rightarrow> s\<lparr>error := Some upload_error\<rparr>)"

definition handleExportSettings :: "settings_patch \<Rightarrow> exporter_state \<Rightarrow> exporter_state" where
  "handleExportSettings p s = s\<lparr>exportSettings := merge_settings (exportSettings s) p\<rparr>"

text \<open>\<open>handleExportPDF\<close> up to \<open>await fetch\<close> (lines 91-93).  The button exists
  only while \<open>htmlContent\<close> is truthy and is disabled while \<open>exporting\<close>
  (lines 199, 221); the handler itself returns early on a falsy
  \<open>htmlContent\<close>.\<close>

definition handleExportPDF :: "exporter_state \<Rightarrow> exporter_state" where
  "handleExportPDF s =
     (if \<not> js_present (htmlContent s) \<or> exporting s then s
      else s\<lparr>exporting := True, error := None, pending := pending s @ [ExportingPdf]\<rparr>)"

text \<open>The rest of \<open>handleExportPDF\<close> (lines 94-117): the download, or the
  \<open>catch\<close>; the \<open>finally\<close> clears \<open>exporting\<close>.\<close>

definition export_settled :: "bool \<Rightarrow> exporter_state \<Rightarrow> exporter_state" where
  "export_settled ok s =
     (if ExportingPdf \<notin> set (pending s) then s
      else if ok
      then s\<lparr>pending := remove1 ExportingPdf (pending s), exporting := False,
             downloads := Suc (downloads s)\<rparr>
      else s\<lparr>pending := remove1 ExportingPdf (pending s), exporting := False,
             error := Some ''Failed to export PDF''\<rparr>)"

fun exporter_step ::
  "(js_string \<Rightarrow> js_string option) \<Rightarrow> exporter_state \<Rightarrow> exporter_event \<Rightarrow> exporter_state" where
  "exporter_step dt s (Drop names) = handleDrop names s"
| "exporter_step dt s (FileInput f) = handleFileInput f s"
| "exporter_step dt s (FileRead k r) = file_read dt k r s"
| "exporter_step dt s (SettingsChanged p) = handleExportSettings p s"
| "exporter_step dt s ExportClicked = handleExportPDF s"
| "exporter_step dt s (ExportSettled ok) = export_settled ok s"
| "exporter_step dt s (AboutChanged b) = s\<lparr>aboutOpen := b\<rparr>"

definition exporter_run ::
  "(js_string \<Rightarrow> js_string option) \<Rightarrow> exporter_state \<Rightarrow> exporter_event list \<Rightarrow> exporter_state" where
  "exporter_run dt s evs = fold (\<lambda>e s. exporter_step dt s e) evs s"

inductive exporter_reachable :: "(js_string \<Rightarrow> js_string option) \<Rightarrow> exporter_state \<Rightarrow> bool"
  for dt where
  exporter_start: "exporter_reachable dt exporter_init"
| exporter_next: "exporter_reachable dt s \<Longrightarrow> exporter_reachable dt (exporter_step dt s e)"

text \<open>The invariant: \<open>exporting\<close> is set exactly while one export is
  pending, never two; the loading flag implies a pending read; the page data is
  the one computed from the loaded HTML.\<close>

definition exporter_inv :: "(js_string \<Rightarrow> js_string option) \<Rightarrow> exporter_state \<Rightarrow> bool" where
  "exporter_inv dt s \<longleftrightarrow>
     (exporting s \<longleftrightarrow> ExportingPdf \<in> set (pending s)) \<and>
     count_list (pending s) ExportingPdf \<le> 1 \<and>
     (isLoading s \<longrightarrow> (\<exists>k. ReadingFile k \<in> set (pending s))) \<and>
     pageData s = map_option (session_page dt) (htmlContent s)"

text \<open>The event that settles a pending operation: the read's \<open>file.text()\<close>
  with the result \<open>res k\<close>, the export's chain of awaits with outcome \<open>ok\<close>.\<close>

fun settle_event :: "(nat \<Rightarrow> js_string js_result) \<Rightarrow> bool \<Rightarrow> pending_op \<Rightarrow> exporter_event" where
  "settle_event res ok (ReadingFile k) = FileRead k (res k)"
| "settle_event res ok ExportingPdf = ExportSettled ok"

subsection \<open>The invariant\<close>

lemma count_list_remove1_same: "count_list (remove1 x xs) x = count_list xs x - 1"
  by (induction xs) auto

lemma count_list_pos_iff: "0 < count_list xs x \<longleftrightarrow> x \<in> set xs"
  by (induction xs) auto

lemma count_list_append_other: "y \<noteq> x \<Longrightarrow> count_list (xs @ [y]) x = count_list xs x"
  by simp

lemma count_list_remove1_other: "y \<noteq> x \<Longrightarrow> count_list (remove1 y xs) x = count_list xs x"
  by (induction xs) auto

lemmas pending_facts = count_list_remove1_same count_list_append_other count_list_remove1_other in_set_remove1

lemma exporter_init_inv: "exporter_inv dt exporter_init"
  by (simp add: exporter_inv_def exporter_init_def)

lemma handleFile_inv: "exporter_inv dt s \<Longrightarrow> exporter_inv dt (handleFile s)"
  by (auto simp: exporter_inv_def handleFile_def)

lemma file_read_inv: "exporter_inv dt s \<Longrightarrow> exporter_inv dt (file_read dt k r s)"
  by (auto simp: exporter_inv_def file_read_def Let_def pending_facts split: js_result.splits)

lemma handleDrop_inv: "exporter_inv dt s \<Longrightarrow> exporter_inv dt (handleDrop names s)"
  by (auto simp: handleDrop_def handleFile_inv split: list.splits) (simp add: exporter_inv_def)

lemma handleFileInput_inv: "exporter_inv dt s \<Longrightarrow> exporter_inv dt (handleFileInput f s)"
  by (auto simp: handleFileInput_def handleFile_inv split: option.splits) (simp_all add: exporter_inv_def)

lemma handleExportPDF_inv: "exporter_inv dt s \<Longrightarrow> exporter_inv dt (handleExportPDF s)"
proof -
  assume inv: "exporter_inv dt s"
  show ?thesis
  proof (cases "\<not> js_present (htmlContent s) \<or> exporting s")
    case True
    then show ?thesis using inv by (simp add: handleExportPDF_def)
  next
    case False
    with inv have "count_list (pending s) ExportingPdf = 0"
      using count_list_pos_iff [of "pending s" ExportingPdf] by (simp add: exporter_inv_def)
    with False inv show ?thesis by (auto simp: handleExportPDF_def exporter_inv_def)
  qed
qed

lemma export_settled_inv: "exporter_inv dt s \<Longrightarrow> exporter_inv dt (export_settled ok s)"
proof -
  assume inv: "exporter_inv dt s"
  show ?thesis
  proof (cases "ExportingPdf \<in> set (pending s)")
    case False
    then show ?thesis using inv by (simp add: export_settled_def)
  next
    case True
    with inv have "count_list (pending s) ExportingPdf = 1"
      using count_list_pos_iff [of "pending s" ExportingPdf] by (simp add: exporter_inv_def)
    then have "ExportingPdf \<notin> set (remove1 ExportingPdf (pending s))"
      using count_list_pos_iff [of "remove1 ExportingPdf (pending s)" ExportingPdf]
      by (simp add: count_list_remove1_same)
    with True inv show ?thesis by (auto simp: export_settled_def exporter_inv_def in_set_remove1)
  qed
qed

lemma exporter_step_inv: "exporter_inv dt s \<Longrightarrow> exporter_inv dt (exporter_step dt s e)"
  by (cases e)
     (simp_all add: handleDrop_inv handleFileInput_inv file_read_inv handleExportPDF_inv export_settled_inv,
      simp_all add: exporter_inv_def handleExportSettings_def)

text \<open>Claim C21: in every state the session can reach, \<open>exporting\<close> is set
  exactly while an export is pending and at most one export is pending (the
  disabled button prevents a second), the loading indicator is only shown while
  a file read is pending, and the page data is the one derived from the loaded
  HTML.\<close>

theorem exporter_reachable_inv:
  assumes "exporter_reachable dt s"
  shows "exporter_inv dt s"
  using assms
proof (induction rule: exporter_reachable.induct)
  case exporter_start
  then show ?case by (rule exporter_init_inv)
next
  case (exporter_next s e)
  from exporter_next.IH show ?case by (rule exporter_step_inv)
qed

lemma settle_pending_empty:
  "pending s = ops \<Longrightarrow> pending (exporter_run dt s (map (settle_event res ok) ops)) = []"
proof (induction ops arbitrary: s)
  case Nil
  then show ?case by (simp add: exporter_run_def)
next
  case (Cons op ops)
  have "pending (exporter_step dt s (settle_event res ok op)) = ops"
    using Cons.prems
    by (cases op) (auto simp: file_read_def export_settled_def Let_def split: js_result.splits)
  then have "pending (exporter_run dt (exporter_step dt s (settle_event res ok op)) (map (settle_event res ok) ops)) = []"
    by (rule Cons.IH)
  then show ?case by (simp add: exporter_run_def)
qed

lemma exporter_run_inv: "exporter_inv dt s \<Longrightarrow> exporter_inv dt (exporter_run dt s evs)"
  unfolding exporter_run_def
  by (induction evs arbitrary: s) (simp_all add: exporter_step_inv)

text \<open>Claim C24: from every state satisfying the invariant, in particular every
  reachable one, settling the pending reads and the pending export in order,
  with any results, brings the session to rest: nothing pending, no loading
  indicator, the export button enabled again.\<close>

theorem exporter_settles:
  assumes "exporter_inv dt s"
  shows "pending (exporter_run dt s (map (settle_event res ok) (pending s))) = [] \<and>
         \<not> isLoading (exporter_run dt s (map (settle_event res ok) (pending s))) \<and>
         \<not> exporting (exporter_run dt s (map (settle_event res ok) (pending s)))"
proof -
  let ?t = "exporter_run dt s (map (settle_event res ok) (pending s))"
  have p: "pending ?t = []" by (rule settle_pending_empty) (rule refl)
  have "exporter_inv dt ?t" using assms by (rule exporter_run_inv)
  with p show ?thesis by (simp add: exporter_inv_def)
qed

subsection \<open>Behaviour of the handlers\<close>

text \<open>When the export fails (the route answers an error or a call
  throws), the session shows \<open>Failed to export PDF\<close>, clears \<open>exporting\<close>
  and makes no download.\<close>

theorem export_failure_reported:
  assumes "ExportingPdf \<in> set (pending s)"
  shows "error (exporter_step dt s (ExportSettled False)) = Some ''Failed to export PDF'' \<and>
         \<not> exporting (exporter_step dt s (ExportSettled False)) \<and>
         downloads (exporter_step dt s (ExportSettled False)) = downloads s"
  using assms by (simp add: export_settled_def)

text \<open>Claim C22: the export settings are never read: every event other than a
  settings change commutes with replacing the settings, so the exported PDF
  does not depend on them (the request body is \<open>{html}\<close> alone).\<close>

theorem exporter_ignores_settings:
  assumes "\<forall>p. e \<noteq> SettingsChanged p"
  shows "exporter_step dt (s\<lparr>exportSettings := x\<rparr>) e = (exporter_step dt s e)\<lparr>exportSettings := x\<rparr>"
  using assms
  by (cases e)
     (auto simp: handleDrop_def handleFileInput_def handleFile_def file_read_def Let_def
        handleExportPDF_def export_settled_def split: list.splits option.splits js_result.splits)


subsection \<open>Witnesses\<close>

theorem exporter_reachable_inv_witness:
  "exporter_inv (\<lambda>_. None) (exporter_step (\<lambda>_. None) (exporter_step (\<lambda>_. None) exporter_init (Drop [''p.html''])) ExportClicked)"
  by (rule exporter_reachable_inv) (intro exporter_next exporter_start)

theorem export_failure_reported_witness:
  "error (exporter_step (\<lambda>_. None) (exporter_init\<lparr>pending := [ExportingPdf], exporting := True\<rparr>) (ExportSettled False)) =
     Some ''Failed to export PDF'' \<and>
   \<not> exporting (exporter_step (\<lambda>_. None) (exporter_init\<lparr>pending := [ExportingPdf], exporting := True\<rparr>) (ExportSettled False)) \<and>
   downloads (exporter_step (\<lambda>_. None) (exporter_init\<lparr>pending := [ExportingPdf], exporting := True\<rparr>) (ExportSettled False)) =
     downloads (exporter_init\<lparr>pending := [ExportingPdf], exporting := True\<rparr>)"
  by (rule export_failure_reported) simp


theorem exporter_settles_witness:
  "pending (exporter_run (\<lambda>_. None) (handleFile (handleExportPDF exporter_init\<lparr>htmlContent := Some ''x'',
        pageData := Some (session_page (\<lambda>_. None) ''x'')\<rparr>))
      (map (settle_event (\<lambda>_. Thrown ''e'') True)
        (pending (handleFile (handleExportPDF exporter_init\<lparr>htmlContent := Some ''x'',
           pageData := Some (session_page (\<lambda>_. None) ''x'')\<rparr>))))) = [] \<and>
   \<not> isLoading (exporter_run (\<lambda>_. None) (handleFile (handleExportPDF exporter_init\<lparr>htmlContent := Some ''x'',
        pageData := Some (session_page (\<lambda>_. None) ''x'')\<rparr>))
      (map (settle_event (\<lambda>_. Thrown ''e'') True)
        (pending (handleFile (handleExportPDF exporter_init\<lparr>htmlContent := Some ''x'',
           pageData := Some (session_page (\<lambda>_. None) ''x'')\<rparr>))))) \<and>
   \<not> exporting (exporter_run (\<lambda>_. None) (handleFile (handleExportPDF exporter_init\<lparr>htmlContent := Some ''x'',
        pageData := Some (session_page (\<lambda>_. None) ''x'')\<rparr>))
      (map (settle_event (\<lambda>_. Thrown ''e'') True)
        (pending (handleFile (handleExportPDF exporter_init\<lparr>htmlContent := Some ''x'',
           pageData := Some (session_page (\<lambda>_. None) ''x'')\<rparr>)))))"
  by (rule exporter_settles)
     (simp add: exporter_inv_def exporter_init_def handleFile_def handleExportPDF_def js_present_def)

theorem exporter_ignores_settings_witness:
  "exporter_step (\<lambda>_. None) (exporter_init\<lparr>exportSettings := default_settings\<lparr>margins := 50\<rparr>\<rparr>) ExportClicked =
   (exporter_step (\<lambda>_. None) exporter_init ExportClicked)\<lparr>exportSettings := default_settings\<lparr>margins := 50\<rparr>\<rparr>"
  by (rule exporter_ignores_settings) simp

end
