(* ===== verification/SessionView.thy ===== *)
theory SessionView
  imports Session
begin

text \<open>
  What \<open>NotionExporter\<close> renders (\<open>src/components/notion-exporter.tsx\<close>
  lines 120-238), as a record computed from the session state: the about
  dialog, the theme toggle (its icon and the theme a click selects, from
  next-themes' \<open>resolvedTheme\<close>, an input), the error alert, the loading card,
  and the panel shown once a file is loaded, with the page title, the iframe's
  \<open>srcDoc\<close> and the export button.  Static markup (headings, help text,
  icons' styling) is not part of the record.
\<close>

datatype theme_icon = SunIcon | MoonIcon

record export_button =
  button_disabled :: bool
  button_label :: js_string

record loaded_panel =
  panel_title :: js_string
  panel_srcdoc :: js_string
  panel_button :: export_button

record session_view =
  dialog_open :: bool
  toggle_icon :: theme_icon
  toggle_target :: js_string
  error_alert :: "js_string option"
  loading_card :: bool
  loaded :: "loaded_panel option"

definition exporter_view :: "js_string option \<Rightarrow> exporter_state \<Rightarrow> session_view" where
  "exporter_view resolvedTheme s =
     \<lparr>dialog_open = aboutOpen s,
      toggle_icon = (if resolvedTheme = Some ''dark'' then SunIcon else MoonIcon),
      toggle_target = (if resolvedTheme = Some ''dark'' then ''light'' else ''dark''),
      error_alert = (if js_present (error s) then error s else None),
      loading_card = isLoading s,
      loaded =
        (case htmlContent s of
           Some h \<Rightarrow>
             if h \<noteq> [] then
               Some \<lparr>panel_title = (case pageData s of Some p \<Rightarrow> title p | None \<Rightarrow> []),
                     panel_srcdoc = h,
                     panel_button = \<lparr>button_disabled = exporting s,
                                      button_label = (if exporting s then ''Exporting...'' else ''Export to PDF'')\<rparr>\<rparr>
             else None
         | None \<Rightarrow> None)\<rparr>"

subsection \<open>Properties\<close>

lemma exporter_inv_reachable_view:
  assumes "exporter_reachable dt s"
  shows "exporter_inv dt s"
  using assms
proof (induction rule: exporter_reachable.induct)
  case exporter_start
  then show ?case by (rule exporter_init_inv)
next
  case (exporter_next s e)
  from exporter_next.IH show ?case by (rule exporter_step_inv)
qed

text \<open>Claim C35: in every state the session can reach, the loaded panel shows the
  title derived from the very HTML shown in its iframe, the export button is
  disabled and labelled \<open>Exporting...\<close> exactly while an export is pending,
  and the loading card is shown only while a file read is pending.\<close>

theorem exporter_view_consistent:
  assumes "exporter_reachable dt s"
  shows "(\<forall>pnl. loaded (exporter_view th s) = Some pnl \<longrightarrow>
            panel_title pnl = title (session_page dt (panel_srcdoc pnl)) \<and>
            (button_disabled (panel_button pnl) \<longleftrightarrow> ExportingPdf \<in> set (pending s)) \<and>
            (button_label (panel_button pnl) = ''Exporting...'' \<longleftrightarrow> ExportingPdf \<in> set (pending s))) \<and>
         (loading_card (exporter_view th s) \<longrightarrow> (\<exists>k. ReadingFile k \<in> set (pending s)))"
  using exporter_inv_reachable_view [OF assms]
  by (auto simp: exporter_view_def exporter_inv_def split: option.splits if_splits)

theorem exporter_view_consistent_witness:
  "panel_title \<lparr>panel_title = ''Untitled'', panel_srcdoc = ''<p>x</p>'',
                 panel_button = \<lparr>button_disabled = False, button_label = ''Export to PDF''\<rparr>\<rparr> =
     title (session_page (\<lambda>_. None) ''<p>x</p>'') \<and>
   \<not> loading_card (exporter_view (Some ''dark'')
       (exporter_step (\<lambda>_. None) (exporter_step (\<lambda>_. None) exporter_init (Drop [''p.html'']))
          (FileRead 0 (Returned ''<p>x</p>''))))"
proof -
  let ?s = "exporter_step (\<lambda>_. None) (exporter_step (\<lambda>_. None) exporter_init (Drop [''p.html'']))
              (FileRead 0 (Returned ''<p>x</p>''))"
  have r: "exporter_reachable (\<lambda>_. None) ?s" by (intro exporter_next exporter_start)
  have v: "loaded (exporter_view (Some ''dark'') ?s) =
             Some \<lparr>panel_title = ''Untitled'', panel_srcdoc = ''<p>x</p>'',
                   panel_button = \<lparr>button_disabled = False, button_label = ''Export to PDF''\<rparr>\<rparr> \<and>
           \<not> loading_card (exporter_view (Some ''dark'') ?s)"
    by (simp add: exporter_view_def exporter_init_def handleDrop_def handleFile_def file_read_def
        session_page_def js_or_str_def js_ends_with_def js_present_def)
  from exporter_view_consistent [OF r, of "Some ''dark''"] v show ?thesis by simp
qed

end
