(* ===== verification/Dom.thy ===== *)
theory Dom
  imports Prelude
begin

text \<open>
  A DOM tree as the code manipulates it: elements with a (lower-case) tag name,
  attributes and children, and text nodes.  The HTML parser that builds the
  tree (\<open>innerHTML\<close>, \<open>DOMParser\<close>, JSDOM) is external; the operations here
  are the ones the code calls on the result: \<open>querySelectorAll(tag)\<close> in
  document order, \<open>element.remove()\<close> on each match, an inline style set on
  each match, \<open>textContent\<close>.
\<close>

datatype dom_node = Elem js_string "(js_string \<times> js_string) list" "dom_node list" | Text js_string

text \<open>The tag names of all elements of a forest in document (pre-)order: the
  order of \<open>querySelectorAll\<close>.\<close>

fun tags_of :: "dom_node list \<Rightarrow> js_string list" where
  "tags_of [] = []"
| "tags_of (Text s # ns) = tags_of ns"
| "tags_of (Elem t a cs # ns) = t # tags_of cs @ tags_of ns"

text \<open>\<open>container.querySelectorAll(tag).forEach(e => e.remove())\<close>: the list of
  matches is static, and removing an element removes its subtree, so the result
  is the forest without the matching elements.\<close>

fun remove_tag :: "js_string \<Rightarrow> dom_node list \<Rightarrow> dom_node list" where
  "remove_tag t [] = []"
| "remove_tag t (Text s # ns) = Text s # remove_tag t ns"
| "remove_tag t (Elem n a cs # ns) =
     (if n = t then remove_tag t ns else Elem n a (remove_tag t cs) # remove_tag t ns)"

text \<open>\<open>el.style.prop = v\<close> on each element whose tag is in \<open>ts\<close>; the inline
  style property is kept as an attribute \<open>style:prop\<close>, replaced if present.\<close>

definition set_style :: "js_string \<Rightarrow> js_string \<Rightarrow> (js_string \<times> js_string) list \<Rightarrow> (js_string \<times> js_string) list" where
  "set_style p v a = (''style:'' @ p, v) # filter (\<lambda>kv. fst kv \<noteq> ''style:'' @ p) a"

fun style_tags :: "js_string list \<Rightarrow> js_string \<Rightarrow> js_string \<Rightarrow> dom_node list \<Rightarrow> dom_node list" where
  "style_tags ts p v [] = []"
| "style_tags ts p v (Text s # ns) = Text s # style_tags ts p v ns"
| "style_tags ts p v (Elem n a cs # ns) =
     Elem n (if n \<in> set ts then set_style p v a else a) (style_tags ts p v cs) # style_tags ts p v ns"

text \<open>\<open>textContent\<close> of a forest: its text nodes concatenated in order.\<close>

fun text_of :: "dom_node list \<Rightarrow> js_string" where
  "text_of [] = []"
| "text_of (Text s # ns) = s @ text_of ns"
| "text_of (Elem n a cs # ns) = text_of cs @ text_of ns"

subsection \<open>Lemmas\<close>

lemma tags_of_append [simp]: "tags_of (xs @ ys) = tags_of xs @ tags_of ys"
  by (induction xs rule: tags_of.induct) auto

lemma remove_tag_append [simp]: "remove_tag t (xs @ ys) = remove_tag t xs @ remove_tag t ys"
  by (induction t xs rule: remove_tag.induct) auto

lemma remove_tag_gone: "t \<notin> set (tags_of (remove_tag t ns))"
  by (induction t ns rule: remove_tag.induct) auto

lemma remove_tag_tags_subset: "set (tags_of (remove_tag t ns)) \<subseteq> set (tags_of ns)"
  by (induction t ns rule: remove_tag.induct) auto

lemma remove_tag_absent: "t \<notin> set (tags_of ns) \<Longrightarrow> remove_tag t ns = ns"
  by (induction t ns rule: remove_tag.induct) auto

lemma tags_of_style_tags [simp]: "tags_of (style_tags ts p v ns) = tags_of ns"
  by (induction ts p v ns rule: style_tags.induct) auto

lemma text_of_style_tags [simp]: "text_of (style_tags ts p v ns) = text_of ns"
  by (induction ts p v ns rule: style_tags.induct) auto

lemma text_of_append [simp]: "text_of (xs @ ys) = text_of xs @ text_of ys"
  by (induction xs rule: text_of.induct) auto

end
