(* ===== verification/Generator.thy ===== *)
theory Generator
  imports Dom NotionTypes
begin

text \<open>
  The canvas PDF generator \<open>generatePDF\<close> of \<open>src/lib/pdf-generator.ts\<close>.  The
  function appends a hidden container to the document and fills it from a
  template, then adjusts the parsed tree (page-break styles, image removal),
  rasterises it with html2canvas and cuts the bitmap into one strip per PDF
  page, each with a caption; the \<open>finally\<close> removes the container.  External
  capabilities are inputs: the HTML parser behind \<open>innerHTML\<close> (\<open>parse\<close>, on
  the template with its numbers), html2canvas (\<open>render\<close>, which may throw) and
  \<open>getContext("2d")\<close> (\<open>ctx_ok i\<close> for page \<open>i\<close>).  A jsPDF document is its
  list of pages, each the list of drawing calls made on it.  Lengths are exact
  reals; the rounding of doubles is not modelled, but the special values that
  decide whether the loop ends (division by zero, signed zeros, \<open>NaN\<close>) are.
\<close>

subsection \<open>Page geometry (lines 15-17)\<close>

definition page_width :: "js_string \<Rightarrow> real" where
  "page_width ps = (if ps = ''a4'' then 210 else if ps = ''letter'' then 2159/10 else 2159/10)"

definition page_height :: "js_string \<Rightarrow> real" where
  "page_height ps = (if ps = ''a4'' then 297 else if ps = ''letter'' then 2794/10 else 3556/10)"

subsection \<open>The container template (lines 27-59)\<close>

text \<open>A template literal as its pieces: literal text and interpolated numbers
  (printed by \<open>Number.prototype.toString\<close>, which the parser input carries
  unprinted).  Indentation between tags is abbreviated to nothing; the parser
  keeps it only as white-space text nodes.\<close>

datatype tpl = TLit js_string | TNum real

definition container_background :: "notion_page_data \<Rightarrow> export_settings \<Rightarrow> js_string" where
  "container_background p st =
     (case backgroundColor p of
        Some c \<Rightarrow> if includeBackground st \<and> c \<noteq> [] then c else ''white''
      | None \<Rightarrow> ''white'')"

definition cover_block :: "notion_page_data \<Rightarrow> export_settings \<Rightarrow> tpl list" where
  "cover_block p st =
     (case coverImage p of
        Some c \<Rightarrow>
          if includeCover st \<and> c \<noteq> [] then
            [TLit ''<div style=\"margin: -'', TNum (margins st), TLit ''mm -'', TNum (margins st),
             TLit ''mm 20px -'', TNum (margins st), TLit ''mm; height: 100px; overflow: hidden;\">'',
             TLit ''<img src=\"'', TLit c, TLit ''\" style=\"width: 100%; height: 100%; object-fit: cover;\" /></div>'']
          else []
      | None \<Rightarrow> [])"

definition icon_block :: "notion_page_data \<Rightarrow> export_settings \<Rightarrow> tpl list" where
  "icon_block p st =
     (case icon p of
        Some ic \<Rightarrow>
          if includeIcon st then
            (if icon_type ic = Emoji
             then [TLit ''<span style=\"font-size: 2rem; margin-right: 10px;\">'', TLit (icon_content ic), TLit ''</span>'']
             else [TLit ''<span style=\"font-size: 2rem; margin-right: 10px;\"><img src=\"'', TLit (icon_content ic),
                   TLit ''\" style=\"height: 2rem; width: 2rem; object-fit: contain;\" /></span>''])
          else []
      | None \<Rightarrow> [])"

definition container_tpl :: "notion_page_data \<Rightarrow> export_settings \<Rightarrow> tpl list" where
  "container_tpl p st =
     [TLit ''<div style=\"width: '', TNum (page_width (pageSize st) - margins st * 2), TLit ''mm; padding: '',
      TNum (margins st), TLit ''mm; font-size: '', TNum (fontScale st), TLit ''rem; background-color: '',
      TLit (container_background p st), TLit '';\">'']
     @ cover_block p st
     @ [TLit ''<div style=\"display: flex; align-items: center; margin-bottom: 20px;\">'']
     @ icon_block p st
     @ [TLit ''<h1 style=\"font-size: 2rem; font-weight: bold;\">'', TLit (title p), TLit ''</h1></div>'']
     @ [TLit ''<div class=\"notion-content\">'', TLit (content p), TLit ''</div></div>'']"

subsection \<open>The tree handed to html2canvas (lines 61-77)\<close>

definition break_tags :: "js_string list" where
  "break_tags = [''p'', ''h1'', ''h2'', ''h3'', ''h4'', ''h5'', ''h6'', ''ul'', ''ol'', ''table'']"

definition container_dom ::
  "(tpl list \<Rightarrow> dom_node list) \<Rightarrow> notion_page_data \<Rightarrow> export_settings \<Rightarrow> dom_node list" where
  "container_dom parse p st =
     (let d0 = parse (container_tpl p st);
          d1 = (if smartPageBreaks st then style_tags break_tags ''pageBreakInside'' ''avoid'' d0 else d0)
      in if \<not> preserveImages st then remove_tag ''img'' d1 else d1)"

subsection \<open>Strips and pages (lines 86-122)\<close>

record canvas =
  cv_width :: nat
  cv_height :: nat

text \<open>The number of iterations of the page loop,
  \<open>Math.ceil(contentHeight / pageHeightPx)\<close> with
  \<open>pageHeightPx = a * cw / b\<close>, \<open>a = pageHeight - 2 margins\<close>,
  \<open>b = pageWidth - 2 margins\<close>.  \<open>None\<close>: the bound is \<open>+Infinity\<close> and the
  loop never ends.  With \<open>h = 0\<close> the quotient is \<open>0\<close> or \<open>NaN\<close>; with
  \<open>b = 0\<close> the strip height is infinite or \<open>NaN\<close>; with \<open>a * cw = 0\<close> it is a
  signed zero, positive exactly when \<open>a \<ge> 0\<close> agrees with \<open>b > 0\<close>, and
  \<open>h / +0 = +Infinity\<close>.\<close>

definition strip_count :: "real \<Rightarrow> real \<Rightarrow> nat \<Rightarrow> nat \<Rightarrow> nat option" where
  "strip_count a b cw h =
     (if h = 0 \<or> b = 0 then Some 0
      else if a * real cw = 0 then (if (0 \<le> a) = (0 < b) then None else Some 0)
      else Some (nat \<lceil>real h * b / (a * real cw)\<rceil>))"

definition strip_px :: "real \<Rightarrow> real \<Rightarrow> nat \<Rightarrow> real" where
  "strip_px a b cw = a * real cw / b"

text \<open>The \<open>i\<close>-th strip: source offset \<open>srcY\<close> and height \<open>srcHeight\<close>.\<close>

definition strip :: "real \<Rightarrow> nat \<Rightarrow> nat \<Rightarrow> real \<times> real" where
  "strip php h i = (real i * php, min php (real h - real i * php))"

text \<open>The drawing calls on a page: the strip image (its source rows, the height
  of the page canvas it is copied into, a non-negative integer by the
  \<open>unsigned long\<close> conversion, and its box on the page), the font size and
  the caption.\<close>

datatype pdf_op =
  PdfImage real real nat real real real real
  | PdfFontSize nat
  | PdfText js_string real real

type_synonym pdf_doc = "pdf_op list list"

definition append_last :: "pdf_doc \<Rightarrow> pdf_op list \<Rightarrow> pdf_doc" where
  "append_last doc ops = butlast doc @ [last doc @ ops]"

definition page_caption :: "nat \<Rightarrow> nat \<Rightarrow> js_string" where
  "page_caption i n = ''Page '' @ nat_to_string (Suc i) @ '' of '' @ nat_to_string n"

definition page_ops :: "real \<Rightarrow> real \<Rightarrow> real \<Rightarrow> canvas \<Rightarrow> real \<Rightarrow> nat \<Rightarrow> nat \<Rightarrow> pdf_op list" where
  "page_ops pw ph m cv php n i =
     (let (srcY, srcH) = strip php (cv_height cv) i
      in [PdfImage srcY srcH (nat \<lfloor>srcH\<rfloor>) m m (pw - m * 2) ((pw - m * 2) * srcH / real (cv_width cv)),
          PdfFontSize 8, PdfText (page_caption i n) (pw - m - 20) (ph - m - 5)])"

definition add_page ::
  "real \<Rightarrow> real \<Rightarrow> real \<Rightarrow> canvas \<Rightarrow> real \<Rightarrow> nat \<Rightarrow> (nat \<Rightarrow> bool) \<Rightarrow> pdf_doc \<Rightarrow> nat \<Rightarrow> pdf_doc" where
  "add_page pw ph m cv php n ctx_ok doc i =
     (let doc1 = (if 0 < i then doc @ [[]] else doc)
      in if ctx_ok i then append_last doc1 (page_ops pw ph m cv php n i) else doc1)"

subsection \<open>The function\<close>

datatype gen_dom_op = AppendContainer | RemoveContainer

text \<open>The outcome: the promise settles with the document or an error, or the
  loop never ends and the promise stays pending.\<close>

datatype gen_outcome = Settled "pdf_doc js_result" | Hangs

text \<open>\<open>ctx.drawImage(canvas, ...)\<close> (line 105) first checks the usability of its
  source: a canvas with a zero width or height throws an \<open>InvalidStateError\<close>
  \<open>DOMException\<close> (HTML, "check the usability of the image argument"); its
  message is browser-specific, so the error carries the exception's name.  A
  zero source rectangle height only draws nothing.\<close>

definition invalid_state_error :: js_string where
  "invalid_state_error = ''InvalidStateError''"

text \<open>The iterations of an unbounded loop up to the first page that gets a 2D
  context: pages without one add no drawing and cannot throw.  \<open>None\<close>: no
  page ever gets a context and the loop does not end.\<close>

partial_function (option) first_ctx :: "(nat \<Rightarrow> bool) \<Rightarrow> nat \<Rightarrow> nat option" where
  "first_ctx ctx_ok i = (if ctx_ok i then Some i else first_ctx ctx_ok (Suc i))"

text \<open>When the loop bound is finite and positive the bitmap is not empty
  (\<open>strip_count_Some_pos\<close> below), so \<open>drawImage\<close> never throws there; when
  it is \<open>Infinity\<close> the loop runs until the first page with a context, whose
  \<open>drawImage\<close> throws if the bitmap is empty and otherwise draws an empty
  strip, forever.\<close>

definition generatePDF ::
  "(tpl list \<Rightarrow> dom_node list) \<Rightarrow> (dom_node list \<Rightarrow> canvas js_result) \<Rightarrow> (nat \<Rightarrow> bool) \<Rightarrow>
   notion_page_data \<Rightarrow> export_settings \<Rightarrow> gen_outcome \<times> gen_dom_op list" where
  "generatePDF parse render ctx_ok p st =
     (let pw = page_width (pageSize st); ph = page_height (pageSize st); m = margins st
      in case render (container_dom parse p st) of
           Thrown e \<Rightarrow> (Settled (Thrown e), [AppendContainer, RemoveContainer])
         | Returned cv \<Rightarrow>
             (case strip_count (ph - m * 2) (pw - m * 2) (cv_width cv) (cv_height cv) of
                None \<Rightarrow>
                  (if cv_width cv = 0 \<or> cv_height cv = 0 then
                     (case first_ctx ctx_ok 0 of
                        Some _ \<Rightarrow> (Settled (Thrown invalid_state_error), [AppendContainer, RemoveContainer])
                      | None \<Rightarrow> (Hangs, [AppendContainer]))
                   else (Hangs, [AppendContainer]))
              | Some n \<Rightarrow>
                  (Settled (Returned
                     (fold (\<lambda>i doc. add_page pw ph m cv (strip_px (ph - m * 2) (pw - m * 2) (cv_width cv)) n ctx_ok doc i)
                        [0..<n] [[]])),
                   [AppendContainer, RemoveContainer])))"

subsection \<open>Strips tile the bitmap\<close>

lemma strip_nat_ceiling:
  assumes "0 \<le> x" "i < nat \<lceil>x\<rceil>" shows "real i < x"
proof -
  have "int i < \<lceil>x\<rceil>" using assms by linarith
  then show ?thesis by (simp add: less_ceiling_iff)
qed
lemma strip_height_full:
  assumes "0 < php" "real (Suc i) < real h / php"
  shows "snd (strip php h i) = php"
proof -
  have "real (Suc i) * php < real h" using assms by (simp add: pos_less_divide_eq)
  then show ?thesis by (simp add: strip_def algebra_simps)
qed
lemma strip_height_last:
  assumes "0 < php" "real h / php \<le> real (Suc i)"
  shows "snd (strip php h i) = real h - real i * php"
proof -
  have "real h \<le> real (Suc i) * php" using assms by (simp add: pos_divide_le_eq)
  then show ?thesis by (simp add: strip_def algebra_simps)
qed
lemma strip_height_pos:
  assumes "0 < php" "real i < real h / php"
  shows "0 < snd (strip php h i)"
proof -
  have "real i * php < real h" using assms by (simp add: pos_less_divide_eq)
  then show ?thesis using assms(1) by (simp add: strip_def)
qed
text \<open>Claim C25: for a positive strip height \<open>php\<close> the page loop's strips tile
  the bitmap: there are \<open>ceil(h / php)\<close> of them, the \<open>i\<close>-th starts at
  \<open>i * php\<close>, each has positive height, and the heights add up to the bitmap's
  height \<open>h\<close>: no row is lost or drawn twice.\<close>

theorem strips_tile:
  assumes "0 < php"
  shows "(\<Sum>i < nat \<lceil>real h / php\<rceil>. snd (strip php h i)) = real h \<and>
         (\<forall>i < nat \<lceil>real h / php\<rceil>. 0 < snd (strip php h i) \<and> fst (strip php h i) = real i * php)"
proof -
  define n where "n = nat \<lceil>real h / php\<rceil>"
  have x0: "0 \<le> real h / php" using assms by simp
  have lt: "real i < real h / php" if "i < n" for i using strip_nat_ceiling [OF x0] that n_def by simp
  have pos: "\<forall>i < n. 0 < snd (strip php h i) \<and> fst (strip php h i) = real i * php"
    using strip_height_pos [OF assms] lt by (auto simp: strip_def)
  have sum: "(\<Sum>i < n. snd (strip php h i)) = real h"
  proof (cases n)
    case 0
    then have "\<lceil>real h / php\<rceil> \<le> 0" using n_def by simp
    then have "real h / php \<le> 0" by (simp add: ceiling_le_iff)
    then have "h = 0" using assms x0 by (simp add: divide_le_0_iff)
    then show ?thesis using 0 by simp
  next
    case (Suc k)
    have full: "snd (strip php h i) = php" if "i < k" for i
    proof (rule strip_height_full [OF assms])
      show "real (Suc i) < real h / php" using lt [of "Suc i"] that Suc by simp
    qed
    have "real h / php \<le> real n" using le_of_int_ceiling [of "real h / php"] x0 n_def
      by (simp add: of_nat_nat)
    then have last: "snd (strip php h k) = real h - real k * php"
      using Suc by (intro strip_height_last [OF assms]) simp
    have "(\<Sum>i < n. snd (strip php h i)) = (\<Sum>i < k. snd (strip php h i)) + snd (strip php h k)"
      using Suc by simp
    also have "\<dots> = real k * php + (real h - real k * php)" using full last by simp
    finally show ?thesis by simp
  qed
  show ?thesis using sum pos n_def by simp
qed

subsection \<open>The generator\<close>

lemma append_last_snoc: "append_last (doc @ [[]]) ops = doc @ [ops]"
  by (simp add: append_last_def)

lemma fold_add_page_all:
  assumes "\<forall>i. ctx_ok i"
  shows "fold (\<lambda>i doc. add_page pw ph m cv php n ctx_ok doc i) [0..<Suc k] [[]] =
         map (page_ops pw ph m cv php n) [0..<Suc k]"
proof (induction k)
  case 0
  then show ?case using assms by (simp add: add_page_def append_last_def)
next
  case (Suc k)
  then show ?case using assms by (simp add: add_page_def append_last_snoc)
qed

lemma strip_count_pos:
  assumes "0 < a" "0 < b" "0 < cw"
  shows "strip_count a b cw h = Some (nat \<lceil>real h / strip_px a b cw\<rceil>)"
  using assms by (simp add: strip_count_def strip_px_def)

lemma strip_px_pos: "0 < a \<Longrightarrow> 0 < b \<Longrightarrow> 0 < cw \<Longrightarrow> 0 < strip_px a b cw"
  by (simp add: strip_px_def)

lemmas generatePDF_unfold = generatePDF_def Let_def

text \<open>Claim C26: the temporary container is appended first and removed by the
  \<open>finally\<close> on every path on which the promise settles, with the document or
  with html2canvas's error; it stays in the document only if the page loop
  never ends.\<close>

theorem generatePDF_releases_container:
  "snd (generatePDF parse render ctx_ok p st) =
     (if fst (generatePDF parse render ctx_ok p st) = Hangs then [AppendContainer]
      else [AppendContainer, RemoveContainer])"
  by (simp add: generatePDF_unfold split: js_result.splits option.splits)

lemma generatePDF_settles_geom:
  assumes "margins st * 2 < page_width (pageSize st)" "margins st * 2 < page_height (pageSize st)"
    "\<forall>cv. render (container_dom parse p st) = Returned cv \<longrightarrow> 0 < cv_width cv"
  shows "\<exists>r. generatePDF parse render ctx_ok p st = (Settled r, [AppendContainer, RemoveContainer])"
  using assms by (auto simp: generatePDF_unfold strip_count_def split: js_result.splits)

text \<open>Claim C27: on a successful render of a non-empty bitmap, the PDF has one
  page per strip, \<open>ceil(h / php)\<close> pages, and page \<open>i\<close> holds the \<open>i\<close>-th
  strip scaled to the printable width, then the caption
  \<open>Page i+1 of n\<close> at the bottom-right margin.\<close>

theorem generatePDF_pages:
  assumes "render (container_dom parse p st) = Returned cv" "\<forall>i. ctx_ok i"
    "margins st * 2 < page_width (pageSize st)" "margins st * 2 < page_height (pageSize st)"
    "0 < cv_width cv" "0 < cv_height cv"
  defines "php \<equiv> strip_px (page_height (pageSize st) - margins st * 2) (page_width (pageSize st) - margins st * 2) (cv_width cv)"
  shows "fst (generatePDF parse render ctx_ok p st) =
           Settled (Returned (map (page_ops (page_width (pageSize st)) (page_height (pageSize st)) (margins st) cv php
                                    (nat \<lceil>real (cv_height cv) / php\<rceil>))
                                 [0..<nat \<lceil>real (cv_height cv) / php\<rceil>]))"
proof -
  define n where "n = nat \<lceil>real (cv_height cv) / php\<rceil>"
  have pos: "0 < php" unfolding php_def using assms(3-5) by (intro strip_px_pos) simp_all
  have "0 < real (cv_height cv) / php" using pos assms(6) by simp
  then have "0 < n" unfolding n_def by simp
  then obtain k where k: "n = Suc k" by (cases n) auto
  have sc: "strip_count (page_height (pageSize st) - margins st * 2) (page_width (pageSize st) - margins st * 2)
              (cv_width cv) (cv_height cv) = Some n"
    unfolding n_def php_def using assms(3-5) by (intro strip_count_pos) simp_all
  have "fst (generatePDF parse render ctx_ok p st) =
          Settled (Returned (map (page_ops (page_width (pageSize st)) (page_height (pageSize st)) (margins st) cv php n)
                                 [0..<n]))"
    using assms(1) sc fold_add_page_all [OF assms(2), of _ _ _ cv php n k]
    by (simp add: generatePDF_unfold k php_def)
  then show ?thesis by (simp only: n_def)
qed

text \<open>Claim C28: with \<open>preserveImages\<close> off, the tree rasterised for the PDF
  contains no \<open>img\<close> element, those of the cover and icon blocks and of the
  page content alike.\<close>

theorem container_dom_no_img:
  assumes "\<not> preserveImages st"
  shows "''img'' \<notin> set (tags_of (container_dom parse p st))"
  using assms by (simp add: container_dom_def Let_def remove_tag_gone)

subsection \<open>When the loop ends\<close>

lemma first_ctx_ok:
  assumes "first_ctx ctx_ok i = Some j"
  shows "ctx_ok j"
proof (rule first_ctx.raw_induct [where P = "\<lambda>ctx_ok i j. ctx_ok j", OF _ assms])
  fix f ctx_ok i j
  assume IH: "\<And>ctx_ok i j. f ctx_ok i = Some j \<Longrightarrow> ctx_ok j"
    and eq: "(if ctx_ok i then Some i else f ctx_ok (Suc i)) = Some j"
  show "ctx_ok j"
  proof (cases "ctx_ok i")
    case True
    with eq show ?thesis by simp
  next
    case False
    with eq have "f ctx_ok (Suc i) = Some j" by simp
    then show ?thesis by (rule IH)
  qed
qed

lemma first_ctx_found:
  assumes "ctx_ok k" "i \<le> k"
  shows "\<exists>j. first_ctx ctx_ok i = Some j"
  using assms(2)
proof (induction "k - i" arbitrary: i)
  case 0
  then have "i = k" by simp
  with assms(1) show ?case by (simp add: first_ctx.simps)
next
  case (Suc d)
  show ?case
  proof (cases "ctx_ok i")
    case True
    then show ?thesis by (simp add: first_ctx.simps)
  next
    case False
    have "\<exists>j. first_ctx ctx_ok (Suc i) = Some j" using Suc by (intro Suc.hyps) simp_all
    with False show ?thesis by (simp add: first_ctx.simps [of ctx_ok i])
  qed
qed

lemma first_ctx_None_iff: "first_ctx ctx_ok 0 = None \<longleftrightarrow> (\<forall>i. \<not> ctx_ok i)"
proof
  assume none: "first_ctx ctx_ok 0 = None"
  show "\<forall>i. \<not> ctx_ok i"
  proof (intro allI notI)
    fix i
    assume "ctx_ok i"
    then obtain j where "first_ctx ctx_ok 0 = Some j" using first_ctx_found [of ctx_ok i 0] by auto
    with none show False by simp
  qed
next
  assume "\<forall>i. \<not> ctx_ok i"
  then show "first_ctx ctx_ok 0 = None"
    using first_ctx_ok [of ctx_ok 0] by (cases "first_ctx ctx_ok 0") auto
qed

lemma strip_count_Some_pos:
  assumes "strip_count a b cw h = Some n" "0 < n"
  shows "0 < cw \<and> 0 < h"
  using assms by (auto simp: strip_count_def split: if_splits)

lemma page_width_lt_height: "page_width ps < page_height ps"
  by (simp add: page_width_def page_height_def)

text \<open>A zero-width, non-empty bitmap with a positive printable width: the loop
  bound is \<open>Infinity\<close>, and the first page with a context throws.\<close>

lemma generatePDF_zero_width_rejects:
  assumes "render (container_dom parse p st) = Returned cv" "cv_width cv = 0" "0 < cv_height cv"
    "margins st * 2 < page_width (pageSize st)" "ctx_ok i"
  shows "generatePDF parse render ctx_ok p st =
           (Settled (Thrown invalid_state_error), [AppendContainer, RemoveContainer])"
proof -
  obtain j where "first_ctx ctx_ok 0 = Some j" using first_ctx_found [where ctx_ok = ctx_ok and k = i and i = 0] assms(5) by auto
  moreover have "margins st * 2 < page_height (pageSize st)"
    using assms(4) page_width_lt_height [of "pageSize st"] by linarith
  ultimately show ?thesis using assms(1-4) by (simp add: generatePDF_unfold strip_count_def)
qed

text \<open>Claim C29: \<open>generatePDF\<close> settles on every input except one: html2canvas
  returns a bitmap of width 0 and positive height, the printable width and
  height have the signs that make the loop bound \<open>Infinity\<close>, and
  \<open>getContext("2d")\<close> returns \<open>null\<close> for every page canvas.  Then the loop
  adds pages forever; in every other case it either runs \<open>ceil(h / php)\<close>
  times or the first \<open>drawImage\<close> throws.\<close>

theorem generatePDF_hangs_iff:
  "fst (generatePDF parse render ctx_ok p st) = Hangs \<longleftrightarrow>
     (\<exists>cv. render (container_dom parse p st) = Returned cv \<and> cv_width cv = 0 \<and> 0 < cv_height cv \<and>
        (margins st * 2 < page_width (pageSize st) \<or> page_height (pageSize st) < margins st * 2) \<and>
        (\<forall>i. \<not> ctx_ok i))"
proof -
  have wh: "page_width (pageSize st) < page_height (pageSize st)" by (rule page_width_lt_height)
  show ?thesis
  proof (cases "render (container_dom parse p st)")
    case (Thrown e)
    then show ?thesis by (simp add: generatePDF_unfold)
  next
    case (Returned cv)
    show ?thesis
    proof (cases "cv_width cv = 0")
      case True
      then show ?thesis using Returned wh
        by (auto simp: generatePDF_unfold strip_count_def first_ctx_None_iff dest: first_ctx_ok split: option.splits)
    next
      case False
      then show ?thesis using Returned wh
        by (auto simp: generatePDF_unfold strip_count_def split: option.splits)
    qed
  qed
qed

text \<open>The last strip can be shorter than one pixel.  On A4 with 20 mm
  margins and a 100 x 303 bitmap the loop makes three pages and the third strip
  is 0.65 rows high, so its page canvas gets height 0 and the page's image is
  empty.\<close>

theorem generatePDF_empty_strip:
  "page_ops 210 297 20 \<lparr>cv_width = 100, cv_height = 303\<rparr> (strip_px 257 170 100) 3 2 =
     [PdfImage (2 * (257 * 100 / 170)) (303 - 2 * (257 * 100 / 170)) 0 20 20 170
        (170 * (303 - 2 * (257 * 100 / 170)) / 100),
      PdfFontSize 8, PdfText ''Page 3 of 3'' 170 272] \<and>
   strip_count 257 170 100 303 = Some 3"
proof -
  have f: "\<lfloor>303 - 2 * (257 * 100 / 170 :: real)\<rfloor> = 0" by (simp add: floor_eq_iff)
  have c: "\<lceil>303 * 170 / (257 * 100 :: real)\<rceil> = 3" by (simp add: ceiling_eq_iff)
  have l: "page_caption 2 3 = ''Page 3 of 3''" by code_simp
  show ?thesis
    by (simp add: page_ops_def strip_def strip_px_def strip_count_def l f c)
qed

subsection \<open>Witnesses\<close>

theorem strips_tile_witness:
  "(\<Sum>i < 3. snd (strip 257 600 i)) = 600 \<and> 0 < snd (strip 257 600 2) \<and> fst (strip 257 600 2) = 514"
proof -
  have c: "nat \<lceil>real (600::nat) / 257\<rceil> = 3" by (simp add: ceiling_eq_iff)
  from strips_tile [of 257 600] show ?thesis by (simp add: c)
qed

theorem generatePDF_pages_witness:
  "fst (generatePDF (\<lambda>_. []) (\<lambda>_. Returned \<lparr>cv_width = 170, cv_height = 600\<rparr>) (\<lambda>_. True)
         \<lparr>title = ''T'', icon = None, coverImage = None, content = [], backgroundColor = None,
          originalHtml = [], author = None\<rparr> default_settings) =
   Settled (Returned (map (page_ops 210 297 20 \<lparr>cv_width = 170, cv_height = 600\<rparr> 257 3) [0..<3]))"
proof -
  have px: "strip_px 257 170 170 = 257" by (simp add: strip_px_def)
  have c: "\<lceil>600 / (257::real)\<rceil> = 3" by (simp add: ceiling_eq_iff)
  show ?thesis
    using generatePDF_pages [where parse = "\<lambda>_. []" and render = "\<lambda>_. Returned \<lparr>cv_width = 170, cv_height = 600\<rparr>"
        and p = "\<lparr>title = ''T'', icon = None, coverImage = None, content = [], backgroundColor = None,
          originalHtml = [], author = None\<rparr>" and st = default_settings and cv = "\<lparr>cv_width = 170, cv_height = 600\<rparr>"
        and ctx_ok = "\<lambda>_. True"]
    by (simp add: default_settings_def page_width_def page_height_def px c)
qed

theorem container_dom_no_img_witness:
  "''img'' \<notin> set (tags_of (container_dom (\<lambda>_. [Elem ''p'' [] [Elem ''img'' [(''src'', ''a.png'')] []]])
      \<lparr>title = ''T'', icon = None, coverImage = None, content = [], backgroundColor = None,
       originalHtml = [], author = None\<rparr> (default_settings\<lparr>preserveImages := False\<rparr>)))"
  by (rule container_dom_no_img) simp

theorem generatePDF_hangs_iff_witness:
  "fst (generatePDF (\<lambda>_. []) (\<lambda>_. Returned \<lparr>cv_width = 0, cv_height = 10\<rparr>) (\<lambda>_. False)
     \<lparr>title = ''T'', icon = None, coverImage = None, content = [], backgroundColor = None,
      originalHtml = [], author = None\<rparr> default_settings) = Hangs"
  by (subst generatePDF_hangs_iff) (simp add: default_settings_def page_width_def)

end
