(* ===== verification/Structural.thy ===== *)
theory Structural
  imports FetchRoute Dom
begin

text \<open>
  The server action \<open>fetchNotionPage\<close> of \<open>src/app/actions/notion.ts\<close>: the
  structural extractor.  It validates and fetches the URL like the fetch route,
  parses the page with JSDOM and reads each field with \<open>querySelector\<close>.  The
  parser, the \<open>innerHTML\<close> serialiser and the URL resolution behind
  \<open>img.src\<close> are external and enter as a \<open>dom_env\<close>; the URL parser and
  \<open>fetch\<close> enter as in \<open>FetchRoute\<close>.  Every throw inside the \<open>try\<close> is an
  \<open>Error\<close>, so the \<open>catch\<close> rethrows a new error with the same message: the
  result is the page or \<open>Thrown\<close> with that message.
\<close>

subsection \<open>Selectors\<close>

definition get_attr :: "(js_string \<times> js_string) list \<Rightarrow> js_string \<Rightarrow> js_string option" where
  "get_attr a k = map_of a k"

text \<open>HTML's ASCII white space, which separates class names.\<close>

definition is_html_space :: "char \<Rightarrow> bool" where
  "is_html_space c \<longleftrightarrow> of_char c \<in> {9, 10, 12, 13, 32::nat}"

fun split_html_ws :: "js_string \<Rightarrow> js_string \<Rightarrow> js_string list" where
  "split_html_ws [] acc = [rev acc]"
| "split_html_ws (c # s) acc =
     (if is_html_space c then rev acc # split_html_ws s [] else split_html_ws s (c # acc))"

text \<open>The selector \<open>.c\<close>.\<close>

definition has_class :: "js_string \<Rightarrow> js_string \<Rightarrow> (js_string \<times> js_string) list \<Rightarrow> bool" where
  "has_class c t a =
     (case get_attr a ''class'' of
        Some v \<Rightarrow> c \<in> set (split_html_ws v [])
      | None \<Rightarrow> False)"

text \<open>The type selector \<open>t\<close> and the attribute selector \<open>[k="v"]\<close>.\<close>

definition tag_is :: "js_string \<Rightarrow> js_string \<Rightarrow> (js_string \<times> js_string) list \<Rightarrow> bool" where
  "tag_is n t a \<longleftrightarrow> t = n"

definition attr_is :: "js_string \<Rightarrow> js_string \<Rightarrow> js_string \<Rightarrow> (js_string \<times> js_string) list \<Rightarrow> bool" where
  "attr_is k v t a \<longleftrightarrow> get_attr a k = Some v"

type_synonym dom_elem = "js_string \<times> (js_string \<times> js_string) list \<times> dom_node list"

text \<open>\<open>querySelector\<close>: the first element in document order that matches.\<close>

fun query_first ::
  "(js_string \<Rightarrow> (js_string \<times> js_string) list \<Rightarrow> bool) \<Rightarrow> dom_node list \<Rightarrow> dom_elem option" where
  "query_first P [] = None"
| "query_first P (Text s # ns) = query_first P ns"
| "query_first P (Elem t a cs # ns) =
     (if P t a then Some (t, a, cs)
      else (case query_first P cs of Some e \<Rightarrow> Some e | None \<Rightarrow> query_first P ns))"

text \<open>\<open>querySelector("A P")\<close> with the descendant combinator: the first element
  matching \<open>P\<close> that has a proper ancestor matching \<open>A\<close>; \<open>inside\<close> says
  whether such an ancestor encloses the forest.\<close>

fun query_desc ::
  "(js_string \<Rightarrow> (js_string \<times> js_string) list \<Rightarrow> bool) \<Rightarrow>
   (js_string \<Rightarrow> (js_string \<times> js_string) list \<Rightarrow> bool) \<Rightarrow> bool \<Rightarrow> dom_node list \<Rightarrow> dom_elem option" where
  "query_desc A P inside [] = None"
| "query_desc A P inside (Text s # ns) = query_desc A P inside ns"
| "query_desc A P inside (Elem t a cs # ns) =
     (if inside \<and> P t a then Some (t, a, cs)
      else (case query_desc A P (inside \<or> A t a) cs of
              Some e \<Rightarrow> Some e
            | None \<Rightarrow> query_desc A P inside ns))"

text \<open>The first child element with a given tag.\<close>

fun child_tag :: "js_string \<Rightarrow> dom_node list \<Rightarrow> dom_elem option" where
  "child_tag n [] = None"
| "child_tag n (Text s # ns) = child_tag n ns"
| "child_tag n (Elem t a cs # ns) = (if t = n then Some (t, a, cs) else child_tag n ns)"

text \<open>\<open>document.body\<close>: the first \<open>body\<close> child of the \<open>html\<close> element.\<close>

definition doc_body :: "dom_node list \<Rightarrow> dom_elem option" where
  "doc_body d =
     (case child_tag ''html'' d of
        Some (_, _, cs) \<Rightarrow> child_tag ''body'' cs
      | None \<Rightarrow> None)"

subsection \<open>The extractor\<close>

record dom_env =
  jsdom :: "js_string \<Rightarrow> dom_node list"
  serialize :: "dom_node list \<Rightarrow> js_string"
  resolve_url :: "js_string \<Rightarrow> js_string"

text \<open>\<open>/background(-color)?:\s*([^;]+)/\<close>, no flag.\<close>

definition body_bg_rx :: rx where
  "body_bg_rx =
     rseq [rlit ''background'', ropt (RGroup 1 (rlit ''-color'')), rlit '':'', RStar True (RChar CSpace),
           RGroup 2 (rplus (RChar (CNot '';'')))]"

definition struct_title :: "dom_node list \<Rightarrow> js_string" where
  "struct_title d =
     js_or_str
       (case query_first (tag_is ''title'') d of
          Some (_, _, cs) \<Rightarrow> replace_first_str (text_of cs) '' | Notion'' []
        | None \<Rightarrow> [])
       ''Untitled''"

definition struct_icon :: "dom_env \<Rightarrow> dom_node list \<Rightarrow> notion_icon option" where
  "struct_icon env d =
     (case query_first (attr_is ''data-icon-role'' ''page_icon'') d of
        None \<Rightarrow> None
      | Some (_, _, cs) \<Rightarrow>
          if text_of cs \<noteq> [] then Some \<lparr>icon_type = Emoji, icon_content = text_of cs\<rparr>
          else
            (case query_first (tag_is ''img'') cs of
               Some (_, a, _) \<Rightarrow>
                 (let src = (case get_attr a ''src'' of Some v \<Rightarrow> resolve_url env v | None \<Rightarrow> [])
                  in if src \<noteq> [] then Some \<lparr>icon_type = Image, icon_content = src\<rparr> else None)
             | None \<Rightarrow> None))"

definition struct_cover :: "dom_node list \<Rightarrow> js_string option" where
  "struct_cover d =
     (case query_desc (has_class ''notion-header-block'') (tag_is ''img'') False d of
        Some (_, a, _) \<Rightarrow> (case get_attr a ''src'' of Some v \<Rightarrow> if v \<noteq> [] then Some v else None | None \<Rightarrow> None)
      | None \<Rightarrow> None)"

definition struct_content :: "dom_env \<Rightarrow> dom_node list \<Rightarrow> js_string" where
  "struct_content env d =
     (case query_first (has_class ''notion-page-content'') d of
        Some (_, _, cs) \<Rightarrow> serialize env cs
      | None \<Rightarrow> [])"

text \<open>Lines 63-70; a missing body makes \<open>getAttribute\<close> throw.\<close>

definition struct_background :: "dom_node list \<Rightarrow> js_string option js_result" where
  "struct_background d =
     (case doc_body d of
        None \<Rightarrow> Thrown (''Cannot read properties of null (reading '' @ [CHR 0x27] @ ''getAttribute'' @ [CHR 0x27] @ '')'')
      | Some (_, a, _) \<Rightarrow>
          Returned
            (case get_attr a ''style'' of
               Some st \<Rightarrow>
                 if st \<noteq> [] \<and> js_includes st ''background'' then
                   (case rx_search False body_bg_rx st of
                      Some m \<Rightarrow> if group_str m 2 \<noteq> [] then Some (js_trim (group_str m 2)) else None
                    | None \<Rightarrow> None)
                 else None
             | None \<Rightarrow> None))"

definition struct_extract :: "dom_env \<Rightarrow> js_string \<Rightarrow> notion_page_data js_result" where
  "struct_extract env html =
     (let d = jsdom env html
      in case struct_background d of
           Thrown e \<Rightarrow> Thrown e
         | Returned bg \<Rightarrow>
             Returned \<lparr>title = struct_title d, icon = struct_icon env d, coverImage = struct_cover d,
                       content = struct_content env d, backgroundColor = bg, originalHtml = html,
                       author = None\<rparr>)"

definition fetchNotionPage ::
  "(js_string \<Rightarrow> js_string option) \<Rightarrow> (js_string \<Rightarrow> fetch_response js_result) \<Rightarrow> dom_env \<Rightarrow>
   js_string \<Rightarrow> notion_page_data js_result" where
  "fetchNotionPage url_host fetch_url env url =
     (case url_host url of
        None \<Rightarrow> Thrown ''Invalid URL''
      | Some host \<Rightarrow>
          if \<not> notion_host_ok host
          then Thrown ''Invalid Notion URL. Please provide a published Notion page URL.''
          else
            (case fetch_url url of
               Thrown e \<Rightarrow> Thrown e
             | Returned r \<Rightarrow>
                 if \<not> resp_ok r then Thrown (''Failed to fetch Notion page: '' @ resp_statusText r)
                 else
                   (case resp_text r of
                      Thrown e \<Rightarrow> Thrown e
                    | Returned html \<Rightarrow> struct_extract env html)))"

subsection \<open>Properties\<close>

text \<open>Claim C33: the server action returns page data only when the URL parsed,
  its host passed the check, the fetch resolved with an ok response whose text
  was read, and the data is the structural extraction of that text; every other
  path throws.\<close>

theorem fetchNotionPage_page_sound:
  assumes "fetchNotionPage url_host fetch_url env url = Returned pd"
  shows "\<exists>host r html. url_host url = Some host \<and> notion_host_ok host \<and> fetch_url url = Returned r \<and>
           resp_ok r \<and> resp_text r = Returned html \<and> struct_extract env html = Returned pd"
  using assms by (auto simp: fetchNotionPage_def split: js_result.splits option.splits if_splits)

text \<open>The two extraction strategies disagree on one small page: the
  textual one trims the title, finds the icon by its \<open>notion-emoji\<close> class and
  reads only \<open>background-color:\<close>; the structural one keeps the title's white
  space, looks for \<open>data-icon-role="page_icon"\<close> and also reads
  \<open>background:\<close>, from the body's style alone.\<close>

theorem extractors_disagree:
  assumes "jsdom env ''<html><head><title> Notes </title></head><body style=\"background: red\"><span class=\"notion-emoji\">E</span></body></html>'' = [Elem ''html'' [] [Elem ''head'' [] [Elem ''title'' [] [Text '' Notes '']], Elem ''body'' [(''style'', ''background: red'')] [Elem ''span'' [(''class'', ''notion-emoji'')] [Text ''E'']]]]"
  shows "extract_title ''<html><head><title> Notes </title></head><body style=\"background: red\"><span class=\"notion-emoji\">E</span></body></html>'' = ''Notes'' \<and> struct_title (jsdom env ''<html><head><title> Notes </title></head><body style=\"background: red\"><span class=\"notion-emoji\">E</span></body></html>'') = '' Notes '' \<and>
         extract_icon ''<html><head><title> Notes </title></head><body style=\"background: red\"><span class=\"notion-emoji\">E</span></body></html>'' = Some \<lparr>icon_type = Emoji, icon_content = ''E''\<rparr> \<and> struct_icon env (jsdom env ''<html><head><title> Notes </title></head><body style=\"background: red\"><span class=\"notion-emoji\">E</span></body></html>'') = None \<and>
         extract_background ''<html><head><title> Notes </title></head><body style=\"background: red\"><span class=\"notion-emoji\">E</span></body></html>'' = None \<and> struct_background (jsdom env ''<html><head><title> Notes </title></head><body style=\"background: red\"><span class=\"notion-emoji\">E</span></body></html>'') = Returned (Some ''red'')"
proof -
  have "extract_title ''<html><head><title> Notes </title></head><body style=\"background: red\"><span class=\"notion-emoji\">E</span></body></html>'' = ''Notes'' \<and> extract_icon ''<html><head><title> Notes </title></head><body style=\"background: red\"><span class=\"notion-emoji\">E</span></body></html>'' = Some \<lparr>icon_type = Emoji, icon_content = ''E''\<rparr> \<and>
        extract_background ''<html><head><title> Notes </title></head><body style=\"background: red\"><span class=\"notion-emoji\">E</span></body></html>'' = None"
    by code_simp
  moreover have "struct_title [Elem ''html'' [] [Elem ''head'' [] [Elem ''title'' [] [Text '' Notes '']], Elem ''body'' [(''style'', ''background: red'')] [Elem ''span'' [(''class'', ''notion-emoji'')] [Text ''E'']]]] = '' Notes '' \<and> struct_icon env [Elem ''html'' [] [Elem ''head'' [] [Elem ''title'' [] [Text '' Notes '']], Elem ''body'' [(''style'', ''background: red'')] [Elem ''span'' [(''class'', ''notion-emoji'')] [Text ''E'']]]] = None \<and>
                 struct_background [Elem ''html'' [] [Elem ''head'' [] [Elem ''title'' [] [Text '' Notes '']], Elem ''body'' [(''style'', ''background: red'')] [Elem ''span'' [(''class'', ''notion-emoji'')] [Text ''E'']]]] = Returned (Some ''red'')"
    by code_simp
  ultimately show ?thesis using assms by simp
qed

subsection \<open>Witnesses\<close>

theorem fetchNotionPage_page_sound_witness:
  "\<exists>host r html. Some ''team.notion.site'' = Some host \<and> notion_host_ok host \<and>
     Returned \<lparr>resp_status = 200, resp_statusText = ''OK'', resp_text = Returned ''<p>x</p>''\<rparr> = Returned r \<and>
     resp_ok r \<and> resp_text r = Returned html \<and>
     struct_extract \<lparr>jsdom = \<lambda>_. [Elem ''html'' [] [Elem ''body'' [] []]], serialize = \<lambda>_. [], resolve_url = \<lambda>u. u\<rparr> html =
       Returned \<lparr>title = ''Untitled'', icon = None, coverImage = None, content = [], backgroundColor = None,
                 originalHtml = ''<p>x</p>'', author = None\<rparr>"
proof -
  have "fetchNotionPage (\<lambda>_. Some ''team.notion.site'')
          (\<lambda>_. Returned \<lparr>resp_status = 200, resp_statusText = ''OK'', resp_text = Returned ''<p>x</p>''\<rparr>)
          \<lparr>jsdom = \<lambda>_. [Elem ''html'' [] [Elem ''body'' [] []]], serialize = \<lambda>_. [], resolve_url = \<lambda>u. u\<rparr>
          ''https://team.notion.site/p'' =
        Returned \<lparr>title = ''Untitled'', icon = None, coverImage = None, content = [], backgroundColor = None,
                  originalHtml = ''<p>x</p>'', author = None\<rparr>"
    by code_simp
  from fetchNotionPage_page_sound [OF this] show ?thesis by simp
qed

theorem extractors_disagree_witness:
  "extract_title ''<html><head><title> Notes </title></head><body style=\"background: red\"><span class=\"notion-emoji\">E</span></body></html>'' = ''Notes'' \<and>
   struct_title (jsdom \<lparr>jsdom = \<lambda>_. [Elem ''html'' [] [Elem ''head'' [] [Elem ''title'' [] [Text '' Notes '']], Elem ''body'' [(''style'', ''background: red'')] [Elem ''span'' [(''class'', ''notion-emoji'')] [Text ''E'']]]], serialize = \<lambda>_. [], resolve_url = \<lambda>u. u\<rparr> ''<html><head><title> Notes </title></head><body style=\"background: red\"><span class=\"notion-emoji\">E</span></body></html>'') = '' Notes '' \<and>
   extract_icon ''<html><head><title> Notes </title></head><body style=\"background: red\"><span class=\"notion-emoji\">E</span></body></html>'' = Some \<lparr>icon_type = Emoji, icon_content = ''E''\<rparr> \<and>
   struct_icon \<lparr>jsdom = \<lambda>_. [Elem ''html'' [] [Elem ''head'' [] [Elem ''title'' [] [Text '' Notes '']], Elem ''body'' [(''style'', ''background: red'')] [Elem ''span'' [(''class'', ''notion-emoji'')] [Text ''E'']]]], serialize = \<lambda>_. [], resolve_url = \<lambda>u. u\<rparr>
     (jsdom \<lparr>jsdom = \<lambda>_. [Elem ''html'' [] [Elem ''head'' [] [Elem ''title'' [] [Text '' Notes '']], Elem ''body'' [(''style'', ''background: red'')] [Elem ''span'' [(''class'', ''notion-emoji'')] [Text ''E'']]]], serialize = \<lambda>_. [], resolve_url = \<lambda>u. u\<rparr> ''<html><head><title> Notes </title></head><body style=\"background: red\"><span class=\"notion-emoji\">E</span></body></html>'') = None \<and>
   extract_background ''<html><head><title> Notes </title></head><body style=\"background: red\"><span class=\"notion-emoji\">E</span></body></html>'' = None \<and>
   struct_background (jsdom \<lparr>jsdom = \<lambda>_. [Elem ''html'' [] [Elem ''head'' [] [Elem ''title'' [] [Text '' Notes '']], Elem ''body'' [(''style'', ''background: red'')] [Elem ''span'' [(''class'', ''notion-emoji'')] [Text ''E'']]]], serialize = \<lambda>_. [], resolve_url = \<lambda>u. u\<rparr> ''<html><head><title> Notes </title></head><body style=\"background: red\"><span class=\"notion-emoji\">E</span></body></html>'') =
     Returned (Some ''red'')"
  by (rule extractors_disagree) simp

end
