(* ===== verification/JsNumber.thy ===== *)
theory JsNumber
  imports Prelude
begin

text \<open>
  The conversions of JavaScript numbers to text that the components' markup
  performs: \<open>String(x)\<close>, which React applies to a number child, and
  \<open>Number.prototype.toFixed(1)\<close>.  Numbers are exact reals, as elsewhere in
  the development.  \<open>String(x)\<close> prints an integral value below \<open>10^21\<close> as
  its decimal integer; every other value is printed by the shortest round-trip
  decimal algorithm over the double, which the model leaves open (\<open>None\<close>).
  \<open>toFixed(1)\<close> is exact below \<open>10^21\<close> and defers to \<open>String\<close> above
  (\<open>None\<close> again).
\<close>

definition int_to_string :: "int \<Rightarrow> js_string" where
  "int_to_string i = (if i < 0 then ''-'' @ nat_to_string (nat (- i)) else nat_to_string (nat i))"

definition number_to_string :: "real \<Rightarrow> js_string option" where
  "number_to_string x =
     (if x = real_of_int \<lfloor>x\<rfloor> \<and> \<bar>x\<bar> < 10 ^ 21 then Some (int_to_string \<lfloor>x\<rfloor>) else None)"

text \<open>Steps 10.b-10.d of \<open>toFixed\<close> for one fraction digit: the digits of
  \<open>n\<close> are padded with zeros to two characters and the point goes before the
  last one.\<close>

definition point1 :: "js_string \<Rightarrow> js_string" where
  "point1 ds = (let m = (if length ds \<le> 1 then ''0'' @ ds else ds) in butlast m @ ''.'' @ [last m])"

text \<open>\<open>n\<close> is the integer for which \<open>n / 10 - x\<close> is closest to zero, the
  larger on a tie: \<open>\<lfloor>10 x + 1/2\<rfloor>\<close>; a negative \<open>x\<close> is printed as \<open>-\<close>
  followed by \<open>(-x).toFixed(1)\<close>.\<close>

definition to_fixed1 :: "real \<Rightarrow> js_string option" where
  "to_fixed1 x =
     (if 10 ^ 21 \<le> \<bar>x\<bar> then None
      else Some ((if x < 0 then ''-'' else []) @ point1 (nat_to_string (nat \<lfloor>\<bar>x\<bar> * 10 + 1 / 2\<rfloor>))))"

subsection \<open>Decimal digits\<close>

lemma nat_to_string_small: "n < 10 \<Longrightarrow> nat_to_string n = [char_of (48 + n)]"
  by (simp add: nat_to_string.simps)

lemma nat_to_string_big: "10 \<le> n \<Longrightarrow> nat_to_string n = nat_to_string (n div 10) @ [char_of (48 + n mod 10)]"
  by (simp add: nat_to_string.simps [of n])

lemma nat_to_string_ne [simp]: "nat_to_string n \<noteq> []"
  by (simp add: nat_to_string.simps [of n])

lemma length_nat_to_string_ge: "10 \<le> n \<Longrightarrow> 2 \<le> length (nat_to_string n)"
  by (simp add: nat_to_string_big Suc_le_eq)

lemma nat_to_string_0: "nat_to_string 0 = ''0''"
  by code_simp

lemma point1_digits: "point1 (nat_to_string n) = nat_to_string (n div 10) @ ''.'' @ nat_to_string (n mod 10)"
proof (cases "n < 10")
  case True
  then show ?thesis by (simp add: point1_def nat_to_string_small nat_to_string_0)
next
  case False
  then have "10 \<le> n" by simp
  then show ?thesis
    using length_nat_to_string_ge [of n]
    by (simp add: point1_def nat_to_string_big [of n] nat_to_string_small)
qed

subsection \<open>Exact values\<close>

lemma number_to_string_nat:
  assumes "real m < 10 ^ 21"
  shows "number_to_string (real m) = Some (nat_to_string m)"
  using assms by (simp add: number_to_string_def int_to_string_def)

lemma to_fixed1_tenths:
  assumes "real f < 10 ^ 22"
  shows "to_fixed1 (real f / 10) = Some (nat_to_string (f div 10) @ ''.'' @ nat_to_string (f mod 10))"
proof -
  have "\<lfloor>real f / 10 * 10 + 1 / 2\<rfloor> = int f" by linarith
  moreover have "\<not> 10 ^ 21 \<le> real f / 10" using assms by simp
  ultimately show ?thesis by (simp add: to_fixed1_def point1_digits)
qed

end
