(* ===== verification/SettingsForm.thy ===== *)
theory SettingsForm
  imports Settings JsNumber
begin

text \<open>
  What the settings card \<open>ExportSettings\<close> of
  \<open>src/components/export-settings.tsx\<close> renders for its \<open>settings\<close> prop: the
  card's title and description and three sections of labelled controls, each
  control showing the current value it is bound to (the components are
  controlled).  The labels of the two sliders print the value with
  \<open>String\<close> and \<open>toFixed(1)\<close>; the lemmas show that every value the form can
  produce sits exactly on a slider step and is printed exactly.
\<close>

datatype form_control =
  SelectCtl js_string js_string
  | SliderCtl js_string real real real real
  | SwitchCtl js_string bool

record form_row =
  row_label :: "js_string option"
  row_control :: form_control

record form_section =
  section_heading :: js_string
  section_rows :: "form_row list"

record settings_card =
  card_title :: js_string
  card_description :: js_string
  card_sections :: "form_section list"

definition switch_id :: "switch_control \<Rightarrow> js_string" where
  "switch_id c =
     (case c of SwPreserveImages \<Rightarrow> ''preserve-images'' | SwPreserveFormatting \<Rightarrow> ''preserve-formatting''
      | SwSmartPageBreaks \<Rightarrow> ''smart-page-breaks'' | SwIncludeIcon \<Rightarrow> ''include-icon''
      | SwIncludeCover \<Rightarrow> ''include-cover'' | SwIncludeBackground \<Rightarrow> ''include-background'')"

definition switch_label :: "switch_control \<Rightarrow> js_string" where
  "switch_label c =
     (case c of SwPreserveImages \<Rightarrow> ''Preserve Images'' | SwPreserveFormatting \<Rightarrow> ''Preserve Formatting''
      | SwSmartPageBreaks \<Rightarrow> ''Smart Page Breaks'' | SwIncludeIcon \<Rightarrow> ''Include Page Icon''
      | SwIncludeCover \<Rightarrow> ''Include Cover Image'' | SwIncludeBackground \<Rightarrow> ''Include Background'')"

definition switch_checked :: "switch_control \<Rightarrow> export_settings \<Rightarrow> bool" where
  "switch_checked c s =
     (case c of SwPreserveImages \<Rightarrow> preserveImages s | SwPreserveFormatting \<Rightarrow> preserveFormatting s
      | SwSmartPageBreaks \<Rightarrow> smartPageBreaks s | SwIncludeIcon \<Rightarrow> includeIcon s
      | SwIncludeCover \<Rightarrow> includeCover s | SwIncludeBackground \<Rightarrow> includeBackground s)"

definition switch_row :: "export_settings \<Rightarrow> switch_control \<Rightarrow> form_row" where
  "switch_row s c = \<lparr>row_label = Some (switch_label c), row_control = SwitchCtl (switch_id c) (switch_checked c s)\<rparr>"

definition settings_form :: "export_settings \<Rightarrow> settings_card" where
  "settings_form s =
     \<lparr>card_title = ''Export Settings'',
      card_description = ''Customize how your Notion page will be exported to PDF'',
      card_sections =
        [\<lparr>section_heading = ''Page Settings'',
          section_rows =
            [\<lparr>row_label = Some ''Page Size'', row_control = SelectCtl ''page-size'' (pageSize s)\<rparr>,
             \<lparr>row_label = map_option (\<lambda>n. ''Margins ('' @ n @ ''mm)'') (number_to_string (margins s)),
              row_control = SliderCtl ''margins'' 10 50 1 (margins s)\<rparr>,
             \<lparr>row_label = map_option (\<lambda>n. ''Font Scale ('' @ n @ ''x)'') (to_fixed1 (fontScale s)),
              row_control = SliderCtl ''font-scale'' (8 / 10) (3 / 2) (1 / 10) (fontScale s)\<rparr>]\<rparr>,
         \<lparr>section_heading = ''Content Settings'',
          section_rows = map (switch_row s) [SwPreserveImages, SwPreserveFormatting, SwSmartPageBreaks]\<rparr>,
         \<lparr>section_heading = ''Notion Elements'',
          section_rows = map (switch_row s) [SwIncludeIcon, SwIncludeCover, SwIncludeBackground]\<rparr>]\<rparr>"

subsection \<open>The labels print the exact values\<close>

lemma on_slider_steps_obtain:
  assumes "on_slider_steps s"
  obtains m f :: nat where "margins s = real m" "fontScale s = real f / 10" "m \<le> 50" "f \<le> 15"
proof -
  from assms obtain m f :: nat where "margins s = real m" "fontScale s * 10 = real f" "m \<le> 50" "f \<le> 15"
    by (auto simp: on_slider_steps_def)
  then show ?thesis by (intro that) simp_all
qed

lemma slider_labels:
  assumes "margins s = real m" "fontScale s = real f / 10" "m \<le> 50" "f \<le> 15"
  shows "map row_label (section_rows (hd (card_sections (settings_form s)))) =
           [Some ''Page Size'', Some (''Margins ('' @ nat_to_string m @ ''mm)''),
            Some (''Font Scale ('' @ nat_to_string (f div 10) @ ''.'' @ nat_to_string (f mod 10) @ ''x)'')]"
proof -
  have "number_to_string (margins s) = Some (nat_to_string m)"
    using assms(1,3) by (simp add: number_to_string_nat)
  moreover have "real f < 10 ^ 22" using assms(4) by simp
  then have "to_fixed1 (fontScale s) = Some (nat_to_string (f div 10) @ ''.'' @ nat_to_string (f mod 10))"
    unfolding assms(2) by (rule to_fixed1_tenths)
  ultimately show ?thesis by (simp add: settings_form_def)
qed

text \<open>Claim C20: for every settings value the form can produce, the labels of the
  two sliders are defined and print the bound value exactly: the margins as
  their whole number of millimetres and the font scale with its one decimal,
  so the label never rounds what the slider holds.\<close>

theorem settings_form_labels:
  assumes "settings_reachable s"
  shows "\<exists>m f. margins s = real m \<and> fontScale s = real f / 10 \<and>
           map row_label (section_rows (hd (card_sections (settings_form s)))) =
             [Some ''Page Size'', Some (''Margins ('' @ nat_to_string m @ ''mm)''),
              Some (''Font Scale ('' @ nat_to_string (f div 10) @ ''.'' @ nat_to_string (f mod 10) @ ''x)'')]"
proof -
  obtain m f where "margins s = real m" "fontScale s = real f / 10" "m \<le> 50" "f \<le> 15"
    using settings_reachable_steps [OF assms] by (rule on_slider_steps_obtain)
  then show ?thesis using slider_labels by blast
qed

theorem settings_form_labels_witness:
  "map row_label (section_rows (hd (card_sections
     (settings_form (merge_settings default_settings (form_patch (SlideFontScale 3))))))) =
   [Some ''Page Size'', Some ''Margins (20mm)'', Some ''Font Scale (1.1x)'']"
proof -
  let ?s = "merge_settings default_settings (form_patch (SlideFontScale 3))"
  have r: "settings_reachable ?s" by (rule settings_reachable.settings_input [OF settings_init])
  obtain m f where mf: "margins ?s = real m" "fontScale ?s = real f / 10"
    and l: "map row_label (section_rows (hd (card_sections (settings_form ?s)))) =
             [Some ''Page Size'', Some (''Margins ('' @ nat_to_string m @ ''mm)''),
              Some (''Font Scale ('' @ nat_to_string (f div 10) @ ''.'' @ nat_to_string (f mod 10) @ ''x)'')]"
    using settings_form_labels [OF r] by (elim exE conjE) (rule that)
  from mf have "m = 20" "f = 11"
    by (simp_all add: merge_settings_def form_patch_def empty_patch_def default_settings_def slider_value_def)
  with l show ?thesis by code_simp
qed

end
