(* ===== verification/AppShell.thy ===== *)
theory AppShell
  imports Dom JsNumber
begin

text \<open>
  The application shell: the root layout \<open>RootLayout\<close> and the page metadata of
  \<open>src/app/layout.tsx\<close>, and the home page \<open>Home\<close> of \<open>src/app/page.tsx\<close>, which
  mounts the exporter.  The markup is a DOM forest (JSX \<open>className\<close> is the
  \<open>class\<close> attribute; React-only props such as \<open>suppressHydrationWarning\<close> do
  not reach the DOM).  The next-themes \<open>ThemeProvider\<close> is a library component
  and enters as a function of its props and children; the clock behind
  \<open>new Date().getFullYear()\<close> enters as the year.  The two non-ASCII characters
  of the footer are carried as their UTF-8 bytes, the encoding of the served
  document.
\<close>

record page_metadata =
  meta_title :: js_string
  meta_description :: js_string

definition metadata :: page_metadata where
  "metadata = \<lparr>meta_title = ''Notion Exporter'', meta_description = ''Export your Notion documents into PDF''\<rparr>"

record theme_provider_props =
  tp_attribute :: js_string
  tp_defaultTheme :: js_string
  tp_enableSystem :: bool

definition layout_theme :: theme_provider_props where
  "layout_theme = \<lparr>tp_attribute = ''class'', tp_defaultTheme = ''light'', tp_enableSystem = True\<rparr>"

definition Home :: "dom_node list \<Rightarrow> dom_node list" where
  "Home exporter =
     [Elem ''main'' [(''class'', ''min-h-screen flex items-center justify-center p-4 md:p-8'')]
        [Elem ''div'' [(''class'', ''mx-auto max-w-6xl w-full'')] exporter]]"

definition author_name :: js_string where
  "author_name = ''Alex Ionu'' @ [CHR 0xC8, CHR 0x9B]"

definition footer_caption :: "int \<Rightarrow> dom_node list" where
  "footer_caption year =
     [Text ''Created by '',
      Elem ''a'' [(''href'', ''https://alexionut.ro''), (''target'', ''_blank''), (''rel'', ''noopener noreferrer''),
                 (''class'', ''text-blue-600 hover:underline'')] [Text author_name],
      Text ('' '' @ [CHR 0xC2, CHR 0xA9] @ '' ''), Text (int_to_string year)]"

definition RootLayout ::
  "(theme_provider_props \<Rightarrow> dom_node list \<Rightarrow> dom_node list) \<Rightarrow> int \<Rightarrow> dom_node list \<Rightarrow> dom_node list" where
  "RootLayout provider year children =
     [Elem ''html'' [(''lang'', ''en'')]
        [Elem ''body'' [(''class'', ''min-h-screen flex flex-col'')]
           (provider layout_theme
              [Elem ''div'' [(''class'', ''flex-1 flex flex-col justify-center items-center'')] children,
               Elem ''footer'' [(''class'', ''py-4 text-center text-sm text-gray-600 w-full'')]
                 [Elem ''p'' [] (footer_caption year)]])]]"

text \<open>The document served for \<open>/\<close>: the home page inside the root layout.\<close>

definition app_document ::
  "(theme_provider_props \<Rightarrow> dom_node list \<Rightarrow> dom_node list) \<Rightarrow> int \<Rightarrow> dom_node list \<Rightarrow> dom_node list" where
  "app_document provider year exporter = RootLayout provider year (Home exporter)"

subsection \<open>Text of the document\<close>

lemma footer_caption_text:
  "text_of (footer_caption year) = ''Created by '' @ author_name @ '' '' @ [CHR 0xC2, CHR 0xA9] @ '' '' @ int_to_string year"
  by (simp add: footer_caption_def)

text \<open>A provider that renders its children after markup of its own (next-themes
  puts an inline script first) gives the document the text of that markup, then
  the exporter's text, then the footer caption with the year.\<close>

lemma app_document_text:
  assumes "\<And>cs. text_of (provider layout_theme cs) = pre @ text_of cs"
  shows "text_of (app_document provider year exporter) =
           pre @ text_of exporter @ ''Created by '' @ author_name @ '' '' @ [CHR 0xC2, CHR 0xA9] @ '' '' @
           int_to_string year"
  using assms by (simp add: app_document_def RootLayout_def Home_def footer_caption_text)

end
