(* ===== verification/Spec2Isabelle.thy ===== *)
theory Spec2Isabelle
  imports PreviewToolbar FetchRoute ExportRoute SessionView Generator Structural SettingsForm AppShell
begin

text \<open>
  Verification model of the Notion PDF exporter (repository
  katakuna1/notion-exporter, TypeScript/Next.js).

  \<^bold>\<open>The program.\<close> A Notion page's HTML is turned into a page record
  \<open>NotionPageData\<close> (\<open>src/types/notion.ts\<close>) by one of two extractors: a
  textual one built on regular expressions (\<open>parseNotionPage\<close> with the
  normaliser \<open>cleanNotionContent\<close>, behind the route
  \<open>src/app/api/fetch-notion/route.ts\<close>) and a structural one over a JSDOM
  tree (\<open>fetchNotionPage\<close>, \<open>src/app/actions/notion.ts\<close>).  The page is
  previewed by \<open>PDFPreview\<close> (\<open>src/components/pdf-preview.tsx\<close>), which
  cuts the content into windows of 4000 characters, and exported either by the
  canvas generator \<open>generatePDF\<close> (\<open>src/lib/pdf-generator.ts\<close>) or by the
  puppeteer route (\<open>src/app/api/export-pdf/route.ts\<close>).  The settings form
  \<open>ExportSettings\<close> (\<open>src/components/export-settings.tsx\<close>) edits the
  settings record.  The session component \<open>NotionExporter\<close>
  (\<open>src/components/notion-exporter.tsx\<close>) is the page the app renders: it
  reads an uploaded file, shows it in an iframe and posts its HTML to the
  puppeteer route.  As shipped, nothing calls the fetch route, the server
  action, \<open>generatePDF\<close>, \<open>PDFPreview\<close> or the settings form: the session
  imports the last two without rendering them.  Each is modelled as written
  and its properties hold of it when called.

  \<^bold>\<open>Library layout.\<close>
  \<^item> \<open>Prelude\<close>: the JavaScript string primitives the code calls
    (\<open>substring\<close>, \<open>trim\<close>, \<open>includes\<close>, \<open>endsWith\<close>, string \<open>replace\<close>,
    number printing, truthiness of \<open>string | null\<close>), modelled from ECMAScript,
    with their lemmas.  Characters are code units; white space is ASCII.
  \<^item> \<open>NotionTypes\<close>: the records of \<open>src/types/notion.ts\<close> and the default
    settings.
  \<^item> \<open>Preview\<close>: \<open>PDFPreview\<close>.  \<open>split_pages\<close>/\<open>build_pages\<close> are the
    \<open>useEffect\<close> loop; \<open>preview_state\<close> is the component state, \<open>nextPage\<close>,
    \<open>prevPage\<close>, \<open>zoomIn\<close>, \<open>zoomOut\<close>, \<open>recompute_pages\<close> its transitions,
    combined in \<open>preview_step\<close> and closed under \<open>preview_reachable\<close>;
    \<open>pageContent\<close> returns the drawn page as a \<open>page_view\<close> record.  The
    lemmas show the loop computes fixed windows (\<open>build_pages_eq\<close>), hence the
    page count and the exact reconstruction of the content; the invariant
    \<open>preview_inv\<close> (page number in range, zoom a tenth in [0.3, 1.2]) holds in every
    reachable state by rule induction; and the drawn page shows the cover and the
    title block only on page 1 and the current slice.  Zoom arithmetic is exact
    real arithmetic with \<open>Math.round\<close> as \<open>round\<close>; the rounding in the code
    makes the floating-point error of \<open>0.1\<close> irrelevant.

  \<^item> \<open>JsRegex\<close>: the fragment of JavaScript regular expressions the code
    uses: character classes, sequence, alternation, greedy and lazy stars,
    numbered groups, the \<open>i\<close> flag (ASCII case folding) and the \<open>g\<close> flag.
    \<open>mt\<close> is the backtracking matcher of ECMAScript 22.2.2, returning the
    continuations in priority order (an iteration of a star that consumes nothing
    is rejected, as in RepeatMatcher step 2.b); \<open>rx_search\<close> is
    \<open>String.prototype.match\<close> without \<open>g\<close> (leftmost start, first
    alternative); \<open>replace_all\<close> is \<open>replace\<close> with \<open>g\<close> (empty matches
    advance by one) and \<open>expand\<close> the \<open>$n\<close> references of the replacement.
    Its lemmas compute the matcher on literals, stars of one character class and
    lazy groups closed by a literal, and locate the leftmost match.
  \<^item> \<open>Normalizer\<close>: \<open>cleanNotionContent\<close> (route.ts lines 122-152), its
    seventeen rules in the code's order as \<open>(pattern, replacement)\<close> pairs.
    Proved: \<open>/\s+/g\<close> computes \<open>collapse_ws\<close>; every output is trimmed
    and has no two adjacent white-space characters; text without markup is
    only white-space normalised.  Lemmas evaluated on concrete inputs exhibit
    the failures of the rule set (not idempotent, a dead code-block rule,
    \<open><th\<close> matching \<open><thead\<close>).
  \<^item> \<open>Extractor\<close>: \<open>parseNotionPage\<close> (route.ts lines 57-120): each
    field a \<open>rx_search\<close> with the \<open>i\<close> flag, the content container with the
    body fallback and its five global strips.  Proved: the \<open>Untitled\<close>
    fallback; the title of a first \<open><title>\<close> element in general
    (\<open>extract_title_first\<close>), hence the removal of the first
    \<open>" | Notion"\<close> wherever it occurs and the empty title for a blank
    element.  Lemmas on concrete pages show the truncation of nested content and
    a script element that survives the fallback strips.

  \<^item> \<open>FetchRoute\<close>: the \<open>POST\<close> handler of the fetch route, with
    \<open>request.json()\<close>, the URL parser's \<open>hostname\<close> and \<open>fetch\<close> as inputs
    (\<open>js_result\<close>: returned or thrown) and the JSON response with its status
    as output.  Proved: page data only after a successful fetch of an accepted
    host, and it is \<open>parseNotionPage\<close> of the text; every error has a
    non-2xx status; a rejected host is answered before any fetch; and the host
    check accepts look-alike hosts.
  \<^item> \<open>ExportRoute\<close>: the puppeteer route as a function from the outcomes of
    the browser calls to the response and the log of calls.  Proved: once
    launched, the browser is closed last on every path; the PDF answer implies
    the full call sequence; the print options are fixed to A4; a failing
    \<open>close\<close> is retried in the \<open>catch\<close>, and a second failure rejects the
    handler.
  \<^item> \<open>Settings\<close>: the form's inputs as partial settings, the merge
    \<open>{...s, ...patch}\<close> and the settings reachable from the defaults;
    proved valid (page size, margins in [10, 50], font scale in [0.8, 1.5]) and
    on the sliders' steps (\<open>on_slider_steps\<close>: whole millimetres, whole
    tenths), by rule induction.
  \<^item> \<open>JsNumber\<close>: \<open>String(x)\<close> for integral numbers and
    \<open>toFixed(1)\<close> (ECMAScript 21.1.3.3: the nearest tenth, the larger on a
    tie, padded to one integer digit); values the model does not print
    (non-integral \<open>String\<close>, magnitudes from \<open>10^21\<close>) are \<open>None\<close>.
  \<^item> \<open>SettingsForm\<close>: what \<open>ExportSettings\<close> renders for its
    \<open>settings\<close> prop (\<open>settings_form\<close>: title, sections, each row's label
    and bound control).  Proved: for every reachable settings value the
    slider labels are defined and print the value exactly.
  \<^item> \<open>Session\<close>: \<open>NotionExporter\<close> as a step function on its state, each
    handler split at its \<open>await\<close> into an event and a pending continuation
    that settles later, so reads and exports interleave.  Proved by rule
    induction: at most one export is pending and \<open>exporting\<close> tracks it, the
    loading flag implies a pending read, the page data is derived from the
    loaded HTML.  Also: failure reporting, that no event reads the settings,
    and the race in which an older read overwrites a newer one.
  \<^item> \<open>Dom\<close>: DOM forests with the operations the code calls on parsed trees
    (\<open>querySelectorAll\<close> order, \<open>remove()\<close>, inline styles, \<open>textContent\<close>).
  \<^item> \<open>Generator\<close>: \<open>generatePDF\<close>: page geometry, the container template,
    the parsed tree after page-break styles and image removal, and the strip
    loop as a fold producing the jsPDF pages; the parser, html2canvas and
    \<open>getContext\<close> are inputs.  The loop bound keeps the IEEE cases that
    decide termination (\<open>Infinity\<close>, \<open>NaN\<close>, signed zeros), and
    \<open>drawImage\<close> throws \<open>InvalidStateError\<close> on an empty source canvas; an
    unbounded loop is \<open>first_ctx\<close>, a \<open>partial_function (option)\<close> whose
    \<open>None\<close> is non-termination, so the outcome is \<open>Settled\<close> or
    \<open>Hangs\<close>.  Proved: the strips tile the bitmap; the pages and captions;
    the container is removed whenever the promise settles; no image survives
    with \<open>preserveImages\<close> off; the loop never ends exactly when the
    bitmap has width 0, the bound is \<open>Infinity\<close> and no page canvas ever gets
    a 2D context (\<open>generatePDF_hangs_iff\<close>).
  \<^item> \<open>Structural\<close>: the server action \<open>fetchNotionPage\<close>: its URL check and
    fetch, and each field read by \<open>querySelector\<close> (type, class, attribute and
    descendant selectors in document order) over the tree JSDOM builds, with the
    body-style regular expression on \<open>JsRegex\<close>; JSDOM's parser, the
    \<open>innerHTML\<close> serialiser and \<open>img.src\<close> resolution are inputs.  Proved:
    page data only on the success path; and a page on which the two extraction
    strategies disagree in title, icon and background.
  \<^item> \<open>PreviewToolbar\<close>: the preview's toolbar (disabled flags, zoom
    percentage, page label) and the card around it (\<open>preview_card\<close>);
    each button is disabled exactly when its handler is a no-op, in every
    reachable state, and the toolbar's page label is the drawn page's.
  \<^item> \<open>SessionView\<close>: what \<open>NotionExporter\<close> renders (dialog, theme
    toggle, error alert, loading card, loaded panel with title, iframe and
    export button); in every reachable state the title shown is the one of the
    HTML shown and the button reflects the pending export.
  \<^item> \<open>AppShell\<close>: the application shell, \<open>RootLayout\<close> and
    \<open>metadata\<close> of \<open>src/app/layout.tsx\<close> and \<open>Home\<close> of
    \<open>src/app/page.tsx\<close>, as a DOM forest around the exporter's markup; the
    next-themes \<open>ThemeProvider\<close> is an input and the year comes from the
    clock.  Its lemma gives the text of the served document: the provider's
    own markup, the exporter's text, then the footer caption with the year.
  \<^item> This theory: properties across components.  Every page of the textual
    extractor is well formed (\<open>textual_page_wf\<close>).  With settings from the
    form, a zero-width bitmap makes the generator reject with
    \<open>InvalidStateError\<close> and remove its container; the generator and the
    preview's first page agree on cover, icon and background; the two title
    paths disagree on every page with an empty title element.

  \<^bold>\<open>Not modelled.\<close> React styling and static markup (class names,
  headings, help text; the JSX is modelled only as far as it carries state: the
  preview's drawn page and toolbar, the session's view record, the settings
  card's rows, the shell's document), the module imports, the \<open>next-themes\<close>
  theme resolution behind \<open>useTheme\<close> and \<open>ThemeProvider\<close>, and the
  libraries the code only calls: JSDOM's and the browser's HTML parsers,
  html2canvas rasterisation, jsPDF encoding, puppeteer's rendering and the
  network.  Their results enter
  the model as inputs.  Numbers interpolated into the generator's template are
  carried as reals, not as the strings \<open>Number.prototype.toString\<close> makes
  (the settings labels are printed, through \<open>JsNumber\<close>); lengths use
  exact real arithmetic.  A \<open>catch\<close> that receives a non-\<open>Error\<close> value is
  not modelled (every throw of the code is an \<open>Error\<close>).
\<close>

section \<open>Properties across components\<close>

text \<open>Well-formed pages of the textual extractor.\<close>

definition textual_page_wf :: "notion_page_data \<Rightarrow> bool" where
  "textual_page_wf p \<longleftrightarrow>
     js_trim (title p) = title p \<and>
     js_trim (content p) = content p \<and> ws_collapsed (content p) \<and>
     (case icon p of
        Some ic \<Rightarrow> icon_type ic = Emoji \<longrightarrow> js_trim (icon_content ic) = icon_content ic
      | None \<Rightarrow> True) \<and>
     (case backgroundColor p of Some c \<Rightarrow> js_trim c = c | None \<Rightarrow> True) \<and>
     author p = None"

lemma js_trim_untitled: "js_trim ''Untitled'' = ''Untitled''"
  by (simp add: js_trim_def is_js_space_def)

text \<open>Claim C36: every page record the textual extractor produces is well formed:
  its title, emoji and background are trimmed, its content is in the
  normaliser's normal form (trimmed, no two adjacent white-space characters),
  it carries no author, and it keeps the input HTML unchanged.\<close>

theorem parseNotionPage_wf:
  "textual_page_wf (parseNotionPage html) \<and> originalHtml (parseNotionPage html) = html"
proof -
  have t: "js_trim (extract_title html) = extract_title html"
    by (simp add: extract_title_def js_trim_idem js_trim_untitled split: option.splits)
  have c: "js_trim (cleanNotionContent x) = cleanNotionContent x \<and> ws_collapsed (cleanNotionContent x)" for x
    by (simp add: cleanNotionContent_def apply_whitespace_rule js_trim_idem ws_collapsed_trim
        ws_collapsed_collapse_ws)
  have i: "case extract_icon html of
             Some ic \<Rightarrow> icon_type ic = Emoji \<longrightarrow> js_trim (icon_content ic) = icon_content ic
           | None \<Rightarrow> True"
    by (simp add: extract_icon_def js_trim_idem split: option.splits)
  have b: "case extract_background html of Some c \<Rightarrow> js_trim c = c | None \<Rightarrow> True"
    by (simp add: extract_background_def js_trim_idem split: option.splits)
  show ?thesis using t c i b by (simp add: textual_page_wf_def parseNotionPage_def)
qed

theorem parseNotionPage_wf_witness:
  "textual_page_wf (parseNotionPage ''<title> Notes </title>'') \<and>
   originalHtml (parseNotionPage ''<title> Notes </title>'') = ''<title> Notes </title>''"
  by (rule parseNotionPage_wf)

lemma settings_reachable_geometry:
  assumes "settings_reachable st"
  shows "margins st * 2 < page_width (pageSize st) \<and> margins st * 2 < page_height (pageSize st)"
proof -
  have "settings_ok st"
    using assms
  proof (induction rule: settings_reachable.induct)
    case settings_init
    then show ?case by (rule default_settings_ok)
  next
    case (settings_input s inp)
    from settings_input.IH show ?case by (rule form_input_preserves_ok)
  qed
  then show ?thesis by (auto simp: settings_ok_def page_width_def page_height_def)
qed

text \<open>Claim C30: for every settings value the form can produce, a bitmap of
  width 0 and positive height from html2canvas makes \<open>generatePDF\<close> reject
  with \<open>InvalidStateError\<close> as soon as a page canvas gets a 2D context, and the
  container is removed: the form's margins leave a positive printable width, so
  the loop bound \<open>Math.ceil(h / 0)\<close> is \<open>Infinity\<close> and only the throw of
  \<open>drawImage\<close> on the empty source ends the loop.\<close>

theorem form_settings_zero_width_rejects:
  assumes "settings_reachable st"
    and "render (container_dom parse p st) = Returned cv" "cv_width cv = 0" "0 < cv_height cv" "ctx_ok i"
  shows "generatePDF parse render ctx_ok p st =
           (Settled (Thrown invalid_state_error), [AppendContainer, RemoveContainer])"
  using settings_reachable_geometry [OF assms(1)] assms(2-5) by (intro generatePDF_zero_width_rejects) simp_all

theorem form_settings_zero_width_rejects_witness:
  "generatePDF (\<lambda>_. []) (\<lambda>_. Returned \<lparr>cv_width = 0, cv_height = 600\<rparr>) (\<lambda>i. 2 \<le> i)
     \<lparr>title = ''T'', icon = None, coverImage = None, content = [], backgroundColor = None,
      originalHtml = [], author = None\<rparr> (merge_settings default_settings (form_patch (SlideMargins 40))) =
   (Settled (Thrown invalid_state_error), [AppendContainer, RemoveContainer])"
  by (rule form_settings_zero_width_rejects [where i = 2 and cv = "\<lparr>cv_width = 0, cv_height = 600\<rparr>"])
     (simp_all add: settings_reachable.settings_input [OF settings_init])

text \<open>Claim C31: the canvas generator and the preview's first page make the same
  decisions from the settings: the cover block is drawn by one exactly when by
  the other, likewise the icon, and the background colour is the same.\<close>

theorem generator_matches_preview_first_page:
  assumes "pages s \<noteq> []" and "currentPage s = 1"
  shows "\<exists>v. pageContent (Some p) st s = Some v \<and>
           (cover_block p st \<noteq> []) = (view_cover v \<noteq> None) \<and>
           (icon_block p st \<noteq> []) = (view_icon v \<noteq> None) \<and>
           container_background p st = view_background v"
  using assms
  by (auto simp: pageContent_def cover_block_def icon_block_def container_background_def js_present_def
      split: option.splits)

theorem generator_matches_preview_first_page_witness:
  "\<exists>v. pageContent (Some \<lparr>title = ''T'', icon = None, coverImage = Some ''c.png'', content = [],
        backgroundColor = Some ''#fff'', originalHtml = [], author = None\<rparr>) default_settings
        (preview_init\<lparr>pages := [''x'']\<rparr>) = Some v \<and>
     (cover_block \<lparr>title = ''T'', icon = None, coverImage = Some ''c.png'', content = [],
        backgroundColor = Some ''#fff'', originalHtml = [], author = None\<rparr> default_settings \<noteq> []) =
       (view_cover v \<noteq> None) \<and>
     (icon_block \<lparr>title = ''T'', icon = None, coverImage = Some ''c.png'', content = [],
        backgroundColor = Some ''#fff'', originalHtml = [], author = None\<rparr> default_settings \<noteq> []) =
       (view_icon v \<noteq> None) \<and>
     container_background \<lparr>title = ''T'', icon = None, coverImage = Some ''c.png'', content = [],
        backgroundColor = Some ''#fff'', originalHtml = [], author = None\<rparr> default_settings = view_background v"
  by (rule generator_matches_preview_first_page) (simp_all add: preview_init_def)

text \<open>For the legal page size the preview draws an 11 inch (279.4 mm)
  page while the canvas generator cuts 355.6 mm pages: the preview shows a
  letter-sized page for legal.\<close>

theorem preview_generator_legal_height:
  assumes "pageSize st = ''legal''" and "pages s \<noteq> []"
  shows "map_option view_height (pageContent (Some p) st s) = Some ''11in'' \<and>
         page_height (pageSize st) = 3556/10 \<and> (11::real) * (254/10) \<noteq> 3556/10"
  using assms by (simp add: pageContent_def page_height_def)

theorem preview_generator_legal_height_witness:
  "map_option view_height (pageContent (Some \<lparr>title = ''T'', icon = None, coverImage = None, content = [],
        backgroundColor = None, originalHtml = [], author = None\<rparr>) (default_settings\<lparr>pageSize := ''legal''\<rparr>)
        (preview_init\<lparr>pages := [''x'']\<rparr>)) = Some ''11in'' \<and>
   page_height (pageSize (default_settings\<lparr>pageSize := ''legal''\<rparr>)) = 3556/10 \<and> (11::real) * (254/10) \<noteq> 3556/10"
  by (rule preview_generator_legal_height) simp_all

text \<open>Claim C32: the two title paths disagree on every page whose first title
  element is empty: the upload handler reads the DOM's \<open>document.title\<close> (an
  input, here the empty string) and falls back to \<open>Untitled\<close>, since its
  \<open>||\<close> treats the empty string as missing, while the fetch route matches the
  element and keeps the empty title.\<close>

theorem session_route_titles_differ:
  assumes pre: "\<not> ci_includes True (pre @ ''<title'') ''<title>''"
    and dt: "doc_title (pre @ ''<title></title>'' @ post) = Some []"
  shows "title (session_page doc_title (pre @ ''<title></title>'' @ post)) = ''Untitled'' \<and>
         extract_title (pre @ ''<title></title>'' @ post) = []"
proof
  show "title (session_page doc_title (pre @ ''<title></title>'' @ post)) = ''Untitled''"
    using dt by (simp add: session_page_def js_or_str_def)
  have cl: "\<not> ci_includes True ([] @ ''</title'') ''</title>''" by code_simp
  have "extract_title (pre @ ''<title>'' @ [] @ ''</title>'' @ post) = js_trim (replace_first_str [] '' | Notion'' [])"
    by (rule extract_title_first [OF pre cl]) simp
  then show "extract_title (pre @ ''<title></title>'' @ post) = []" by (simp add: js_trim_def)
qed

theorem session_route_titles_differ_witness:
  "title (session_page (\<lambda>_. Some []) (''<head>'' @ ''<title></title>'' @ ''</head>'')) = ''Untitled'' \<and>
   extract_title (''<head>'' @ ''<title></title>'' @ ''</head>'') = []"
proof -
  have "\<not> ci_includes True (''<head>'' @ ''<title'') ''<title>''" by code_simp
  then show ?thesis by (rule session_route_titles_differ) simp
qed

end
